theory Spec2Isabelle
  imports Main "HOL-Library.Word"
begin

unbundle bit_operations_syntax

section \<open>Bytes, Python values and errors\<close>

text \<open>
  The three scripts of the repository are modelled: the two fixture generators
  (\<^verbatim>\<open>generate_test_data.py\<close>, \<^verbatim>\<open>generate_primitive_test_binaries.py\<close>) and the
  driver \<^verbatim>\<open>run_ir_parity_checks.py\<close>. A byte is an 8-bit word, a Python \<^verbatim>\<open>int\<close> is an
  unbounded \<open>int\<close>, and a Python \<^verbatim>\<open>float\<close> is the bit pattern of its IEEE-754
  binary64 value. Every exception the code can raise is a value of \<open>py_error\<close>.
  Console output (\<^verbatim>\<open>print\<close>) is not modelled.
\<close>

type_synonym byte = "8 word"

datatype py_error =
    StructError
  | OverflowError
  | ValueError
  | FileExistsError
  | NotADirectoryError
  | IsADirectoryError
  | FileNotFoundError
  | OSError
  | NotModelled

datatype pyval = PInt int | PFloat "64 word"

section \<open>IEEE-754 rounding\<close>

text \<open>
  \<open>bit_length n\<close> is the number of binary digits of \<open>n\<close>; \<open>floor_log2 num den\<close> is the
  integer \<open>e\<close> with \<open>2 ^ e \<le> num / den < 2 ^ (e + 1)\<close> for positive \<open>num\<close>, \<open>den\<close>
  (the exponent may be negative, so it is an \<open>int\<close>).
\<close>

function bit_length :: "int \<Rightarrow> int" where
  "bit_length n = (if n \<le> 0 then 0 else 1 + bit_length (n div 2))"
  by pat_completeness auto
termination
  by (relation "measure nat") auto

declare bit_length.simps [simp del]

definition floor_log2 :: "int \<Rightarrow> int \<Rightarrow> int" where
  "floor_log2 num den =
     (let c = bit_length num - bit_length den
      in if (if 0 \<le> c then den * 2 ^ nat c \<le> num else den \<le> num * 2 ^ nat (- c))
         then c else c - 1)"

definition round_half_even :: "int \<Rightarrow> int \<Rightarrow> int" where
  "round_half_even n d =
     (let q = n div d; r = n mod d
      in if d < 2 * r \<or> (2 * r = d \<and> odd q) then q + 1 else q)"

text \<open>
  \<open>ieee_round w t num den\<close> rounds the non-negative rational \<open>num / den\<close> to the nearest
  value (ties to even) of the binary format with \<open>w\<close> exponent bits and \<open>t\<close> fraction
  bits, and returns exponent and fraction field as one number. Subnormal results have
  exponent field 0; a result at or above \<open>ieee_inf w t\<close> is beyond the largest finite value.
\<close>

definition ieee_round :: "nat \<Rightarrow> nat \<Rightarrow> int \<Rightarrow> int \<Rightarrow> int" where
  "ieee_round w t num den =
     (if num \<le> 0 then 0
      else
        let emin = 2 - 2 ^ (w - 1);
            e = max (floor_log2 num den) emin;
            s = e - int t;
            q = (if 0 \<le> s then round_half_even num (den * 2 ^ nat s)
                 else round_half_even (num * 2 ^ nat (- s)) den)
        in (e - emin) * 2 ^ t + q)"

definition ieee_inf :: "nat \<Rightarrow> nat \<Rightarrow> int" where
  "ieee_inf w t = (2 ^ w - 1) * 2 ^ t"

text \<open>
  A Python float literal with decimal digits \<open>m\<close> and decimal exponent \<open>k\<close> denotes the
  binary64 value nearest to \<open>m * 10 ^ k\<close>; a literal too large is \<^verbatim>\<open>inf\<close>. The literal
  \<^verbatim>\<open>3.14159\<close> is \<open>float_lit 314159 (-5)\<close>; unary minus flips the sign bit.
\<close>

definition float_lit :: "int \<Rightarrow> int \<Rightarrow> 64 word" where
  "float_lit m k =
     (let r = (if 0 \<le> k then ieee_round 11 52 (m * 10 ^ nat k) 1
               else ieee_round 11 52 m (10 ^ nat (- k)))
      in of_int (min r (ieee_inf 11 52)))"

definition float_neg :: "64 word \<Rightarrow> 64 word" where
  "float_neg x = x XOR push_bit 63 1"

text \<open>Conversion of a Python int to float: correctly rounded, OverflowError when too large.\<close>

definition float_of_int :: "int \<Rightarrow> py_error + 64 word" where
  "float_of_int v =
     (let r = ieee_round 11 52 \<bar>v\<bar> 1
      in if ieee_inf 11 52 \<le> r then Inl OverflowError
         else Inr (if v < 0 then float_neg (of_int r) else of_int r))"

text \<open>
  Narrowing a binary64 value to binary32, as packing with format \<^verbatim>\<open>f\<close> does: infinities
  stay infinities, a finite value that rounds beyond the largest binary32 value raises
  OverflowError. A quiet NaN keeps its sign and the upper 23 bits of its fraction. What
  becomes of a signalling NaN depends on the version of the interpreter and is not
  modelled.
\<close>

definition double_to_single :: "64 word \<Rightarrow> py_error + 32 word" where
  "double_to_single x =
     (let sign = (if bit x 63 then push_bit 31 1 else 0) :: 32 word;
          ex = (uint x div 2 ^ 52) mod 2048;
          fr = uint x mod 2 ^ 52
      in if ex = 2047
         then (if fr = 0 then Inr (sign OR 0x7F800000)
               else if 2 ^ 51 \<le> fr then Inr (sign OR 0x7F800000 OR of_int (fr div 2 ^ 29))
               else Inl NotModelled)
         else
           let r = (if ex = 0 then ieee_round 8 23 fr (2 ^ 1074)
                    else if 1075 \<le> ex then ieee_round 8 23 ((2 ^ 52 + fr) * 2 ^ nat (ex - 1075)) 1
                    else ieee_round 8 23 (2 ^ 52 + fr) (2 ^ nat (1075 - ex)))
           in if ieee_inf 8 23 \<le> r then Inl OverflowError else Inr (sign OR of_int r))"

section \<open>struct.pack\<close>

text \<open>
  The format characters the scripts use. With the prefix \<^verbatim>\<open><\<close> sizes are the standard
  ones and nothing is aligned. Without a prefix sizes and alignment are the platform's;
  the scripts use that mode only for the single one-byte format \<^verbatim>\<open>B\<close>, and the model
  covers native mode only for formats of one one-byte item. Repeat counts, pad bytes and
  the other format characters are not used by the scripts and are not modelled.
\<close>

datatype code = Fmt_B | Fmt_H | Fmt_I | Fmt_Q | Fmt_b | Fmt_h | Fmt_i | Fmt_q | Fmt_f | Fmt_d

datatype byte_order = Little | Big | Native

fun code_of_char :: "char \<Rightarrow> code option" where
  "code_of_char c =
     (if c = CHR ''B'' then Some Fmt_B else if c = CHR ''H'' then Some Fmt_H
      else if c = CHR ''I'' then Some Fmt_I else if c = CHR ''Q'' then Some Fmt_Q
      else if c = CHR ''b'' then Some Fmt_b else if c = CHR ''h'' then Some Fmt_h
      else if c = CHR ''i'' then Some Fmt_i else if c = CHR ''q'' then Some Fmt_q
      else if c = CHR ''f'' then Some Fmt_f else if c = CHR ''d'' then Some Fmt_d
      else None)"

fun parse_codes :: "string \<Rightarrow> py_error + code list" where
  "parse_codes [] = Inr []"
| "parse_codes (c # cs) =
     (case code_of_char c of
        None \<Rightarrow> Inl NotModelled
      | Some k \<Rightarrow> (case parse_codes cs of Inl e \<Rightarrow> Inl e | Inr ks \<Rightarrow> Inr (k # ks)))"

fun parse_format :: "string \<Rightarrow> py_error + byte_order \<times> code list" where
  "parse_format [] = Inr (Native, [])"
| "parse_format (c # cs) =
     (if c = CHR ''<'' then map_sum id (Pair Little) (parse_codes cs)
      else if c = CHR ''>'' \<or> c = CHR ''!'' then map_sum id (Pair Big) (parse_codes cs)
      else if c = CHR ''='' then Inl NotModelled
      else if c = CHR ''@'' then map_sum id (Pair Native) (parse_codes cs)
      else map_sum id (Pair Native) (parse_codes (c # cs)))"

fun code_size :: "code \<Rightarrow> nat" where
  "code_size Fmt_B = 1" | "code_size Fmt_H = 2" | "code_size Fmt_I = 4" | "code_size Fmt_Q = 8"
| "code_size Fmt_b = 1" | "code_size Fmt_h = 2" | "code_size Fmt_i = 4" | "code_size Fmt_q = 8"
| "code_size Fmt_f = 4" | "code_size Fmt_d = 8"

fun code_signed :: "code \<Rightarrow> bool" where
  "code_signed Fmt_b = True" | "code_signed Fmt_h = True"
| "code_signed Fmt_i = True" | "code_signed Fmt_q = True"
| "code_signed _ = False"

text \<open>\<open>le_bytes n v\<close>: the \<open>n\<close> low-order bytes of \<open>v\<close>, least significant first.\<close>

fun le_bytes :: "nat \<Rightarrow> int \<Rightarrow> byte list" where
  "le_bytes 0 v = []"
| "le_bytes (Suc n) v = of_int (v mod 256) # le_bytes n (v div 256)"

text \<open>
  Packing one integer: a value outside the range of the format raises \<^verbatim>\<open>struct.error\<close>,
  as does a float where an integer is required; a negative value is written in two's
  complement.
\<close>

definition pack_int :: "code \<Rightarrow> int \<Rightarrow> py_error + byte list" where
  "pack_int c v =
     (let bits = 8 * code_size c;
          lo = (if code_signed c then - (2 ^ (bits - 1)) else 0);
          hi = (if code_signed c then 2 ^ (bits - 1) - 1 else 2 ^ bits - 1)
      in if lo \<le> v \<and> v \<le> hi then Inr (le_bytes (code_size c) (v mod 2 ^ bits))
         else Inl StructError)"

definition as_double :: "pyval \<Rightarrow> py_error + 64 word" where
  "as_double v = (case v of PFloat x \<Rightarrow> Inr x | PInt n \<Rightarrow> float_of_int n)"

fun pack1 :: "code \<Rightarrow> pyval \<Rightarrow> py_error + byte list" where
  "pack1 Fmt_f v =
     (case as_double v of Inl e \<Rightarrow> Inl e
      | Inr x \<Rightarrow> (case double_to_single x of Inl e \<Rightarrow> Inl e
                  | Inr y \<Rightarrow> Inr (le_bytes 4 (uint y))))"
| "pack1 Fmt_d v =
     (case as_double v of Inl e \<Rightarrow> Inl e | Inr x \<Rightarrow> Inr (le_bytes 8 (uint x)))"
| "pack1 c (PInt n) = pack_int c n"
| "pack1 c (PFloat x) = Inl StructError"

text \<open>Items are packed left to right; the first failing item raises.\<close>

fun pack_items :: "byte_order \<Rightarrow> code list \<Rightarrow> pyval list \<Rightarrow> py_error + byte list" where
  "pack_items bo [] [] = Inr []"
| "pack_items bo (c # cs) (v # vs) =
     (case pack1 c v of Inl e \<Rightarrow> Inl e
      | Inr b \<Rightarrow> (case pack_items bo cs vs of Inl e \<Rightarrow> Inl e
                  | Inr bs \<Rightarrow> Inr ((if bo = Big then rev b else b) @ bs)))"
| "pack_items bo _ _ = Inl StructError"

definition pack :: "string \<Rightarrow> pyval list \<Rightarrow> py_error + byte list" where
  "pack fmt vs =
     (case parse_format fmt of Inl e \<Rightarrow> Inl e
      | Inr (bo, cs) \<Rightarrow>
          if length cs \<noteq> length vs then Inl StructError
          else if bo = Native \<and> \<not> (length cs = 1 \<and> code_size (hd cs) = 1) then Inl NotModelled
          else pack_items bo cs vs)"

section \<open>bytearray\<close>

text \<open>
  \<^verbatim>\<open>data.extend(x)\<close> appends the bytes of \<open>x\<close>; when \<open>x\<close> is a list of ints, each must be
  in \<open>range(256)\<close>, else ValueError. \<open>build\<close> runs the \<^verbatim>\<open>extend\<close> calls of a generator in
  order on an empty \<^verbatim>\<open>bytearray\<close>; the argument of each call is evaluated first and may
  itself raise.
\<close>

fun bytes_of_ints :: "int list \<Rightarrow> py_error + byte list" where
  "bytes_of_ints [] = Inr []"
| "bytes_of_ints (x # xs) =
     (if 0 \<le> x \<and> x < 256
      then (case bytes_of_ints xs of Inl e \<Rightarrow> Inl e | Inr bs \<Rightarrow> Inr (of_int x # bs))
      else Inl ValueError)"

definition extend :: "py_error + byte list \<Rightarrow> py_error + byte list \<Rightarrow> py_error + byte list" where
  "extend data x =
     (case data of Inl e \<Rightarrow> Inl e
      | Inr d \<Rightarrow> (case x of Inl e \<Rightarrow> Inl e | Inr b \<Rightarrow> Inr (d @ b)))"

definition build :: "(py_error + byte list) list \<Rightarrow> py_error + byte list" where
  "build steps = foldl extend (Inr []) steps"

section \<open>The file system\<close>

text \<open>
  A path is the list of its components from the root; the file system maps a path to a
  directory or to a file with its content. The root always exists and is a directory.
  Permissions, links, \<^verbatim>\<open>..\<close> and a full disk are not modelled. A script that raises keeps
  the changes it made before: an action returns the exception, if any, and the new file
  system.
\<close>

type_synonym path = "string list"

datatype node = Dir | File "byte list"

type_synonym fs = "path \<Rightarrow> node option"

type_synonym action = "fs \<Rightarrow> py_error option \<times> fs"

text \<open>
  Splitting a path string at \<^verbatim>\<open>/\<close>; empty components and \<^verbatim>\<open>.\<close> are dropped. A path
  string that starts with exactly two slashes, which pathlib keeps apart from one that
  starts with one, is read as starting with one.
\<close>

definition keep_part :: "string \<Rightarrow> string list" where
  "keep_part cur = (if cur = [] \<or> cur = ''.'' then [] else [cur])"

fun split_path :: "string \<Rightarrow> string \<Rightarrow> string list" where
  "split_path cur [] = keep_part cur"
| "split_path cur (c # cs) =
     (if c = CHR ''/'' then keep_part cur @ split_path [] cs else split_path (cur @ [c]) cs)"

definition path_parts :: "string \<Rightarrow> string list" where
  "path_parts s = split_path [] s"

definition is_absolute :: "string \<Rightarrow> bool" where
  "is_absolute s = (case s of [] \<Rightarrow> False | c # _ \<Rightarrow> c = CHR ''/'')"

text \<open>\<^verbatim>\<open>base / s\<close> and \<^verbatim>\<open>os.path.join(base, s)\<close>: an absolute \<open>s\<close> replaces \<open>base\<close>.\<close>

definition join :: "path \<Rightarrow> string \<Rightarrow> path" where
  "join base s = (if is_absolute s then path_parts s else base @ path_parts s)"

definition parent :: "path \<Rightarrow> path" where
  "parent p = butlast p"

definition exists_path :: "fs \<Rightarrow> path \<Rightarrow> bool" where
  "exists_path fs p = (p = [] \<or> fs p \<noteq> None)"

text \<open>
  \<^verbatim>\<open>mkdir(parents=True, exist_ok=True)\<close> and \<^verbatim>\<open>os.makedirs(exist_ok=True)\<close>: every missing
  directory on the way is created, an existing directory is left alone, and a file in
  the way raises. \<open>mkdirs done rest\<close> has created \<open>done\<close> and goes on with \<open>rest\<close>.
\<close>

fun mkdirs :: "path \<Rightarrow> path \<Rightarrow> action" where
  "mkdirs pre [] fs = (None, fs)"
| "mkdirs pre (c # cs) fs =
     (case fs (pre @ [c]) of
        Some (File _) \<Rightarrow> (Some (if cs = [] then FileExistsError else NotADirectoryError), fs)
      | Some Dir \<Rightarrow> mkdirs (pre @ [c]) cs fs
      | None \<Rightarrow> mkdirs (pre @ [c]) cs (fs(pre @ [c] \<mapsto> Dir)))"

definition ensure_dir :: "path \<Rightarrow> action" where
  "ensure_dir p = mkdirs [] p"

text \<open>\<^verbatim>\<open>with open(p, 'wb') as f: f.write(data)\<close>: the file is created or replaced.\<close>

definition write_file :: "path \<Rightarrow> byte list \<Rightarrow> action" where
  "write_file p data fs =
     (if p = [] then (Some IsADirectoryError, fs)
      else if parent p \<noteq> [] \<and> fs (parent p) = None then (Some FileNotFoundError, fs)
      else if parent p \<noteq> [] \<and> fs (parent p) \<noteq> Some Dir then (Some NotADirectoryError, fs)
      else if fs p = Some Dir then (Some IsADirectoryError, fs)
      else (None, fs(p \<mapsto> File data)))"

text \<open>Statements one after the other: the first exception ends the run.\<close>

fun run_all :: "action list \<Rightarrow> action" where
  "run_all [] fs = (None, fs)"
| "run_all (a # as) fs =
     (case a fs of (Some e, fs') \<Rightarrow> (Some e, fs') | (None, fs') \<Rightarrow> run_all as fs')"

text \<open>A function that first computes a byte string, which may raise, and then acts on it.\<close>

definition with_data :: "py_error + byte list \<Rightarrow> (byte list \<Rightarrow> action) \<Rightarrow> action" where
  "with_data d k fs = (case d of Inl e \<Rightarrow> (Some e, fs) | Inr b \<Rightarrow> k b fs)"

section \<open>generate_test_data.py\<close>

text \<open>
  \<open>script_dir\<close> is \<^verbatim>\<open>SCRIPT_DIR\<close>, the directory of the script, the one input from the
  environment. Each \<^verbatim>\<open>generate_*\<close> function builds a \<^verbatim>\<open>bytearray\<close> (\<open>*_data\<close>) and hands
  it to \<^verbatim>\<open>write_binary\<close> under a file name.
\<close>

definition BINARY_DIR :: "path \<Rightarrow> path" where
  "BINARY_DIR script_dir = join script_dir ''binary_data''"

definition write_binary :: "path \<Rightarrow> string \<Rightarrow> byte list \<Rightarrow> action" where
  "write_binary script_dir filename data fs =
     (let filepath = join (BINARY_DIR script_dir) filename
      in case ensure_dir (parent filepath) fs of
           (Some e, fs') \<Rightarrow> (Some e, fs')
         | (None, fs') \<Rightarrow> write_file filepath data fs')"

definition generate_arrays_simple_data :: "py_error + byte list" where
  "generate_arrays_simple_data =
     build [bytes_of_ints [1, 2, 3, 4],
            pack ''<HHH'' [PInt 10, PInt 20, PInt 30],
            pack ''<II'' [PInt 100, PInt 200],
            pack ''<iiiii'' [PInt (- 1), PInt 0, PInt 1, PInt (- 100), PInt 100]]"

definition generate_arrays_simple :: "path \<Rightarrow> action" where
  "generate_arrays_simple sd =
     with_data generate_arrays_simple_data (write_binary sd ''arrays/simple.bin'')"

definition generate_arrays_zeros_data :: "py_error + byte list" where
  "generate_arrays_zeros_data =
     build [bytes_of_ints [0, 0, 0, 0],
            pack ''<HHH'' [PInt 0, PInt 0, PInt 0],
            pack ''<II'' [PInt 0, PInt 0],
            pack ''<iiiii'' [PInt 0, PInt 0, PInt 0, PInt 0, PInt 0]]"

definition generate_arrays_zeros :: "path \<Rightarrow> action" where
  "generate_arrays_zeros sd =
     with_data generate_arrays_zeros_data (write_binary sd ''arrays/all_zeros.bin'')"

definition generate_structs_simple_data :: "py_error + byte list" where
  "generate_structs_simple_data =
     build [pack ''<Q'' [PInt 12345], pack ''B'' [PInt 0x42], pack ''<H'' [PInt 9999]]"

definition generate_structs_simple :: "path \<Rightarrow> action" where
  "generate_structs_simple sd =
     with_data generate_structs_simple_data (write_binary sd ''structs/simple.bin'')"

definition generate_structs_rectangle_data :: "py_error + byte list" where
  "generate_structs_rectangle_data =
     build [pack ''<ii'' [PInt 10, PInt 20],
            pack ''<ii'' [PInt 100, PInt 80],
            pack ''<I'' [PInt 0xFF0000]]"

definition generate_structs_rectangle :: "path \<Rightarrow> action" where
  "generate_structs_rectangle sd =
     with_data generate_structs_rectangle_data (write_binary sd ''structs/rectangle.bin'')"

definition generate_enums_none_data :: "py_error + byte list" where
  "generate_enums_none_data = build [pack ''B'' [PInt 0]]"

definition generate_enums_none :: "path \<Rightarrow> action" where
  "generate_enums_none sd =
     with_data generate_enums_none_data (write_binary sd ''enums/none.bin'')"

definition generate_enums_value_data :: "py_error + byte list" where
  "generate_enums_value_data = build [pack ''B'' [PInt 1], pack ''<I'' [PInt 42]]"

definition generate_enums_value :: "path \<Rightarrow> action" where
  "generate_enums_value sd =
     with_data generate_enums_value_data (write_binary sd ''enums/value.bin'')"

definition generate_enums_pair_data :: "py_error + byte list" where
  "generate_enums_pair_data =
     build [pack ''B'' [PInt 2], pack ''<H'' [PInt 100], pack ''<H'' [PInt 200]]"

definition generate_enums_pair :: "path \<Rightarrow> action" where
  "generate_enums_pair sd =
     with_data generate_enums_pair_data (write_binary sd ''enums/pair.bin'')"

definition generate_unions_int_data :: "py_error + byte list" where
  "generate_unions_int_data = build [pack ''<i'' [PInt (- 42)]]"

definition generate_unions_int :: "path \<Rightarrow> action" where
  "generate_unions_int sd =
     with_data generate_unions_int_data (write_binary sd ''unions/int_value.bin'')"

definition generate_unions_float_data :: "py_error + byte list" where
  "generate_unions_float_data = build [pack ''<f'' [PFloat (float_lit 314159 (- 5))]]"

definition generate_unions_float :: "path \<Rightarrow> action" where
  "generate_unions_float sd =
     with_data generate_unions_float_data (write_binary sd ''unions/float_value.bin'')"

definition generate_unions_bytes_data :: "py_error + byte list" where
  "generate_unions_bytes_data = build [bytes_of_ints [0xDE, 0xAD, 0xBE, 0xEF]]"

definition generate_unions_bytes :: "path \<Rightarrow> action" where
  "generate_unions_bytes sd =
     with_data generate_unions_bytes_data (write_binary sd ''unions/bytes.bin'')"

definition main_generate_test_data :: "path \<Rightarrow> action" where
  "main_generate_test_data sd =
     run_all [generate_arrays_simple sd, generate_arrays_zeros sd,
              generate_structs_simple sd, generate_structs_rectangle sd,
              generate_enums_none sd, generate_enums_value sd, generate_enums_pair sd,
              generate_unions_int sd, generate_unions_float sd, generate_unions_bytes sd]"

section \<open>generate_primitive_test_binaries.py\<close>

text \<open>
  \<^verbatim>\<open>write_binary\<close> of this script packs the ten values of an AllPrimitives struct and
  writes them under \<^verbatim>\<open>tests/compliance_tests/binary_data/primitives\<close>, relative to the
  working directory \<open>cwd\<close>; \<open>write_packed\<close> is the part of it after \<^verbatim>\<open>struct.pack\<close>. The
  path it returns is used by no caller and is left out.
\<close>

definition all_primitives_format :: string where
  "all_primitives_format = ''<BHIQbhiqfd''"

definition pack_all_primitives :: "pyval list \<Rightarrow> py_error + byte list" where
  "pack_all_primitives vs = pack all_primitives_format vs"

definition output_dir :: "path \<Rightarrow> path" where
  "output_dir cwd = join cwd ''tests/compliance_tests/binary_data/primitives''"

definition write_packed :: "path \<Rightarrow> string \<Rightarrow> byte list \<Rightarrow> action" where
  "write_packed cwd filename data fs =
     (case ensure_dir (output_dir cwd) fs of
        (Some e, fs') \<Rightarrow> (Some e, fs')
      | (None, fs') \<Rightarrow> write_file (join (output_dir cwd) filename) data fs')"

definition write_binary_primitives :: "path \<Rightarrow> string \<Rightarrow> pyval list \<Rightarrow> action" where
  "write_binary_primitives cwd filename vs =
     with_data (pack_all_primitives vs) (write_packed cwd filename)"

definition all_zeros_values :: "pyval list" where
  "all_zeros_values =
     [PInt 0, PInt 0, PInt 0, PInt 0, PInt 0, PInt 0, PInt 0, PInt 0,
      PFloat (float_lit 0 (- 1)), PFloat (float_lit 0 (- 1))]"

definition all_max_values :: "pyval list" where
  "all_max_values =
     [PInt 255, PInt 65535, PInt 4294967295, PInt 18446744073709551615,
      PInt 127, PInt 32767, PInt 2147483647, PInt 9223372036854775807,
      PFloat (float_lit 34028235 31), PFloat (float_lit 17976931348623157 292)]"

definition all_min_signed_values :: "pyval list" where
  "all_min_signed_values =
     [PInt 0, PInt 0, PInt 0, PInt 0,
      PInt (- 128), PInt (- 32768), PInt (- 2147483648), PInt (- 9223372036854775808),
      PFloat (float_neg (float_lit 34028235 31)),
      PFloat (float_neg (float_lit 17976931348623157 292))]"

definition common_values :: "pyval list" where
  "common_values =
     [PInt 42, PInt 1000, PInt 0x12345678, PInt 0x123456789ABCDEF0,
      PInt (- 42), PInt (- 1234), PInt (- 123456), PInt (- 123456789),
      PFloat (float_lit 314159 (- 5)), PFloat (float_lit 2718281828459045 (- 15))]"

definition u32_0x12345678_values :: "pyval list" where
  "u32_0x12345678_values =
     [PInt 0, PInt 0, PInt 0x12345678, PInt 0, PInt 0, PInt 0, PInt 0, PInt 0,
      PFloat (float_lit 0 (- 1)), PFloat (float_lit 0 (- 1))]"

definition u64_bigint_values :: "pyval list" where
  "u64_bigint_values =
     [PInt 0, PInt 0, PInt 0, PInt 0x123456789ABCDEF0, PInt 0, PInt 0, PInt 0, PInt 0,
      PFloat (float_lit 0 (- 1)), PFloat (float_lit 0 (- 1))]"

definition float_values_values :: "pyval list" where
  "float_values_values =
     [PInt 0, PInt 0, PInt 0, PInt 0, PInt 0, PInt 0, PInt 0, PInt 0,
      PFloat (float_lit 314159265 (- 8)), PFloat (float_lit 2718281828459045 (- 15))]"

definition main_generate_primitive_test_binaries :: "path \<Rightarrow> action" where
  "main_generate_primitive_test_binaries cwd =
     run_all [write_binary_primitives cwd ''all_zeros.bin'' all_zeros_values,
              write_binary_primitives cwd ''all_max.bin'' all_max_values,
              write_binary_primitives cwd ''all_min_signed.bin'' all_min_signed_values,
              write_binary_primitives cwd ''common_values.bin'' common_values,
              write_binary_primitives cwd ''u32_0x12345678.bin'' u32_0x12345678_values,
              write_binary_primitives cwd ''u64_bigint.bin'' u64_bigint_values,
              write_binary_primitives cwd ''float_values.bin'' float_values_values]"

section \<open>run_ir_parity_checks.py\<close>

text \<open>
  The driver builds the compliance harness with cargo and runs it. Both are external
  processes: what they return and what they do to the file system is given by the
  environment, as a function \<open>proc\<close> of the command line, the working directory and the
  file system. \<^verbatim>\<open>subprocess.run\<close> either returns the exit status of the process or raises
  (the program is missing, say). The world of the driver is the file system together
  with the list of the processes started so far, kept to say which were started.
\<close>

datatype proc_result = Exited int | Raised py_error

record os_env =
  project_root :: path
  proc :: "string list \<Rightarrow> path option \<Rightarrow> fs \<Rightarrow> proc_result \<times> fs"

record world =
  files :: fs
  spawned :: "(string list \<times> path option) list"

record args =
  verbose :: bool
  test_dir :: "string option"
  output_arg :: "string option"
  build_only :: bool

text \<open>\<^verbatim>\<open>if s:\<close> on an optional string: \<^verbatim>\<open>None\<close> and the empty string are false.\<close>

definition truthy :: "string option \<Rightarrow> bool" where
  "truthy s = (case s of None \<Rightarrow> False | Some x \<Rightarrow> x \<noteq> [])"

text \<open>\<^verbatim>\<open>str(path)\<close>.\<close>

definition path_str :: "path \<Rightarrow> string" where
  "path_str p = (if p = [] then ''/'' else concat (map (\<lambda>c. CHR ''/'' # c) p))"

definition subprocess_run ::
  "os_env \<Rightarrow> string list \<Rightarrow> path option \<Rightarrow> world \<Rightarrow> proc_result \<times> world" where
  "subprocess_run env cmd cwd w =
     (case proc env cmd cwd (files w) of
        (r, fs') \<Rightarrow> (r, \<lparr>files = fs', spawned = spawned w @ [(cmd, cwd)]\<rparr>))"

definition find_compliance_tests_dir :: "path \<Rightarrow> fs \<Rightarrow> path" where
  "find_compliance_tests_dir root fs =
     (let tests_dir = join (join (join root ''tests'') ''compliance_tests'') ''test_cases''
      in if exists_path fs tests_dir then tests_dir else join root ''tests'')"

definition build_compliance_harness ::
  "os_env \<Rightarrow> path \<Rightarrow> bool \<Rightarrow> world \<Rightarrow> (py_error + bool) \<times> world" where
  "build_compliance_harness env root verb w =
     (let harness_dir = join (join root ''tests'') ''compliance_harness_rust'';
          cmd = [''cargo'', ''build'', ''--release''];
          cmd = (if \<not> verb then cmd @ [''--quiet''] else cmd)
      in case subprocess_run env cmd (Some harness_dir) w of
           (Raised e, w') \<Rightarrow> (Inl e, w')
         | (Exited rc, w') \<Rightarrow> (if rc \<noteq> 0 then (Inr False, w') else (Inr True, w')))"

definition harness_binary :: "path \<Rightarrow> path" where
  "harness_binary root =
     join (join (join (join (join root ''tests'') ''compliance_harness_rust'')
       ''target'') ''release'') ''compliance_harness''"

text \<open>The command line of the harness, as \<^verbatim>\<open>run_parity_checks\<close> builds it.\<close>

definition parity_cmd :: "path \<Rightarrow> path \<Rightarrow> bool \<Rightarrow> string option \<Rightarrow> string list" where
  "parity_cmd root tdir verb output_file =
     (let cmd = [path_str (harness_binary root), path_str tdir, ''--parity''];
          cmd = (if verb then cmd @ [''--verbose''] else cmd);
          cmd = (if truthy output_file then cmd @ [''--output'', the output_file] else cmd)
      in cmd)"

definition run_parity_checks ::
  "os_env \<Rightarrow> path \<Rightarrow> path \<Rightarrow> bool \<Rightarrow> string option \<Rightarrow> world \<Rightarrow> (py_error + bool) \<times> world"
  where
  "run_parity_checks env root tdir verb output_file w =
     (if \<not> exists_path (files w) (harness_binary root) then (Inr False, w)
      else
        case subprocess_run env (parity_cmd root tdir verb output_file) None w of
          (Raised e, w') \<Rightarrow> (Inl e, w')
        | (Exited rc, w') \<Rightarrow> (Inr (rc = 0), w'))"

text \<open>
  What a run of the driver leaves: the exit status of the Python process (\<^verbatim>\<open>sys.exit(n)\<close>
  gives \<open>n\<close>, an exception nobody catches gives 1), the value of the local variable
  \<^verbatim>\<open>test_dir\<close> if the run got to assign it, and the world. Parsing the command line is
  argparse's work: \<open>main\<close> starts from the parsed arguments (\<open>output_arg\<close> is
  \<^verbatim>\<open>args.output\<close>).
\<close>

record outcome =
  exit_code :: int
  resolved_test_dir :: "path option"
  final :: world

text \<open>The block of \<^verbatim>\<open>main\<close> that determines the test directory.\<close>

definition determine_test_dir :: "path \<Rightarrow> args \<Rightarrow> fs \<Rightarrow> path" where
  "determine_test_dir root a fs =
     (if truthy (test_dir a)
      then (if \<not> is_absolute (the (test_dir a))
            then join root (the (test_dir a))
            else path_parts (the (test_dir a)))
      else find_compliance_tests_dir root fs)"

definition main :: "os_env \<Rightarrow> args \<Rightarrow> world \<Rightarrow> outcome" where
  "main env a w =
     (let root = project_root env
      in case build_compliance_harness env root (verbose a) w of
           (Inl e, w1) \<Rightarrow> \<lparr>exit_code = 1, resolved_test_dir = None, final = w1\<rparr>
         | (Inr False, w1) \<Rightarrow> \<lparr>exit_code = 1, resolved_test_dir = None, final = w1\<rparr>
         | (Inr True, w1) \<Rightarrow>
             if build_only a then \<lparr>exit_code = 0, resolved_test_dir = None, final = w1\<rparr>
             else
               let tdir = determine_test_dir root a (files w1)
               in if \<not> exists_path (files w1) tdir
                  then \<lparr>exit_code = 1, resolved_test_dir = Some tdir, final = w1\<rparr>
                  else
                    case run_parity_checks env root tdir (verbose a) (output_arg a) w1 of
                      (Inl e, w2) \<Rightarrow>
                        \<lparr>exit_code = 1, resolved_test_dir = Some tdir, final = w2\<rparr>
                    | (Inr success, w2) \<Rightarrow>
                        if success
                        then \<lparr>exit_code = 0, resolved_test_dir = Some tdir, final = w2\<rparr>
                        else \<lparr>exit_code = 1, resolved_test_dir = Some tdir, final = w2\<rparr>)"

section \<open>The fixture tables\<close>

text \<open>
  The file names the two generators write, each with the bytes the file is to hold.
  Nothing in these tables depends on the directory of the script, on the working
  directory or on the file system.
\<close>

definition test_data_fixtures :: "(string \<times> byte list) list" where
  "test_data_fixtures =
     [(''arrays/simple.bin'',
       [1, 2, 3, 4, 10, 0, 20, 0, 30, 0, 100, 0, 0, 0, 200, 0, 0, 0,
        255, 255, 255, 255, 0, 0, 0, 0, 1, 0, 0, 0, 156, 255, 255, 255, 100, 0, 0, 0]),
      (''arrays/all_zeros.bin'', replicate 38 0),
      (''structs/simple.bin'', [0x39, 0x30, 0, 0, 0, 0, 0, 0, 0x42, 0x0F, 0x27]),
      (''structs/rectangle.bin'',
       [10, 0, 0, 0, 20, 0, 0, 0, 100, 0, 0, 0, 80, 0, 0, 0, 0, 0, 0xFF, 0]),
      (''enums/none.bin'', [0x00]),
      (''enums/value.bin'', [0x01, 0x2A, 0x00, 0x00, 0x00]),
      (''enums/pair.bin'', [0x02, 0x64, 0x00, 0xC8, 0x00]),
      (''unions/int_value.bin'', [0xD6, 0xFF, 0xFF, 0xFF]),
      (''unions/float_value.bin'', [0xD0, 0x0F, 0x49, 0x40]),
      (''unions/bytes.bin'', [0xDE, 0xAD, 0xBE, 0xEF])]"

definition primitive_fixtures :: "(string \<times> byte list) list" where
  "primitive_fixtures =
     [(''all_zeros.bin'', replicate 42 0),
      (''all_max.bin'',
       [255, 255, 255, 255, 255, 255, 255, 255, 255, 255, 255, 255, 255, 255,
        255, 127, 255, 127, 255, 255, 255, 127, 255, 255, 255, 255, 255, 255,
        255, 127, 255, 255, 127, 127, 255, 255, 255, 255, 255, 255, 239, 127]),
      (''all_min_signed.bin'',
       [0, 0, 0, 0, 0, 0, 0, 0, 0, 0, 0, 0, 0, 0, 0, 128, 0, 128, 0, 0, 0,
        128, 0, 0, 0, 0, 0, 0, 0, 128, 255, 255, 127, 255, 255, 255, 255, 255,
        255, 255, 239, 255]),
      (''common_values.bin'',
       [42, 232, 3, 120, 86, 52, 18, 240, 222, 188, 154, 120, 86, 52, 18, 214,
        46, 251, 192, 29, 254, 255, 235, 50, 164, 248, 255, 255, 255, 255,
        208, 15, 73, 64, 105, 87, 20, 139, 10, 191, 5, 64]),
      (''u32_0x12345678.bin'', [0, 0, 0, 0x78, 0x56, 0x34, 0x12] @ replicate 35 0),
      (''u64_bigint.bin'',
       [0, 0, 0, 0, 0, 0, 0, 0xF0, 0xDE, 0xBC, 0x9A, 0x78, 0x56, 0x34, 0x12]
       @ replicate 27 0),
      (''float_values.bin'',
       replicate 30 0 @ [219, 15, 73, 64, 105, 87, 20, 139, 10, 191, 5, 64])]"

section \<open>Reading bytes back\<close>

text \<open>
  Two notions the statements below need: the integer a byte string denotes when its
  first byte is the least significant one, and the \<open>n\<close> bytes of a byte string that start
  at offset \<open>off\<close>.
\<close>

fun le_value :: "byte list \<Rightarrow> int" where
  "le_value [] = 0"
| "le_value (b # bs) = uint b + 256 * le_value bs"

definition slice :: "nat \<Rightarrow> nat \<Rightarrow> 'a list \<Rightarrow> 'a list" where
  "slice off n xs = take n (drop off xs)"

text \<open>The content of the file at a path, if there is a file.\<close>

definition read_file :: "fs \<Rightarrow> path \<Rightarrow> byte list option" where
  "read_file fs p = (case fs p of Some (File d) \<Rightarrow> Some d | _ \<Rightarrow> None)"

text \<open>
  The seven calls of \<^verbatim>\<open>write_binary\<close> in \<^verbatim>\<open>main\<close> of the primitives script: file name and
  values.
\<close>

definition primitive_calls :: "(string \<times> pyval list) list" where
  "primitive_calls =
     [(''all_zeros.bin'', all_zeros_values),
      (''all_max.bin'', all_max_values),
      (''all_min_signed.bin'', all_min_signed_values),
      (''common_values.bin'', common_values),
      (''u32_0x12345678.bin'', u32_0x12345678_values),
      (''u64_bigint.bin'', u64_bigint_values),
      (''float_values.bin'', float_values_values)]"

section \<open>Concrete runs of the driver\<close>

text \<open>
  Two environments, one where every process exits with status 0 and one where every
  process exits with status 101, both leaving the file system alone; a file system with
  the harness binary and the default test directory in place, and an empty one.
\<close>

definition ok_env :: os_env where
  "ok_env = \<lparr>project_root = [''repo''], proc = (\<lambda>cmd cwd fs. (Exited 0, fs))\<rparr>"

definition failing_env :: os_env where
  "failing_env = \<lparr>project_root = [''repo''], proc = (\<lambda>cmd cwd fs. (Exited 101, fs))\<rparr>"

definition ready_fs :: fs where
  "ready_fs =
     [[''repo'', ''tests'', ''compliance_tests'', ''test_cases''] \<mapsto> Dir,
      [''repo'', ''tests'', ''compliance_harness_rust'', ''target'', ''release'',
       ''compliance_harness''] \<mapsto> File []]"

definition ready_world :: world where
  "ready_world = \<lparr>files = ready_fs, spawned = []\<rparr>"

definition empty_world :: world where
  "empty_world = \<lparr>files = Map.empty, spawned = []\<rparr>"

definition plain_args :: args where
  "plain_args = \<lparr>verbose = False, test_dir = None, output_arg = None, build_only = False\<rparr>"

definition build_only_args :: args where
  "build_only_args = \<lparr>verbose = False, test_dir = None, output_arg = None, build_only = True\<rparr>"

definition full_args :: args where
  "full_args =
     \<lparr>verbose = True, test_dir = Some ''tests/compliance_tests/test_cases'',
      output_arg = Some ''report.json'', build_only = False\<rparr>"

section \<open>The driver: structure of a run\<close>

lemma build_spawned:
  "build_compliance_harness env root verb w = (r, w1) \<Longrightarrow>
   spawned w1 =
     spawned w @ [([''cargo'', ''build'', ''--release''] @ (if verb then [] else [''--quiet'']),
                   Some (join (join root ''tests'') ''compliance_harness_rust''))]"
  unfolding build_compliance_harness_def subprocess_run_def Let_def
  by (cases "proc env ([''cargo'', ''build'', ''--release''] @ (if verb then [] else [''--quiet'']))
               (Some (join (join root ''tests'') ''compliance_harness_rust'')) (files w)")
     (auto split: proc_result.splits if_splits)

lemma main_build_failed:
  "build_compliance_harness env (project_root env) (verbose a) w = (r, w1) \<Longrightarrow>
   r \<noteq> Inr True \<Longrightarrow>
   main env a w = \<lparr>exit_code = 1, resolved_test_dir = None, final = w1\<rparr>"
  by (cases r) (auto simp: main_def)

lemma main_build_only:
  "build_compliance_harness env (project_root env) (verbose a) w = (Inr True, w1) \<Longrightarrow>
   build_only a \<Longrightarrow>
   main env a w = \<lparr>exit_code = 0, resolved_test_dir = None, final = w1\<rparr>"
  by (simp add: main_def)

lemma main_no_test_dir:
  "build_compliance_harness env (project_root env) (verbose a) w = (Inr True, w1) \<Longrightarrow>
   \<not> build_only a \<Longrightarrow>
   \<not> exists_path (files w1) (determine_test_dir (project_root env) a (files w1)) \<Longrightarrow>
   main env a w =
     \<lparr>exit_code = 1,
      resolved_test_dir = Some (determine_test_dir (project_root env) a (files w1)),
      final = w1\<rparr>"
  by (simp add: main_def)

lemma main_checks:
  "build_compliance_harness env (project_root env) (verbose a) w = (Inr True, w1) \<Longrightarrow>
   \<not> build_only a \<Longrightarrow>
   exists_path (files w1) (determine_test_dir (project_root env) a (files w1)) \<Longrightarrow>
   run_parity_checks env (project_root env) (determine_test_dir (project_root env) a (files w1))
      (verbose a) (output_arg a) w1 = (r, w2) \<Longrightarrow>
   main env a w =
     \<lparr>exit_code = (if r = Inr True then 0 else 1),
      resolved_test_dir = Some (determine_test_dir (project_root env) a (files w1)),
      final = w2\<rparr>"
  by (cases r) (auto simp: main_def)

lemma run_parity_no_binary:
  "\<not> exists_path (files w) (harness_binary root) \<Longrightarrow>
   run_parity_checks env root tdir verb outf w = (Inr False, w)"
  by (simp add: run_parity_checks_def)

lemma run_parity_binary:
  "exists_path (files w) (harness_binary root) \<Longrightarrow>
   proc env (parity_cmd root tdir verb outf) None (files w) = (pr, fs') \<Longrightarrow>
   run_parity_checks env root tdir verb outf w =
     ((case pr of Raised e \<Rightarrow> Inl e | Exited rc \<Rightarrow> Inr (rc = 0)),
      \<lparr>files = fs', spawned = spawned w @ [(parity_cmd root tdir verb outf, None)]\<rparr>)"
  by (cases pr) (simp_all add: run_parity_checks_def subprocess_run_def)

lemma parity_cmd_shape:
  "parity_cmd root tdir verb outf =
     [path_str (harness_binary root), path_str tdir, ''--parity'']
     @ (if verb then [''--verbose''] else [])
     @ (case outf of None \<Rightarrow> [] | Some f \<Rightarrow> if f = [] then [] else [''--output'', f])"
  by (cases outf) (simp_all add: parity_cmd_def truthy_def)

lemma run_parity_spawned:
  "run_parity_checks env root tdir verb outf w = (r, w2) \<Longrightarrow>
   (w2 = w \<and> r = Inr False) \<or>
   (spawned w2 = spawned w @ [(parity_cmd root tdir verb outf, None)] \<and>
    r = (case fst (proc env (parity_cmd root tdir verb outf) None (files w)) of
           Raised e \<Rightarrow> Inl e | Exited rc \<Rightarrow> Inr (rc = 0)))"
proof (cases "exists_path (files w) (harness_binary root)")
  case False
  assume "run_parity_checks env root tdir verb outf w = (r, w2)"
  with run_parity_no_binary [OF False, of env tdir verb outf] show ?thesis by simp
next
  case True
  assume rp: "run_parity_checks env root tdir verb outf w = (r, w2)"
  obtain pr fs' where p: "proc env (parity_cmd root tdir verb outf) None (files w) = (pr, fs')"
    by (cases "proc env (parity_cmd root tdir verb outf) None (files w)")
  from run_parity_binary [OF True p] rp p show ?thesis by simp
qed

text \<open>
  Every run of the driver is of one of four kinds: the build failed; the build succeeded
  and \<^verbatim>\<open>--build-only\<close> was given; the run stopped after the build without starting the
  harness (no test directory, or no harness binary); the harness was started.
\<close>

lemma main_cases:
  assumes b: "build_compliance_harness env (project_root env) (verbose a) w = (r, w1)"
  shows "(main env a w = \<lparr>exit_code = 1, resolved_test_dir = None, final = w1\<rparr> \<and> r \<noteq> Inr True)
    \<or> (main env a w = \<lparr>exit_code = 0, resolved_test_dir = None, final = w1\<rparr>
        \<and> r = Inr True \<and> build_only a)
    \<or> (main env a w = \<lparr>exit_code = 1,
          resolved_test_dir = Some (determine_test_dir (project_root env) a (files w1)),
          final = w1\<rparr>
        \<and> r = Inr True \<and> \<not> build_only a)
    \<or> (\<exists>w2. main env a w =
          \<lparr>exit_code = (if fst (proc env (parity_cmd (project_root env)
                (determine_test_dir (project_root env) a (files w1)) (verbose a) (output_arg a))
                None (files w1)) = Exited 0 then 0 else 1),
           resolved_test_dir = Some (determine_test_dir (project_root env) a (files w1)),
           final = w2\<rparr>
        \<and> spawned w2 = spawned w1 @ [(parity_cmd (project_root env)
                (determine_test_dir (project_root env) a (files w1)) (verbose a) (output_arg a),
                None)]
        \<and> r = Inr True \<and> \<not> build_only a)"
proof (cases "r = Inr True")
  case False
  with main_build_failed [OF b] show ?thesis by simp
next
  case r: True
  show ?thesis
  proof (cases "build_only a")
    case True
    with main_build_only [OF b [unfolded r]] r show ?thesis by simp
  next
    case nbo: False
    let ?t = "determine_test_dir (project_root env) a (files w1)"
    show ?thesis
    proof (cases "exists_path (files w1) ?t")
      case False
      from main_no_test_dir [OF b [unfolded r] nbo False] r nbo show ?thesis by simp
    next
      case True
      obtain r2 w2 where rp:
        "run_parity_checks env (project_root env) ?t (verbose a) (output_arg a) w1 = (r2, w2)"
        by (cases "run_parity_checks env (project_root env) ?t (verbose a) (output_arg a) w1")
      note m = main_checks [OF b [unfolded r] nbo True rp]
      from run_parity_spawned [OF rp] show ?thesis
      proof
        assume "w2 = w1 \<and> r2 = Inr False"
        with m r nbo show ?thesis by simp
      next
        assume h: "spawned w2 =
            spawned w1 @ [(parity_cmd (project_root env) ?t (verbose a) (output_arg a), None)] \<and>
          r2 = (case fst (proc env (parity_cmd (project_root env) ?t (verbose a) (output_arg a))
                        None (files w1)) of
                  Raised e \<Rightarrow> Inl e | Exited rc \<Rightarrow> Inr (rc = 0))"
        then have "(r2 = Inr True) =
            (fst (proc env (parity_cmd (project_root env) ?t (verbose a) (output_arg a))
                   None (files w1)) = Exited 0)"
          by (auto split: proc_result.splits)
        with m h r nbo show ?thesis by auto
      qed
    qed
  qed
qed

subsection \<open>The concrete runs\<close>

lemmas run_defs = main_def build_compliance_harness_def subprocess_run_def run_parity_checks_def
  parity_cmd_def harness_binary_def determine_test_dir_def find_compliance_tests_dir_def
  truthy_def exists_path_def path_str_def join_def is_absolute_def path_parts_def keep_part_def
  ok_env_def failing_env_def ready_world_def ready_fs_def empty_world_def
  plain_args_def build_only_args_def full_args_def Let_def

lemma build_ok_ready:
  "build_compliance_harness ok_env (project_root ok_env) False ready_world =
     (Inr True, \<lparr>files = ready_fs,
        spawned = [([''cargo'', ''build'', ''--release'', ''--quiet''],
                    Some [''repo'', ''tests'', ''compliance_harness_rust''])]\<rparr>)"
  by (simp add: run_defs)

lemma build_ok_empty:
  "build_compliance_harness ok_env (project_root ok_env) False empty_world =
     (Inr True, \<lparr>files = Map.empty,
        spawned = [([''cargo'', ''build'', ''--release'', ''--quiet''],
                    Some [''repo'', ''tests'', ''compliance_harness_rust''])]\<rparr>)"
  by (simp add: run_defs)

lemma build_failing_ready:
  "build_compliance_harness failing_env (project_root failing_env) False ready_world =
     (Inr False, \<lparr>files = ready_fs,
        spawned = [([''cargo'', ''build'', ''--release'', ''--quiet''],
                    Some [''repo'', ''tests'', ''compliance_harness_rust''])]\<rparr>)"
  by (simp add: run_defs)

lemma main_ok_build_only:
  "main ok_env build_only_args ready_world =
     \<lparr>exit_code = 0, resolved_test_dir = None,
      final = \<lparr>files = ready_fs,
        spawned = [([''cargo'', ''build'', ''--release'', ''--quiet''],
                    Some [''repo'', ''tests'', ''compliance_harness_rust''])]\<rparr>\<rparr>"
  by (simp add: run_defs)

lemma main_ok_plain_ready:
  "main ok_env plain_args ready_world =
     \<lparr>exit_code = 0,
      resolved_test_dir = Some [''repo'', ''tests'', ''compliance_tests'', ''test_cases''],
      final = \<lparr>files = ready_fs,
        spawned = [([''cargo'', ''build'', ''--release'', ''--quiet''],
                    Some [''repo'', ''tests'', ''compliance_harness_rust'']),
                   ([''/repo/tests/compliance_harness_rust/target/release/compliance_harness'',
                     ''/repo/tests/compliance_tests/test_cases'', ''--parity''], None)]\<rparr>\<rparr>"
  by (simp add: run_defs)

lemma main_ok_full_ready:
  "main ok_env full_args ready_world =
     \<lparr>exit_code = 0,
      resolved_test_dir = Some [''repo'', ''tests'', ''compliance_tests'', ''test_cases''],
      final = \<lparr>files = ready_fs,
        spawned = [([''cargo'', ''build'', ''--release''],
                    Some [''repo'', ''tests'', ''compliance_harness_rust'']),
                   ([''/repo/tests/compliance_harness_rust/target/release/compliance_harness'',
                     ''/repo/tests/compliance_tests/test_cases'', ''--parity'', ''--verbose'',
                     ''--output'', ''report.json''], None)]\<rparr>\<rparr>"
  by (simp add: run_defs)

lemma main_ok_plain_empty:
  "main ok_env plain_args empty_world =
     \<lparr>exit_code = 1, resolved_test_dir = Some [''repo'', ''tests''],
      final = \<lparr>files = Map.empty,
        spawned = [([''cargo'', ''build'', ''--release'', ''--quiet''],
                    Some [''repo'', ''tests'', ''compliance_harness_rust''])]\<rparr>\<rparr>"
  by (simp add: run_defs)

lemma main_failing_plain_ready:
  "main failing_env plain_args ready_world =
     \<lparr>exit_code = 1, resolved_test_dir = None,
      final = \<lparr>files = ready_fs,
        spawned = [([''cargo'', ''build'', ''--release'', ''--quiet''],
                    Some [''repo'', ''tests'', ''compliance_harness_rust''])]\<rparr>\<rparr>"
  by (simp add: run_defs)

section \<open>The driver: exit status and command line\<close>

text \<open>
  Claim C6, as stated: after a successful build the driver exits with status 0 if and
  only if the harness process it started returned 0, and with status 1 in every other
  case. This fails with \<^verbatim>\<open>--build-only\<close>: the build succeeds, the driver exits with
  status 0, and the only process it started is cargo.
\<close>

theorem exit_mirrors_harness_counterexample:
  "fst (build_compliance_harness ok_env (project_root ok_env) (verbose build_only_args)
          ready_world) = Inr True
   \<and> exit_code (main ok_env build_only_args ready_world) = 0
   \<and> spawned (final (main ok_env build_only_args ready_world)) =
       [([''cargo'', ''build'', ''--release'', ''--quiet''],
         Some [''repo'', ''tests'', ''compliance_harness_rust''])]"
proof -
  have v: "verbose build_only_args = False"
    by (simp add: build_only_args_def)
  show ?thesis
    by (simp add: v main_ok_build_only build_ok_ready)
qed

text \<open>
  Claim C6, amended: after a successful build and without \<^verbatim>\<open>--build-only\<close>, the driver
  exits with status 0 if and only if it started the harness (one more process after the
  build, in the file system the build left) and that process returned 0; in every other
  case it exits with status 1.
\<close>

theorem exit_mirrors_harness:
  "fst (build_compliance_harness env (project_root env) (verbose a) w) = Inr True \<Longrightarrow>
   \<not> build_only a \<Longrightarrow>
   (exit_code (main env a w) = 0 \<longleftrightarrow>
      (\<exists>cmd. spawned (final (main env a w)) =
               spawned (snd (build_compliance_harness env (project_root env) (verbose a) w))
               @ [(cmd, None)] \<and>
             fst (proc env cmd None
                   (files (snd (build_compliance_harness env (project_root env) (verbose a) w))))
               = Exited 0))
   \<and> (exit_code (main env a w) = 0 \<or> exit_code (main env a w) = 1)"
proof -
  assume ok: "fst (build_compliance_harness env (project_root env) (verbose a) w) = Inr True"
  assume nbo: "\<not> build_only a"
  obtain r w1 where bd: "build_compliance_harness env (project_root env) (verbose a) w = (r, w1)"
    by (cases "build_compliance_harness env (project_root env) (verbose a) w")
  from main_cases [OF bd] ok nbo bd show ?thesis
    by (auto split: if_splits)
qed

theorem exit_mirrors_harness_witness:
  "fst (build_compliance_harness ok_env (project_root ok_env) (verbose plain_args) ready_world)
     = Inr True
   \<and> \<not> build_only plain_args
   \<and> exit_code (main ok_env plain_args ready_world) = 0
   \<and> (\<exists>cmd. spawned (final (main ok_env plain_args ready_world)) =
         spawned (snd (build_compliance_harness ok_env (project_root ok_env)
                        (verbose plain_args) ready_world)) @ [(cmd, None)]
       \<and> fst (proc ok_env cmd None
                (files (snd (build_compliance_harness ok_env (project_root ok_env)
                              (verbose plain_args) ready_world)))) = Exited 0)"
proof -
  have h1: "fst (build_compliance_harness ok_env (project_root ok_env) (verbose plain_args)
                   ready_world) = Inr True"
    by (simp add: plain_args_def build_ok_ready)
  have h2: "\<not> build_only plain_args"
    by (simp add: plain_args_def)
  have h3: "exit_code (main ok_env plain_args ready_world) = 0"
    by (simp add: main_ok_plain_ready)
  from exit_mirrors_harness [OF h1 h2] h1 h2 h3 show ?thesis
    by blast
qed

text \<open>
  Claim C7: when the test directory the run resolved does not exist (in the file system
  the build left), the driver exits with status 1 and the only process it ever started is
  the cargo build: the harness is never invoked.
\<close>

theorem missing_test_dir_is_fatal:
  "resolved_test_dir (main env a w) = Some d \<Longrightarrow>
   \<not> exists_path
       (files (snd (build_compliance_harness env (project_root env) (verbose a) w))) d \<Longrightarrow>
   exit_code (main env a w) = 1 \<and>
   spawned (final (main env a w)) =
     spawned w @ [([''cargo'', ''build'', ''--release''] @ (if verbose a then [] else [''--quiet'']),
                   Some (join (join (project_root env) ''tests'') ''compliance_harness_rust''))]"
proof -
  assume res: "resolved_test_dir (main env a w) = Some d"
  assume nex: "\<not> exists_path
       (files (snd (build_compliance_harness env (project_root env) (verbose a) w))) d"
  obtain r w1 where b: "build_compliance_harness env (project_root env) (verbose a) w = (r, w1)"
    by (cases "build_compliance_harness env (project_root env) (verbose a) w")
  note sp = build_spawned [OF b]
  have r: "r = Inr True"
  proof (rule ccontr)
    assume "r \<noteq> Inr True"
    from main_build_failed [OF b this] res show False by simp
  qed
  have nbo: "\<not> build_only a"
  proof
    assume "build_only a"
    from main_build_only [OF b [unfolded r] this] res show False by simp
  qed
  let ?t = "determine_test_dir (project_root env) a (files w1)"
  show ?thesis
  proof (cases "exists_path (files w1) ?t")
    case False
    from main_no_test_dir [OF b [unfolded r] nbo False] sp show ?thesis by simp
  next
    case True
    obtain r2 w2 where rp:
      "run_parity_checks env (project_root env) ?t (verbose a) (output_arg a) w1 = (r2, w2)"
      by (cases "run_parity_checks env (project_root env) ?t (verbose a) (output_arg a) w1")
    from main_checks [OF b [unfolded r] nbo True rp] res have "d = ?t" by simp
    with True nex b show ?thesis by simp
  qed
qed

theorem missing_test_dir_is_fatal_witness:
  "resolved_test_dir (main ok_env plain_args empty_world) = Some [''repo'', ''tests'']
   \<and> \<not> exists_path
         (files (snd (build_compliance_harness ok_env (project_root ok_env) (verbose plain_args)
                        empty_world))) [''repo'', ''tests'']
   \<and> exit_code (main ok_env plain_args empty_world) = 1
   \<and> spawned (final (main ok_env plain_args empty_world)) =
       [([''cargo'', ''build'', ''--release'', ''--quiet''],
         Some [''repo'', ''tests'', ''compliance_harness_rust''])]"
proof -
  have h1: "resolved_test_dir (main ok_env plain_args empty_world) = Some [''repo'', ''tests'']"
    by (simp add: main_ok_plain_empty)
  have h2: "\<not> exists_path
         (files (snd (build_compliance_harness ok_env (project_root ok_env) (verbose plain_args)
                        empty_world))) [''repo'', ''tests'']"
    by (simp add: plain_args_def build_ok_empty exists_path_def)
  from missing_test_dir_is_fatal [OF h1 h2] h1 h2 show ?thesis
    by (simp add: main_ok_plain_empty)
qed

text \<open>
  Claim C8: whenever the driver starts the harness (a second process after the build),
  its command line is the harness binary, the test directory the run resolved and
  \<^verbatim>\<open>--parity\<close>, then \<^verbatim>\<open>--verbose\<close> exactly when the driver's flag is set, then
  \<^verbatim>\<open>--output FILE\<close> exactly when an output file (a non-empty name) is given.
\<close>

theorem harness_command_line:
  "spawned (final (main env a w)) = spawned w @ [b, (cmd, cwd)] \<Longrightarrow>
   \<exists>d. resolved_test_dir (main env a w) = Some d \<and>
     cmd = [path_str (harness_binary (project_root env)), path_str d, ''--parity'']
            @ (if verbose a then [''--verbose''] else [])
            @ (case output_arg a of None \<Rightarrow> []
               | Some f \<Rightarrow> if f = [] then [] else [''--output'', f])"
proof -
  assume sp: "spawned (final (main env a w)) = spawned w @ [b, (cmd, cwd)]"
  obtain r w1 where bd: "build_compliance_harness env (project_root env) (verbose a) w = (r, w1)"
    by (cases "build_compliance_harness env (project_root env) (verbose a) w")
  note s1 = build_spawned [OF bd]
  from main_cases [OF bd] sp s1 show ?thesis
    by (auto simp: parity_cmd_shape)
qed

theorem harness_command_line_witness:
  "spawned (final (main ok_env full_args ready_world)) =
     spawned ready_world @
       [([''cargo'', ''build'', ''--release''],
         Some [''repo'', ''tests'', ''compliance_harness_rust'']),
        ([''/repo/tests/compliance_harness_rust/target/release/compliance_harness'',
          ''/repo/tests/compliance_tests/test_cases'', ''--parity'', ''--verbose'',
          ''--output'', ''report.json''], None)]
   \<and> (\<exists>d. resolved_test_dir (main ok_env full_args ready_world) = Some d \<and>
        [''/repo/tests/compliance_harness_rust/target/release/compliance_harness'',
         ''/repo/tests/compliance_tests/test_cases'', ''--parity'', ''--verbose'',
         ''--output'', ''report.json'']
        = [path_str (harness_binary (project_root ok_env)), path_str d, ''--parity'']
            @ (if verbose full_args then [''--verbose''] else [])
            @ (case output_arg full_args of None \<Rightarrow> []
               | Some f \<Rightarrow> if f = [] then [] else [''--output'', f]))"
proof -
  have h: "spawned (final (main ok_env full_args ready_world)) =
     spawned ready_world @
       [([''cargo'', ''build'', ''--release''],
         Some [''repo'', ''tests'', ''compliance_harness_rust'']),
        ([''/repo/tests/compliance_harness_rust/target/release/compliance_harness'',
          ''/repo/tests/compliance_tests/test_cases'', ''--parity'', ''--verbose'',
          ''--output'', ''report.json''], None)]"
  proof -
    have e: "spawned ready_world = []"
      by (simp add: ready_world_def)
    show ?thesis
      by (simp add: e main_ok_full_ready)
  qed
  from harness_command_line [OF h] h show ?thesis
    by blast
qed

text \<open>
  Claim C10: with \<^verbatim>\<open>--build-only\<close> and a successful build the driver exits with status 0;
  after a failed build (cargo returned a non-zero status, or could not be started) it
  exits with status 1, whatever the arguments; in both cases the only process the run
  started is the cargo build, so no parity check ran.
\<close>

theorem build_only_and_failed_build:
  "(fst (build_compliance_harness env (project_root env) (verbose a) w) = Inr True
      \<and> build_only a
      \<longrightarrow> exit_code (main env a w) = 0)
   \<and> (fst (build_compliance_harness env (project_root env) (verbose a) w) \<noteq> Inr True
      \<longrightarrow> exit_code (main env a w) = 1)
   \<and> (build_only a
        \<or> fst (build_compliance_harness env (project_root env) (verbose a) w) \<noteq> Inr True
      \<longrightarrow> spawned (final (main env a w)) =
          spawned w @
            [([''cargo'', ''build'', ''--release''] @ (if verbose a then [] else [''--quiet'']),
              Some (join (join (project_root env) ''tests'') ''compliance_harness_rust''))])"
proof -
  obtain r w1 where b: "build_compliance_harness env (project_root env) (verbose a) w = (r, w1)"
    by (cases "build_compliance_harness env (project_root env) (verbose a) w")
  note sp = build_spawned [OF b]
  show ?thesis
  proof (cases "r = Inr True")
    case False
    with main_build_failed [OF b] sp b show ?thesis by simp
  next
    case True
    show ?thesis
    proof (cases "build_only a")
      case True
      with main_build_only [of env a w w1] b \<open>r = Inr True\<close> sp show ?thesis by simp
    next
      case False
      with b \<open>r = Inr True\<close> show ?thesis by simp
    qed
  qed
qed

theorem build_only_and_failed_build_witness:
  "(fst (build_compliance_harness ok_env (project_root ok_env) (verbose build_only_args)
           ready_world) = Inr True
    \<and> build_only build_only_args
    \<and> exit_code (main ok_env build_only_args ready_world) = 0
    \<and> spawned (final (main ok_env build_only_args ready_world)) =
        [([''cargo'', ''build'', ''--release'', ''--quiet''],
          Some [''repo'', ''tests'', ''compliance_harness_rust''])])
   \<and> (fst (build_compliance_harness failing_env (project_root failing_env) (verbose plain_args)
             ready_world) \<noteq> Inr True
      \<and> exit_code (main failing_env plain_args ready_world) = 1
      \<and> spawned (final (main failing_env plain_args ready_world)) =
          [([''cargo'', ''build'', ''--release'', ''--quiet''],
            Some [''repo'', ''tests'', ''compliance_harness_rust''])])"
proof -
  have h1: "fst (build_compliance_harness ok_env (project_root ok_env) (verbose build_only_args)
                   ready_world) = Inr True"
    by (simp add: build_only_args_def build_ok_ready)
  have h2: "build_only build_only_args"
    by (simp add: build_only_args_def)
  have h3: "fst (build_compliance_harness failing_env (project_root failing_env)
                   (verbose plain_args) ready_world) \<noteq> Inr True"
    by (simp add: plain_args_def build_failing_ready)
  from build_only_and_failed_build [of ok_env build_only_args ready_world]
       build_only_and_failed_build [of failing_env plain_args ready_world]
       h1 h2 h3
  show ?thesis
    by (simp add: main_ok_build_only main_failing_plain_ready)
qed

section \<open>struct.pack: sizes, offsets and byte order\<close>

lemma length_le_bytes [simp]: "length (le_bytes n v) = n"
  by (induction n arbitrary: v) simp_all

lemma uint_byte_of_int: "uint (of_int (v mod 256) :: byte) = v mod 256"
  by (simp add: uint_word_of_int)

lemma le_value_le_bytes: "le_value (le_bytes n v) = v mod 256 ^ n"
proof (induction n arbitrary: v)
  case 0
  show ?case by simp
next
  case (Suc n)
  have "v mod (256 * 256 ^ n) = 256 * (v div 256 mod 256 ^ n) + v mod 256"
    by (rule zmod_zmult2_eq) simp
  with Suc show ?case
    by (simp add: uint_byte_of_int)
qed

lemma pack_int_length: "pack_int c v = Inr bs \<Longrightarrow> length bs = code_size c"
  by (auto simp: pack_int_def Let_def split: if_splits)

lemma pow256: "(256::int) ^ n = 2 ^ (8 * n)"
proof -
  have "(256::int) = 2 ^ 8" by simp
  then show ?thesis by (simp only: power_mult [symmetric])
qed

lemma pack_int_le_value:
  "pack_int c v = Inr bs \<Longrightarrow> le_value bs = v mod 2 ^ (8 * code_size c)"
  by (auto simp: pack_int_def Let_def le_value_le_bytes pow256 split: if_splits)

lemma pack1_length: "pack1 c v = Inr bs \<Longrightarrow> length bs = code_size c"
  by (cases "(c, v)" rule: pack1.cases)
     (auto simp: pack_int_length split: sum.splits)

lemma pack1_int_le_value:
  "pack1 c (PInt v) = Inr bs \<Longrightarrow> c \<noteq> Fmt_f \<Longrightarrow> c \<noteq> Fmt_d \<Longrightarrow>
   le_value bs = v mod 2 ^ (8 * code_size c)"
  by (cases c) (simp_all add: pack_int_le_value)

lemma pack_items_little:
  "pack_items Little cs vs = Inr d \<Longrightarrow>
   length vs = length cs \<and> length d = sum_list (map code_size cs) \<and>
   (\<forall>i < length cs.
      pack1 (cs ! i) (vs ! i) =
        Inr (slice (sum_list (map code_size (take i cs))) (code_size (cs ! i)) d))"
proof (induction cs arbitrary: vs d)
  case Nil
  then show ?case by (cases vs) simp_all
next
  case (Cons c cs)
  from Cons.prems obtain v vs' where vs: "vs = v # vs'"
    by (cases vs) simp_all
  from Cons.prems vs obtain b bs where
    b: "pack1 c v = Inr b" and bs: "pack_items Little cs vs' = Inr bs" and d: "d = b @ bs"
    by (auto split: sum.splits)
  note ih = Cons.IH [OF bs]
  have lb: "length b = code_size c" by (rule pack1_length [OF b])
  show ?case
  proof (intro conjI allI impI)
    show "length vs = length (c # cs)" using ih vs by simp
    show "length d = sum_list (map code_size (c # cs))" using ih lb d by simp
  next
    fix i assume i: "i < length (c # cs)"
    show "pack1 ((c # cs) ! i) (vs ! i) =
        Inr (slice (sum_list (map code_size (take i (c # cs)))) (code_size ((c # cs) ! i)) d)"
    proof (cases i)
      case 0
      with b lb d vs show ?thesis by (simp add: slice_def)
    next
      case (Suc j)
      with i have j: "j < length cs" by simp
      from ih j have "pack1 (cs ! j) (vs' ! j) =
         Inr (slice (sum_list (map code_size (take j cs))) (code_size (cs ! j)) bs)" by simp
      with Suc lb d vs show ?thesis by (simp add: slice_def)
    qed
  qed
qed

lemma pack_little:
  "pack (CHR ''<'' # fmt) vs = Inr d \<Longrightarrow> parse_codes fmt = Inr cs \<Longrightarrow>
   length vs = length cs \<and> length d = sum_list (map code_size cs) \<and>
   (\<forall>i < length cs.
      pack1 (cs ! i) (vs ! i) =
        Inr (slice (sum_list (map code_size (take i cs))) (code_size (cs ! i)) d))"
  by (rule pack_items_little) (auto simp: pack_def split: if_splits)

lemma parse_all_primitives:
  "parse_codes ''BHIQbhiqfd'' =
     Inr [Fmt_B, Fmt_H, Fmt_I, Fmt_Q, Fmt_b, Fmt_h, Fmt_i, Fmt_q, Fmt_f, Fmt_d]"
  by simp


lemma with_data_Inr: "with_data (Inr b) k = k b"
  by (rule ext) (simp add: with_data_def)

section \<open>The fixture contents\<close>

lemma generate_arrays_simple_bytes:
  "generate_arrays_simple_data =
     Inr [1, 2, 3, 4, 10, 0, 20, 0, 30, 0, 100, 0, 0, 0, 200, 0, 0, 0,
          255, 255, 255, 255, 0, 0, 0, 0, 1, 0, 0, 0, 156, 255, 255, 255, 100, 0, 0, 0]"
  by code_simp

lemma generate_arrays_zeros_bytes:
  "generate_arrays_zeros_data = Inr (replicate 38 0)"
  by code_simp

lemma generate_structs_simple_bytes:
  "generate_structs_simple_data = Inr [0x39, 0x30, 0, 0, 0, 0, 0, 0, 0x42, 0x0F, 0x27]"
  by code_simp

lemma generate_structs_rectangle_bytes:
  "generate_structs_rectangle_data =
     Inr [10, 0, 0, 0, 20, 0, 0, 0, 100, 0, 0, 0, 80, 0, 0, 0, 0, 0, 0xFF, 0]"
  by code_simp

lemma generate_enums_none_bytes: "generate_enums_none_data = Inr [0x00]"
  by code_simp

lemma generate_enums_value_bytes:
  "generate_enums_value_data = Inr [0x01, 0x2A, 0x00, 0x00, 0x00]"
  by code_simp

lemma generate_enums_pair_bytes:
  "generate_enums_pair_data = Inr [0x02, 0x64, 0x00, 0xC8, 0x00]"
  by code_simp

lemma generate_unions_int_bytes: "generate_unions_int_data = Inr [0xD6, 0xFF, 0xFF, 0xFF]"
  by code_simp

lemma generate_unions_float_bytes: "generate_unions_float_data = Inr [0xD0, 0x0F, 0x49, 0x40]"
  by code_simp

lemma generate_unions_bytes_bytes: "generate_unions_bytes_data = Inr [0xDE, 0xAD, 0xBE, 0xEF]"
  by code_simp

lemma all_zeros_bytes: "pack_all_primitives all_zeros_values = Inr (replicate 42 0)"
  by code_simp

lemma all_max_bytes:
  "pack_all_primitives all_max_values =
     Inr [255, 255, 255, 255, 255, 255, 255, 255, 255, 255, 255, 255, 255, 255,
      255, 127, 255, 127, 255, 255, 255, 127, 255, 255, 255, 255, 255, 255,
      255, 127, 255, 255, 127, 127, 255, 255, 255, 255, 255, 255, 239, 127]"
  by code_simp

lemma all_min_signed_bytes:
  "pack_all_primitives all_min_signed_values =
     Inr [0, 0, 0, 0, 0, 0, 0, 0, 0, 0, 0, 0, 0, 0, 0, 128, 0, 128, 0, 0, 0,
      128, 0, 0, 0, 0, 0, 0, 0, 128, 255, 255, 127, 255, 255, 255, 255, 255,
      255, 255, 239, 255]"
  by code_simp

lemma common_values_bytes:
  "pack_all_primitives common_values =
     Inr [42, 232, 3, 120, 86, 52, 18, 240, 222, 188, 154, 120, 86, 52, 18, 214,
      46, 251, 192, 29, 254, 255, 235, 50, 164, 248, 255, 255, 255, 255,
      208, 15, 73, 64, 105, 87, 20, 139, 10, 191, 5, 64]"
  by code_simp

lemma u32_0x12345678_bytes:
  "pack_all_primitives u32_0x12345678_values =
     Inr ([0, 0, 0, 0x78, 0x56, 0x34, 0x12] @ replicate 35 0)"
  by code_simp

lemma u64_bigint_bytes:
  "pack_all_primitives u64_bigint_values =
     Inr ([0, 0, 0, 0, 0, 0, 0, 0xF0, 0xDE, 0xBC, 0x9A, 0x78, 0x56, 0x34, 0x12]
          @ replicate 27 0)"
  by code_simp

lemma float_values_bytes:
  "pack_all_primitives float_values_values =
     Inr (replicate 30 0 @ [219, 15, 73, 64, 105, 87, 20, 139, 10, 191, 5, 64])"
  by code_simp

lemma all_primitives_layout:
  assumes p: "pack_all_primitives vs = Inr d"
  shows "length d = 42 \<and> length vs = 10 \<and>
    map2 pack1 [Fmt_B, Fmt_H, Fmt_I, Fmt_Q, Fmt_b, Fmt_h, Fmt_i, Fmt_q, Fmt_f, Fmt_d] vs =
    map Inr [slice 0 1 d, slice 1 2 d, slice 3 4 d, slice 7 8 d, slice 15 1 d,
             slice 16 2 d, slice 18 4 d, slice 22 8 d, slice 30 4 d, slice 34 8 d]"
proof -
  let ?cs = "[Fmt_B, Fmt_H, Fmt_I, Fmt_Q, Fmt_b, Fmt_h, Fmt_i, Fmt_q, Fmt_f, Fmt_d]"
  from p have p': "pack (CHR ''<'' # ''BHIQbhiqfd'') vs = Inr d"
    by (simp add: pack_all_primitives_def all_primitives_format_def)
  note L = pack_little [OF p' parse_all_primitives]
  from L have len: "length vs = 10" and ld: "length d = 42" by simp_all
  from L have f: "\<And>i. i < 10 \<Longrightarrow> pack1 (?cs ! i) (vs ! i) =
        Inr (slice (sum_list (map code_size (take i ?cs))) (code_size (?cs ! i)) d)"
    by simp
  from len obtain v0 v1 v2 v3 v4 v5 v6 v7 v8 v9 where
    vs: "vs = [v0, v1, v2, v3, v4, v5, v6, v7, v8, v9]"
    by (auto simp: length_Suc_conv numeral_eq_Suc)
  have "pack1 Fmt_B v0 = Inr (slice 0 1 d)" using f [of 0] vs by simp
  moreover have "pack1 Fmt_H v1 = Inr (slice 1 2 d)" using f [of 1] vs by simp
  moreover have "pack1 Fmt_I v2 = Inr (slice 3 4 d)" using f [of 2] vs by (simp add: numeral_eq_Suc)
  moreover have "pack1 Fmt_Q v3 = Inr (slice 7 8 d)" using f [of 3] vs by (simp add: numeral_eq_Suc)
  moreover have "pack1 Fmt_b v4 = Inr (slice 15 1 d)" using f [of 4] vs by (simp add: numeral_eq_Suc)
  moreover have "pack1 Fmt_h v5 = Inr (slice 16 2 d)" using f [of 5] vs by (simp add: numeral_eq_Suc)
  moreover have "pack1 Fmt_i v6 = Inr (slice 18 4 d)" using f [of 6] vs by (simp add: numeral_eq_Suc)
  moreover have "pack1 Fmt_q v7 = Inr (slice 22 8 d)" using f [of 7] vs by (simp add: numeral_eq_Suc)
  moreover have "pack1 Fmt_f v8 = Inr (slice 30 4 d)" using f [of 8] vs by (simp add: numeral_eq_Suc)
  moreover have "pack1 Fmt_d v9 = Inr (slice 34 8 d)" using f [of 9] vs by (simp add: numeral_eq_Suc)
  ultimately show ?thesis using ld len vs by simp
qed

section \<open>The generators and the file system\<close>

lemma mkdirs_changes:
  "mkdirs pre cs fs = (r, fs') \<Longrightarrow> fs' p = fs p \<or> (fs p = None \<and> fs' p = Some Dir)"
proof (induction cs arbitrary: pre fs)
  case Nil
  then show ?case by simp
next
  case (Cons c cs)
  show ?case
  proof (cases "fs (pre @ [c])")
    case None
    with Cons.prems have "mkdirs (pre @ [c]) cs (fs(pre @ [c] \<mapsto> Dir)) = (r, fs')" by simp
    from Cons.IH [OF this] None show ?thesis by (auto split: if_splits)
  next
    case (Some n)
    show ?thesis
    proof (cases n)
      case Dir
      with Some Cons.prems have "mkdirs (pre @ [c]) cs fs = (r, fs')" by simp
      from Cons.IH [OF this] show ?thesis .
    next
      case (File x)
      with Some Cons.prems show ?thesis by simp
    qed
  qed
qed

lemma mkdirs_done:
  "mkdirs pre cs fs = (None, fs') \<Longrightarrow> cs \<noteq> [] \<Longrightarrow> fs' (pre @ cs) = Some Dir"
proof (induction cs arbitrary: pre fs)
  case Nil
  then show ?case by simp
next
  case (Cons c cs)
  show ?case
  proof (cases "fs (pre @ [c])")
    case None
    with Cons.prems have m: "mkdirs (pre @ [c]) cs (fs(pre @ [c] \<mapsto> Dir)) = (None, fs')"
      by simp
    show ?thesis
    proof (cases "cs = []")
      case True
      with m show ?thesis by auto
    next
      case False
      from Cons.IH [OF m False] show ?thesis by simp
    qed
  next
    case (Some n)
    show ?thesis
    proof (cases n)
      case Dir
      with Some Cons.prems have m: "mkdirs (pre @ [c]) cs fs = (None, fs')" by simp
      show ?thesis
      proof (cases "cs = []")
        case True
        with m Some Dir show ?thesis by simp
      next
        case False
        from Cons.IH [OF m False] show ?thesis by simp
      qed
    next
      case (File x)
      with Some Cons.prems show ?thesis by simp
    qed
  qed
qed

lemma write_file_cases:
  "write_file p data fs = (r, fs') \<Longrightarrow>
   (r \<noteq> None \<and> fs' = fs) \<or> (r = None \<and> fs p \<noteq> Some Dir \<and> fs' = fs(p \<mapsto> File data))"
  by (auto simp: write_file_def split: if_splits)

text \<open>What one write of a fixture does to the file system.\<close>

lemma write_at_changes:
  assumes e: "ensure_dir q fs = (r1, fs1)"
    and w: "r1 = None \<Longrightarrow> write_file t data fs1 = (r, fs')"
    and f: "r1 \<noteq> None \<Longrightarrow> r = r1 \<and> fs' = fs1"
  shows "(fs' p = fs p \<or> (fs p = None \<and> fs' p = Some Dir)
          \<or> (p = t \<and> r = None \<and> fs p \<noteq> Some Dir \<and> fs' p = Some (File data)))
         \<and> (r = None \<longrightarrow> fs' t = Some (File data))"
proof (cases r1)
  case (Some x)
  with f have "r = r1" "fs' = fs1" by simp_all
  with mkdirs_changes [OF e [unfolded ensure_dir_def], of p] Some show ?thesis by auto
next
  case None
  note m = mkdirs_changes [OF e [unfolded ensure_dir_def]]
  from write_file_cases [OF w [OF None]] show ?thesis
  proof
    assume "r \<noteq> None \<and> fs' = fs1"
    with m [of p] show ?thesis by auto
  next
    assume a: "r = None \<and> fs1 t \<noteq> Some Dir \<and> fs' = fs1(t \<mapsto> File data)"
    show ?thesis
    proof (cases "p = t")
      case True
      with a m [of t] show ?thesis by auto
    next
      case False
      with a m [of p] show ?thesis by auto
    qed
  qed
qed

lemma write_binary_changes:
  assumes "write_binary sd n d fs = (r, fs')"
  shows "(fs' p = fs p \<or> (fs p = None \<and> fs' p = Some Dir)
          \<or> (p = join (BINARY_DIR sd) n \<and> r = None \<and> fs p \<noteq> Some Dir
              \<and> fs' p = Some (File d)))
         \<and> (r = None \<longrightarrow> fs' (join (BINARY_DIR sd) n) = Some (File d))"
proof -
  obtain r1 fs1 where e: "ensure_dir (parent (join (BINARY_DIR sd) n)) fs = (r1, fs1)"
    by (cases "ensure_dir (parent (join (BINARY_DIR sd) n)) fs")
  show ?thesis
  proof (rule write_at_changes [OF e])
    assume "r1 = None"
    with assms e show "write_file (join (BINARY_DIR sd) n) d fs1 = (r, fs')"
      by (simp add: write_binary_def Let_def)
  next
    assume "r1 \<noteq> None"
    with assms e show "r = r1 \<and> fs' = fs1"
      by (auto simp: write_binary_def Let_def)
  qed
qed

lemma write_packed_changes:
  assumes w: "write_packed cwd n d fs = (r, fs')"
  shows "(fs' p = fs p \<or> (fs p = None \<and> fs' p = Some Dir)
          \<or> (p = join (output_dir cwd) n \<and> r = None \<and> fs p \<noteq> Some Dir
              \<and> fs' p = Some (File d)))
         \<and> (r = None \<longrightarrow> fs' (join (output_dir cwd) n) = Some (File d))"
proof -
  obtain r1 fs1 where e: "ensure_dir (output_dir cwd) fs = (r1, fs1)"
    by (cases "ensure_dir (output_dir cwd) fs")
  show ?thesis
  proof (rule write_at_changes [OF e])
    assume "r1 = None"
    with w e show "write_file (join (output_dir cwd) n) d fs1 = (r, fs')"
      by (simp add: write_packed_def)
  next
    assume "r1 \<noteq> None"
    with w e show "r = r1 \<and> fs' = fs1"
      by (auto simp: write_packed_def)
  qed
qed

text \<open>A run of writes, one per row of a table, to pairwise different paths.\<close>

lemma run_all_table:
  assumes W: "\<forall>k \<in> set tbl. \<forall>fs r fs' p. act k fs = (r, fs') \<longrightarrow>
      (fs' p = fs p \<or> (fs p = None \<and> fs' p = Some Dir)
       \<or> (p = tgt k \<and> r = None \<and> fs p \<noteq> Some Dir \<and> fs' p = Some (File (dat k))))
      \<and> (r = None \<longrightarrow> fs' (tgt k) = Some (File (dat k)))"
    and dist: "distinct (map tgt tbl)"
    and run: "run_all (map act tbl) fs = (r, fs')"
  shows "(\<forall>p. fs' p = fs p \<or> (fs p = None \<and> fs' p = Some Dir)
              \<or> (\<exists>k \<in> set tbl. p = tgt k \<and> fs' p = Some (File (dat k))))
         \<and> (r = None \<longrightarrow> (\<forall>k \<in> set tbl. fs' (tgt k) = Some (File (dat k))))"
  using W dist run
proof (induction tbl arbitrary: fs)
  case Nil
  then show ?case by simp
next
  case (Cons k tbl)
  obtain r1 fs1 where a: "act k fs = (r1, fs1)" by (cases "act k fs")
  have step: "\<And>p. (fs1 p = fs p \<or> (fs p = None \<and> fs1 p = Some Dir)
       \<or> (p = tgt k \<and> r1 = None \<and> fs p \<noteq> Some Dir \<and> fs1 p = Some (File (dat k))))
      \<and> (r1 = None \<longrightarrow> fs1 (tgt k) = Some (File (dat k)))"
    using Cons.prems(1) a by simp
  show ?case
  proof (cases r1)
    case (Some e)
    with a Cons.prems(3) have re: "r = Some e" and fe: "fs' = fs1" by simp_all
    have "\<forall>p. fs' p = fs p \<or> (fs p = None \<and> fs' p = Some Dir)"
    proof
      fix p
      from step [of p] Some fe show "fs' p = fs p \<or> (fs p = None \<and> fs' p = Some Dir)"
        by simp
    qed
    with re show ?thesis by blast
  next
    case None
    with a Cons.prems(3) have rest: "run_all (map act tbl) fs1 = (r, fs')" by simp
    have W': "\<forall>k \<in> set tbl. \<forall>fs r fs' p. act k fs = (r, fs') \<longrightarrow>
      (fs' p = fs p \<or> (fs p = None \<and> fs' p = Some Dir)
       \<or> (p = tgt k \<and> r = None \<and> fs p \<noteq> Some Dir \<and> fs' p = Some (File (dat k))))
      \<and> (r = None \<longrightarrow> fs' (tgt k) = Some (File (dat k)))"
      using Cons.prems(1) by simp
    from Cons.prems(2) have d': "distinct (map tgt tbl)" and nk: "tgt k \<notin> tgt ` set tbl"
      by simp_all
    note ih = Cons.IH [OF W' d' rest]
    have ch: "\<forall>p. fs' p = fs p \<or> (fs p = None \<and> fs' p = Some Dir)
              \<or> (\<exists>j \<in> set (k # tbl). p = tgt j \<and> fs' p = Some (File (dat j)))"
    proof
      fix p
      from ih have i: "fs' p = fs1 p \<or> (fs1 p = None \<and> fs' p = Some Dir)
              \<or> (\<exists>j \<in> set tbl. p = tgt j \<and> fs' p = Some (File (dat j)))" by blast
      from step [of p] have s: "fs1 p = fs p \<or> (fs p = None \<and> fs1 p = Some Dir)
       \<or> (p = tgt k \<and> fs1 p = Some (File (dat k)))" by blast
      from i s show "fs' p = fs p \<or> (fs p = None \<and> fs' p = Some Dir)
              \<or> (\<exists>j \<in> set (k # tbl). p = tgt j \<and> fs' p = Some (File (dat j)))"
        by auto
    qed
    have fin: "r = None \<longrightarrow> (\<forall>j \<in> set (k # tbl). fs' (tgt j) = Some (File (dat j)))"
    proof (intro impI ballI)
      fix j assume rn: "r = None" and j: "j \<in> set (k # tbl)"
      show "fs' (tgt j) = Some (File (dat j))"
      proof (cases "j \<in> set tbl")
        case True
        with ih rn show ?thesis by blast
      next
        case False
        with j have jk: "j = k" by simp
        from step [of "tgt k"] None have k1: "fs1 (tgt k) = Some (File (dat k))" by simp
        from ih have "fs' (tgt k) = fs1 (tgt k) \<or> (fs1 (tgt k) = None \<and> fs' (tgt k) = Some Dir)
              \<or> (\<exists>j \<in> set tbl. tgt k = tgt j \<and> fs' (tgt k) = Some (File (dat j)))" by blast
        with k1 nk jk show ?thesis by auto
      qed
    qed
    from ch fin show ?thesis by blast
  qed
qed


lemma distinct_test_data_targets:
  "distinct (map (\<lambda>k. join (BINARY_DIR sd) (fst k)) test_data_fixtures)"
  by (simp add: test_data_fixtures_def join_def BINARY_DIR_def is_absolute_def path_parts_def
        keep_part_def)

lemma distinct_primitive_targets:
  "distinct (map (\<lambda>k. join (output_dir cwd) (fst k)) primitive_fixtures)"
  by (simp add: primitive_fixtures_def join_def output_dir_def is_absolute_def path_parts_def
        keep_part_def)

lemma test_data_table_run:
  assumes "run_all (map (\<lambda>k. write_binary sd (fst k) (snd k)) test_data_fixtures) fs = (r, fs')"
  shows "(\<forall>p. fs' p = fs p \<or> (fs p = None \<and> fs' p = Some Dir)
              \<or> (\<exists>k \<in> set test_data_fixtures.
                    p = join (BINARY_DIR sd) (fst k) \<and> fs' p = Some (File (snd k))))
         \<and> (r = None \<longrightarrow> (\<forall>k \<in> set test_data_fixtures.
                fs' (join (BINARY_DIR sd) (fst k)) = Some (File (snd k))))"
proof (rule run_all_table [where act = "\<lambda>k. write_binary sd (fst k) (snd k)"
      and tgt = "\<lambda>k. join (BINARY_DIR sd) (fst k)" and dat = snd, OF _ distinct_test_data_targets assms])
  show "\<forall>k\<in>set test_data_fixtures. \<forall>fs r fs' p.
       write_binary sd (fst k) (snd k) fs = (r, fs') \<longrightarrow>
       (fs' p = fs p \<or> fs p = None \<and> fs' p = Some Dir \<or>
        p = join (BINARY_DIR sd) (fst k) \<and> r = None \<and> fs p \<noteq> Some Dir \<and>
        fs' p = Some (File (snd k))) \<and>
       (r = None \<longrightarrow> fs' (join (BINARY_DIR sd) (fst k)) = Some (File (snd k)))"
    using write_binary_changes by blast
qed

lemma primitive_table_run:
  assumes "run_all (map (\<lambda>k. write_packed cwd (fst k) (snd k)) primitive_fixtures) fs = (r, fs')"
  shows "(\<forall>p. fs' p = fs p \<or> (fs p = None \<and> fs' p = Some Dir)
              \<or> (\<exists>k \<in> set primitive_fixtures.
                    p = join (output_dir cwd) (fst k) \<and> fs' p = Some (File (snd k))))
         \<and> (r = None \<longrightarrow> (\<forall>k \<in> set primitive_fixtures.
                fs' (join (output_dir cwd) (fst k)) = Some (File (snd k))))"
proof (rule run_all_table [where act = "\<lambda>k. write_packed cwd (fst k) (snd k)"
      and tgt = "\<lambda>k. join (output_dir cwd) (fst k)" and dat = snd, OF _ distinct_primitive_targets assms])
  show "\<forall>k\<in>set primitive_fixtures. \<forall>fs r fs' p.
       write_packed cwd (fst k) (snd k) fs = (r, fs') \<longrightarrow>
       (fs' p = fs p \<or> fs p = None \<and> fs' p = Some Dir \<or>
        p = join (output_dir cwd) (fst k) \<and> r = None \<and> fs p \<noteq> Some Dir \<and>
        fs' p = Some (File (snd k))) \<and>
       (r = None \<longrightarrow> fs' (join (output_dir cwd) (fst k)) = Some (File (snd k)))"
    using write_packed_changes by blast
qed

lemma main_generate_test_data_table:
  "main_generate_test_data sd =
     run_all (map (\<lambda>k. write_binary sd (fst k) (snd k)) test_data_fixtures)"
  by (simp add: main_generate_test_data_def test_data_fixtures_def with_data_Inr
        generate_arrays_simple_def generate_arrays_simple_bytes
        generate_arrays_zeros_def generate_arrays_zeros_bytes
        generate_structs_simple_def generate_structs_simple_bytes
        generate_structs_rectangle_def generate_structs_rectangle_bytes
        generate_enums_none_def generate_enums_none_bytes
        generate_enums_value_def generate_enums_value_bytes
        generate_enums_pair_def generate_enums_pair_bytes
        generate_unions_int_def generate_unions_int_bytes
        generate_unions_float_def generate_unions_float_bytes
        generate_unions_bytes_def generate_unions_bytes_bytes)

lemma main_generate_primitive_test_binaries_table:
  "main_generate_primitive_test_binaries cwd =
     run_all (map (\<lambda>k. write_packed cwd (fst k) (snd k)) primitive_fixtures)"
  by (simp add: main_generate_primitive_test_binaries_def primitive_fixtures_def
        write_binary_primitives_def with_data_Inr
        all_zeros_bytes all_max_bytes all_min_signed_bytes common_values_bytes
        u32_0x12345678_bytes u64_bigint_bytes float_values_bytes)

lemmas fs_eval = join_def BINARY_DIR_def output_dir_def is_absolute_def path_parts_def
  keep_part_def parent_def ensure_dir_def write_file_def write_binary_def write_packed_def
  test_data_fixtures_def primitive_fixtures_def

lemma test_data_run_completes:
  "fst (main_generate_test_data [''s''] Map.empty) = None"
  by (simp add: main_generate_test_data_table fs_eval)

lemma primitive_run_completes:
  "fst (main_generate_primitive_test_binaries [''w''] Map.empty) = None"
  by (simp add: main_generate_primitive_test_binaries_table fs_eval)

subsection \<open>Running a generator again\<close>

lemma mkdirs_existing:
  "(\<forall>j. 0 < j \<and> j \<le> length cs \<longrightarrow> fs (pre @ take j cs) = Some Dir) \<Longrightarrow>
   mkdirs pre cs fs = (None, fs)"
proof (induction cs arbitrary: pre)
  case Nil
  show ?case by simp
next
  case (Cons c cs)
  from Cons.prems [rule_format, of 1] have d: "fs (pre @ [c]) = Some Dir" by simp
  have "\<forall>j. 0 < j \<and> j \<le> length cs \<longrightarrow> fs ((pre @ [c]) @ take j cs) = Some Dir"
  proof (intro allI impI)
    fix j assume "0 < j \<and> j \<le> length cs"
    with Cons.prems [rule_format, of "Suc j"] show "fs ((pre @ [c]) @ take j cs) = Some Dir"
      by simp
  qed
  from Cons.IH [OF this] d show ?case by simp
qed

lemma mkdirs_all_done:
  "mkdirs pre cs fs = (None, fs') \<Longrightarrow>
   \<forall>j. 0 < j \<and> j \<le> length cs \<longrightarrow> fs' (pre @ take j cs) = Some Dir"
proof (induction cs arbitrary: pre fs)
  case Nil
  show ?case by simp
next
  case (Cons c cs)
  obtain fs1 where m: "mkdirs (pre @ [c]) cs fs1 = (None, fs')"
    and d: "fs1 (pre @ [c]) = Some Dir"
  proof (cases "fs (pre @ [c])")
    case None
    with Cons.prems have "mkdirs (pre @ [c]) cs (fs(pre @ [c] \<mapsto> Dir)) = (None, fs')" by simp
    then show ?thesis using that [of "fs(pre @ [c] \<mapsto> Dir)"] by simp
  next
    case (Some n)
    with Cons.prems have n: "n = Dir" by (cases n) simp_all
    with Some Cons.prems have "mkdirs (pre @ [c]) cs fs = (None, fs')" by simp
    then show ?thesis using that [of fs] Some n by simp
  qed
  from mkdirs_changes [OF m, of "pre @ [c]"] d have d': "fs' (pre @ [c]) = Some Dir" by auto
  note ih = Cons.IH [OF m]
  show ?case
  proof (intro allI impI)
    fix j assume j: "0 < j \<and> j \<le> length (c # cs)"
    show "fs' (pre @ take j (c # cs)) = Some Dir"
    proof (cases j)
      case 0
      with j show ?thesis by simp
    next
      case (Suc i)
      show ?thesis
      proof (cases "i = 0")
        case True
        with Suc d' show ?thesis by simp
      next
        case False
        with Suc j ih [rule_format, of i] show ?thesis by simp
      qed
    qed
  qed
qed

lemma write_at_good:
  assumes e: "ensure_dir q fs = (None, fs1)" and w: "write_file t d fs1 = (None, fs')"
  shows "(\<forall>j. 0 < j \<and> j \<le> length q \<longrightarrow> fs' (take j q) = Some Dir) \<and> fs' t = Some (File d)"
proof -
  from mkdirs_all_done [OF e [unfolded ensure_dir_def]]
  have a: "\<forall>j. 0 < j \<and> j \<le> length q \<longrightarrow> fs1 (take j q) = Some Dir" by simp
  from write_file_cases [OF w] have b: "fs1 t \<noteq> Some Dir" and c: "fs' = fs1(t \<mapsto> File d)"
    by simp_all
  from a b c show ?thesis by auto
qed

lemma write_at_again:
  assumes a: "\<forall>j. 0 < j \<and> j \<le> length q \<longrightarrow> fs (take j q) = Some Dir"
    and f: "fs t = Some (File d)" and t: "t \<noteq> []" and q: "parent t = q"
  shows "ensure_dir q fs = (None, fs) \<and> write_file t d fs = (None, fs)"
proof
  from a show e: "ensure_dir q fs = (None, fs)"
    unfolding ensure_dir_def by (intro mkdirs_existing) simp
  have "q \<noteq> [] \<Longrightarrow> fs q = Some Dir"
    using a [rule_format, of "length q"] by simp
  moreover have "fs(t \<mapsto> File d) = fs" using f by (auto simp: fun_upd_idem_iff)
  ultimately show "write_file t d fs = (None, fs)"
    using f t q by (auto simp: write_file_def)
qed

lemma run_all_fixpoint:
  "(\<forall>k \<in> set tbl. act k fs = (None, fs)) \<Longrightarrow> run_all (map act tbl) fs = (None, fs)"
  by (induction tbl) simp_all

lemma step_keeps_good:
  assumes ch: "\<forall>p. fs' p = fs p \<or> (fs p = None \<and> fs' p = Some Dir)
                \<or> (p = t \<and> fs p \<noteq> Some Dir \<and> fs' p = Some (File d))"
    and g: "(\<forall>q \<in> ds. fs q = Some Dir) \<and> fs u = Some (File e)" and ne: "u \<noteq> t"
  shows "(\<forall>q \<in> ds. fs' q = Some Dir) \<and> fs' u = Some (File e)"
proof
  show "\<forall>q \<in> ds. fs' q = Some Dir"
  proof
    fix q assume "q \<in> ds"
    with g have "fs q = Some Dir" by simp
    with ch [rule_format, of q] show "fs' q = Some Dir" by auto
  qed
  from ch [rule_format, of u] g ne show "fs' u = Some (File e)" by auto
qed

lemma run_keeps_good:
  assumes W: "\<forall>k \<in> set tbl. \<forall>fs r fs'. act k fs = (r, fs') \<longrightarrow>
        (\<forall>p. fs' p = fs p \<or> (fs p = None \<and> fs' p = Some Dir)
             \<or> (p = tgt k \<and> fs p \<noteq> Some Dir \<and> fs' p = Some (File (dat k))))"
    and g: "(\<forall>q \<in> ds. fs q = Some Dir) \<and> fs u = Some (File e)"
    and ne: "u \<notin> tgt ` set tbl"
    and run: "run_all (map act tbl) fs = (r, fs')"
  shows "(\<forall>q \<in> ds. fs' q = Some Dir) \<and> fs' u = Some (File e)"
  using W g ne run
proof (induction tbl arbitrary: fs)
  case Nil
  then show ?case by simp
next
  case (Cons k tbl)
  obtain r1 fs1 where a: "act k fs = (r1, fs1)" by (cases "act k fs")
  from Cons.prems(1) a have ch: "\<forall>p. fs1 p = fs p \<or> (fs p = None \<and> fs1 p = Some Dir)
             \<or> (p = tgt k \<and> fs p \<noteq> Some Dir \<and> fs1 p = Some (File (dat k)))" by simp
  from Cons.prems(3) have uk: "u \<noteq> tgt k" and ne': "u \<notin> tgt ` set tbl" by auto
  note g1 = step_keeps_good [OF ch Cons.prems(2) uk]
  show ?case
  proof (cases r1)
    case (Some x)
    with a Cons.prems(4) have "fs' = fs1" by simp
    with g1 show ?thesis by simp
  next
    case None
    with a Cons.prems(4) have rest: "run_all (map act tbl) fs1 = (r, fs')" by simp
    have W': "\<forall>k \<in> set tbl. \<forall>fs r fs'. act k fs = (r, fs') \<longrightarrow>
        (\<forall>p. fs' p = fs p \<or> (fs p = None \<and> fs' p = Some Dir)
             \<or> (p = tgt k \<and> fs p \<noteq> Some Dir \<and> fs' p = Some (File (dat k))))"
      using Cons.prems(1) by simp
    from Cons.IH [OF W' g1 ne' rest] show ?thesis .
  qed
qed

lemma run_all_good:
  assumes W: "\<forall>k \<in> set tbl. \<forall>fs r fs'. act k fs = (r, fs') \<longrightarrow>
        (\<forall>p. fs' p = fs p \<or> (fs p = None \<and> fs' p = Some Dir)
             \<or> (p = tgt k \<and> fs p \<noteq> Some Dir \<and> fs' p = Some (File (dat k))))
        \<and> (r = None \<longrightarrow> (\<forall>q \<in> dirs k. fs' q = Some Dir) \<and> fs' (tgt k) = Some (File (dat k)))"
    and dist: "distinct (map tgt tbl)"
    and run: "run_all (map act tbl) fs = (None, fs')"
  shows "\<forall>k \<in> set tbl. (\<forall>q \<in> dirs k. fs' q = Some Dir) \<and> fs' (tgt k) = Some (File (dat k))"
  using W dist run
proof (induction tbl arbitrary: fs)
  case Nil
  show ?case by simp
next
  case (Cons k tbl)
  obtain r1 fs1 where a: "act k fs = (r1, fs1)" by (cases "act k fs")
  from a Cons.prems(3) have r1: "r1 = None" by (cases r1) simp_all
  with a Cons.prems(3) have rest: "run_all (map act tbl) fs1 = (None, fs')" by simp
  from Cons.prems(1) a r1
  have g1: "(\<forall>q \<in> dirs k. fs1 q = Some Dir) \<and> fs1 (tgt k) = Some (File (dat k))" by simp
  have W': "\<forall>k \<in> set tbl. \<forall>fs r fs'. act k fs = (r, fs') \<longrightarrow>
        (\<forall>p. fs' p = fs p \<or> (fs p = None \<and> fs' p = Some Dir)
             \<or> (p = tgt k \<and> fs p \<noteq> Some Dir \<and> fs' p = Some (File (dat k))))
        \<and> (r = None \<longrightarrow> (\<forall>q \<in> dirs k. fs' q = Some Dir) \<and> fs' (tgt k) = Some (File (dat k)))"
    using Cons.prems(1) by simp
  then have W'': "\<forall>k \<in> set tbl. \<forall>fs r fs'. act k fs = (r, fs') \<longrightarrow>
        (\<forall>p. fs' p = fs p \<or> (fs p = None \<and> fs' p = Some Dir)
             \<or> (p = tgt k \<and> fs p \<noteq> Some Dir \<and> fs' p = Some (File (dat k))))"
    by blast
  from Cons.prems(2) have d': "distinct (map tgt tbl)" and nk: "tgt k \<notin> tgt ` set tbl"
    by simp_all
  note gk = run_keeps_good [OF W'' g1 nk rest]
  note ih = Cons.IH [OF W' d' rest]
  from gk ih show ?case by simp
qed


lemma write_binary_good:
  assumes w: "write_binary sd n d fs = (None, fs')"
  shows "(\<forall>q \<in> {take j (parent (join (BINARY_DIR sd) n)) |j.
                 0 < j \<and> j \<le> length (parent (join (BINARY_DIR sd) n))}. fs' q = Some Dir)
         \<and> fs' (join (BINARY_DIR sd) n) = Some (File d)"
proof -
  obtain r1 fs1 where e: "ensure_dir (parent (join (BINARY_DIR sd) n)) fs = (r1, fs1)"
    by (cases "ensure_dir (parent (join (BINARY_DIR sd) n)) fs")
  from w e have r1: "r1 = None"
    by (cases r1) (simp_all add: write_binary_def Let_def)
  with w e have wf: "write_file (join (BINARY_DIR sd) n) d fs1 = (None, fs')"
    by (simp add: write_binary_def Let_def)
  from write_at_good [OF e [unfolded r1] wf] show ?thesis by auto
qed

lemma write_binary_again:
  assumes g: "(\<forall>q \<in> {take j (parent (join (BINARY_DIR sd) n)) |j.
                 0 < j \<and> j \<le> length (parent (join (BINARY_DIR sd) n))}. fs q = Some Dir)
         \<and> fs (join (BINARY_DIR sd) n) = Some (File d)"
    and t: "join (BINARY_DIR sd) n \<noteq> []"
  shows "write_binary sd n d fs = (None, fs)"
proof -
  from g have a: "\<forall>j. 0 < j \<and> j \<le> length (parent (join (BINARY_DIR sd) n))
        \<longrightarrow> fs (take j (parent (join (BINARY_DIR sd) n))) = Some Dir" by blast
  from g have f: "fs (join (BINARY_DIR sd) n) = Some (File d)" by simp
  from write_at_again [OF a f t refl] show ?thesis
    by (simp add: write_binary_def Let_def)
qed

lemma write_packed_good:
  assumes w: "write_packed cwd n d fs = (None, fs')"
  shows "(\<forall>q \<in> {take j (output_dir cwd) |j. 0 < j \<and> j \<le> length (output_dir cwd)}.
            fs' q = Some Dir)
         \<and> fs' (join (output_dir cwd) n) = Some (File d)"
proof -
  obtain r1 fs1 where e: "ensure_dir (output_dir cwd) fs = (r1, fs1)"
    by (cases "ensure_dir (output_dir cwd) fs")
  from w e have r1: "r1 = None"
    by (cases r1) (simp_all add: write_packed_def)
  with w e have wf: "write_file (join (output_dir cwd) n) d fs1 = (None, fs')"
    by (simp add: write_packed_def)
  from write_at_good [OF e [unfolded r1] wf] show ?thesis by auto
qed

lemma write_packed_again:
  assumes g: "(\<forall>q \<in> {take j (output_dir cwd) |j. 0 < j \<and> j \<le> length (output_dir cwd)}.
            fs q = Some Dir)
         \<and> fs (join (output_dir cwd) n) = Some (File d)"
    and t: "join (output_dir cwd) n \<noteq> []"
    and q: "parent (join (output_dir cwd) n) = output_dir cwd"
  shows "write_packed cwd n d fs = (None, fs)"
proof -
  from g have a: "\<forall>j. 0 < j \<and> j \<le> length (output_dir cwd)
        \<longrightarrow> fs (take j (output_dir cwd)) = Some Dir" by blast
  from g have f: "fs (join (output_dir cwd) n) = Some (File d)" by simp
  from write_at_again [OF a f t q] show ?thesis
    by (simp add: write_packed_def)
qed

lemma test_data_targets_nonempty:
  "\<forall>k \<in> set test_data_fixtures. join (BINARY_DIR sd) (fst k) \<noteq> []"
  by (simp add: test_data_fixtures_def join_def BINARY_DIR_def is_absolute_def path_parts_def
        keep_part_def)

lemma primitive_targets_parent:
  "\<forall>k \<in> set primitive_fixtures.
     join (output_dir cwd) (fst k) \<noteq> [] \<and>
     parent (join (output_dir cwd) (fst k)) = output_dir cwd"
  by (simp add: primitive_fixtures_def join_def output_dir_def is_absolute_def path_parts_def
        keep_part_def parent_def butlast_append)

lemma test_data_rerun:
  assumes m: "main_generate_test_data sd fs = (None, fs')"
  shows "main_generate_test_data sd fs' = (None, fs')"
proof -
  let ?act = "\<lambda>k. write_binary sd (fst k) (snd k)"
  let ?tgt = "\<lambda>k. join (BINARY_DIR sd) (fst k)"
  let ?dirs = "\<lambda>k. {take j (parent (?tgt k)) |j. 0 < j \<and> j \<le> length (parent (?tgt k))}"
  have W: "\<forall>k \<in> set test_data_fixtures. \<forall>fs r fs'. ?act k fs = (r, fs') \<longrightarrow>
        (\<forall>p. fs' p = fs p \<or> (fs p = None \<and> fs' p = Some Dir)
             \<or> (p = ?tgt k \<and> fs p \<noteq> Some Dir \<and> fs' p = Some (File (snd k))))
        \<and> (r = None \<longrightarrow> (\<forall>q \<in> ?dirs k. fs' q = Some Dir) \<and> fs' (?tgt k) = Some (File (snd k)))"
  proof (intro ballI allI impI)
    fix k fs r fs'
    assume a: "write_binary sd (fst k) (snd k) fs = (r, fs')"
    have c: "\<forall>p. fs' p = fs p \<or> (fs p = None \<and> fs' p = Some Dir)
             \<or> (p = ?tgt k \<and> fs p \<noteq> Some Dir \<and> fs' p = Some (File (snd k)))"
      using write_binary_changes [OF a] by blast
    have g: "r = None \<longrightarrow>
        (\<forall>q \<in> ?dirs k. fs' q = Some Dir) \<and> fs' (?tgt k) = Some (File (snd k))"
    proof
      assume r: "r = None"
      from write_binary_good [OF a [unfolded r]]
      show "(\<forall>q \<in> ?dirs k. fs' q = Some Dir) \<and> fs' (?tgt k) = Some (File (snd k))" .
    qed
    from c g show "(\<forall>p. fs' p = fs p \<or> (fs p = None \<and> fs' p = Some Dir)
             \<or> (p = ?tgt k \<and> fs p \<noteq> Some Dir \<and> fs' p = Some (File (snd k))))
        \<and> (r = None \<longrightarrow>
            (\<forall>q \<in> ?dirs k. fs' q = Some Dir) \<and> fs' (?tgt k) = Some (File (snd k)))"
      by (rule conjI)
  qed
  from m have run: "run_all (map ?act test_data_fixtures) fs = (None, fs')"
    by (simp add: main_generate_test_data_table)
  note g = run_all_good [where act = ?act and tgt = ?tgt and dat = snd and dirs = ?dirs,
      OF W distinct_test_data_targets run]
  have "\<forall>k \<in> set test_data_fixtures. ?act k fs' = (None, fs')"
  proof
    fix k assume k: "k \<in> set test_data_fixtures"
    with g have gk: "(\<forall>q \<in> ?dirs k. fs' q = Some Dir) \<and> fs' (?tgt k) = Some (File (snd k))"
      by blast
    from test_data_targets_nonempty k have "?tgt k \<noteq> []" by blast
    from write_binary_again [OF gk this] show "?act k fs' = (None, fs')" .
  qed
  from run_all_fixpoint [where act = ?act and tbl = test_data_fixtures and fs = fs', OF this]
  show ?thesis
    by (simp add: main_generate_test_data_table)
qed

lemma primitive_rerun:
  assumes m: "main_generate_primitive_test_binaries cwd fs = (None, fs')"
  shows "main_generate_primitive_test_binaries cwd fs' = (None, fs')"
proof -
  let ?act = "\<lambda>k. write_packed cwd (fst k) (snd k)"
  let ?tgt = "\<lambda>k. join (output_dir cwd) (fst k)"
  let ?dirs = "\<lambda>k::string \<times> byte list.
      {take j (output_dir cwd) |j. 0 < j \<and> j \<le> length (output_dir cwd)}"
  have W: "\<forall>k \<in> set primitive_fixtures. \<forall>fs r fs'. ?act k fs = (r, fs') \<longrightarrow>
        (\<forall>p. fs' p = fs p \<or> (fs p = None \<and> fs' p = Some Dir)
             \<or> (p = ?tgt k \<and> fs p \<noteq> Some Dir \<and> fs' p = Some (File (snd k))))
        \<and> (r = None \<longrightarrow> (\<forall>q \<in> ?dirs k. fs' q = Some Dir) \<and> fs' (?tgt k) = Some (File (snd k)))"
  proof (intro ballI allI impI)
    fix k fs r fs'
    assume a: "write_packed cwd (fst k) (snd k) fs = (r, fs')"
    have c: "\<forall>p. fs' p = fs p \<or> (fs p = None \<and> fs' p = Some Dir)
             \<or> (p = ?tgt k \<and> fs p \<noteq> Some Dir \<and> fs' p = Some (File (snd k)))"
      using write_packed_changes [OF a] by blast
    have g: "r = None \<longrightarrow>
        (\<forall>q \<in> ?dirs k. fs' q = Some Dir) \<and> fs' (?tgt k) = Some (File (snd k))"
    proof
      assume r: "r = None"
      from write_packed_good [OF a [unfolded r]]
      show "(\<forall>q \<in> ?dirs k. fs' q = Some Dir) \<and> fs' (?tgt k) = Some (File (snd k))" .
    qed
    from c g show "(\<forall>p. fs' p = fs p \<or> (fs p = None \<and> fs' p = Some Dir)
             \<or> (p = ?tgt k \<and> fs p \<noteq> Some Dir \<and> fs' p = Some (File (snd k))))
        \<and> (r = None \<longrightarrow>
            (\<forall>q \<in> ?dirs k. fs' q = Some Dir) \<and> fs' (?tgt k) = Some (File (snd k)))"
      by (rule conjI)
  qed
  from m have run: "run_all (map ?act primitive_fixtures) fs = (None, fs')"
    by (simp add: main_generate_primitive_test_binaries_table)
  note g = run_all_good [where act = ?act and tgt = ?tgt and dat = snd and dirs = ?dirs,
      OF W distinct_primitive_targets run]
  have "\<forall>k \<in> set primitive_fixtures. ?act k fs' = (None, fs')"
  proof
    fix k assume k: "k \<in> set primitive_fixtures"
    with g have gk: "(\<forall>q \<in> ?dirs k. fs' q = Some Dir) \<and> fs' (?tgt k) = Some (File (snd k))"
      by blast
    from primitive_targets_parent k have t: "?tgt k \<noteq> []"
      and q: "parent (?tgt k) = output_dir cwd" by blast+
    from write_packed_again [OF gk t q] show "?act k fs' = (None, fs')" .
  qed
  from run_all_fixpoint [where act = ?act and tbl = primitive_fixtures and fs = fs', OF this]
  show ?thesis
    by (simp add: main_generate_primitive_test_binaries_table)
qed

subsection \<open>What the generators store\<close>

lemma quiet_nan_narrowed: "pack ''<f'' [PFloat 0x7FF8000000000000] = Inr [0, 0, 0xC0, 0x7F]"
  by code_simp

lemma read_file_File: "fs p = Some (File d) \<Longrightarrow> read_file fs p = Some d"
  by (simp add: read_file_def)

lemma write_binary_stores:
  "write_binary sd n d fs = (None, fs') \<Longrightarrow> read_file fs' (join (BINARY_DIR sd) n) = Some d"
  using write_binary_changes [of sd n d fs None fs'] by (simp add: read_file_File)

lemma generator_stores:
  "with_data (Inr d) (write_binary sd n) fs = (None, fs') \<Longrightarrow>
   read_file fs' (join (BINARY_DIR sd) n) = Some d"
  by (simp add: with_data_Inr write_binary_stores)

lemma write_binary_primitives_stores:
  assumes w: "write_binary_primitives cwd n vs fs = (None, fs')"
  shows "\<exists>d. pack_all_primitives vs = Inr d \<and> read_file fs' (join (output_dir cwd) n) = Some d"
proof (cases "pack_all_primitives vs")
  case (Inl e)
  with w show ?thesis by (simp add: write_binary_primitives_def with_data_def)
next
  case (Inr d)
  with w have "write_packed cwd n d fs = (None, fs')"
    by (simp add: write_binary_primitives_def with_data_def)
  from write_packed_changes [OF this] Inr show ?thesis by (simp add: read_file_File)
qed

lemma main_test_data_stores:
  assumes m: "main_generate_test_data sd fs = (None, fs')" and k: "k \<in> set test_data_fixtures"
  shows "read_file fs' (join (BINARY_DIR sd) (fst k)) = Some (snd k)"
  using test_data_table_run [OF m [unfolded main_generate_test_data_table]] k
  by (simp add: read_file_File)

lemma main_primitive_stores:
  assumes m: "main_generate_primitive_test_binaries cwd fs = (None, fs')"
    and k: "k \<in> set primitive_fixtures"
  shows "read_file fs' (join (output_dir cwd) (fst k)) = Some (snd k)"
  using primitive_table_run [OF m [unfolded main_generate_primitive_test_binaries_table]] k
  by (simp add: read_file_File)

lemma primitive_calls_packed:
  "map (\<lambda>c. map_sum id (Pair (fst c)) (pack_all_primitives (snd c))) primitive_calls
     = map Inr primitive_fixtures"
  by (simp add: primitive_calls_def primitive_fixtures_def all_zeros_bytes all_max_bytes
        all_min_signed_bytes common_values_bytes u32_0x12345678_bytes u64_bigint_bytes
        float_values_bytes)

lemma primitive_call_packed:
  assumes c: "(n, vs) \<in> set primitive_calls"
  shows "\<exists>d. pack_all_primitives vs = Inr d \<and> (n, d) \<in> set primitive_fixtures"
proof -
  from c obtain i where i: "i < length primitive_calls" and ci: "primitive_calls ! i = (n, vs)"
    by (auto simp: in_set_conv_nth)
  from primitive_calls_packed have l: "length primitive_calls = length primitive_fixtures"
    by (rule map_eq_imp_length_eq)
  from primitive_calls_packed i l
  have "map_sum id (Pair (fst (primitive_calls ! i))) (pack_all_primitives (snd (primitive_calls ! i)))
          = Inr (primitive_fixtures ! i)"
    by (metis (no_types, lifting) length_map nth_map)
  with ci have e: "map_sum id (Pair n) (pack_all_primitives vs) = Inr (primitive_fixtures ! i)"
    by simp
  then obtain d where d: "pack_all_primitives vs = Inr d" and f: "primitive_fixtures ! i = (n, d)"
    by (cases "pack_all_primitives vs") auto
  from i l have "primitive_fixtures ! i \<in> set primitive_fixtures" by simp
  with d f show ?thesis by auto
qed

lemma main_primitive_call_stores:
  assumes m: "main_generate_primitive_test_binaries cwd fs = (None, fs')"
    and c: "(n, vs) \<in> set primitive_calls"
  shows "\<exists>d. pack_all_primitives vs = Inr d \<and> read_file fs' (join (output_dir cwd) n) = Some d"
proof -
  from primitive_call_packed [OF c] obtain d where d: "pack_all_primitives vs = Inr d"
    and k: "(n, d) \<in> set primitive_fixtures" by blast
  from main_primitive_stores [OF m k] d show ?thesis by simp
qed

lemma int_codes:
  "i < 8 \<Longrightarrow>
   [Fmt_B, Fmt_H, Fmt_I, Fmt_Q, Fmt_b, Fmt_h, Fmt_i, Fmt_q, Fmt_f, Fmt_d] ! i \<noteq> Fmt_f \<and>
   [Fmt_B, Fmt_H, Fmt_I, Fmt_Q, Fmt_b, Fmt_h, Fmt_i, Fmt_q, Fmt_f, Fmt_d] ! i \<noteq> Fmt_d"
proof -
  assume "i < 8"
  then have "i = 0 \<or> i = 1 \<or> i = 2 \<or> i = 3 \<or> i = 4 \<or> i = 5 \<or> i = 6 \<or> i = 7" by arith
  then show ?thesis by (elim disjE) simp_all
qed

lemma all_primitives_int_field:
  assumes p: "pack_all_primitives vs = Inr d" and i: "i < 8" and v: "vs ! i = PInt v"
  shows "le_value (slice
            (sum_list (map code_size (take i
               [Fmt_B, Fmt_H, Fmt_I, Fmt_Q, Fmt_b, Fmt_h, Fmt_i, Fmt_q, Fmt_f, Fmt_d])))
            (code_size ([Fmt_B, Fmt_H, Fmt_I, Fmt_Q, Fmt_b, Fmt_h, Fmt_i, Fmt_q, Fmt_f, Fmt_d] ! i))
            d)
         = v mod 2 ^ (8 * code_size
              ([Fmt_B, Fmt_H, Fmt_I, Fmt_Q, Fmt_b, Fmt_h, Fmt_i, Fmt_q, Fmt_f, Fmt_d] ! i))"
proof -
  let ?cs = "[Fmt_B, Fmt_H, Fmt_I, Fmt_Q, Fmt_b, Fmt_h, Fmt_i, Fmt_q, Fmt_f, Fmt_d]"
  from p have p': "pack (CHR ''<'' # ''BHIQbhiqfd'') vs = Inr d"
    by (simp add: pack_all_primitives_def all_primitives_format_def)
  from pack_little [OF p' parse_all_primitives] i
  have "pack1 (?cs ! i) (vs ! i) =
        Inr (slice (sum_list (map code_size (take i ?cs))) (code_size (?cs ! i)) d)"
    by simp
  then have "pack1 (?cs ! i) (PInt v) =
        Inr (slice (sum_list (map code_size (take i ?cs))) (code_size (?cs ! i)) d)"
    by (simp only: v)
  from pack1_int_le_value [OF this] int_codes [OF i] show ?thesis by blast
qed

lemma generate_arrays_simple_writes:
  "generate_arrays_simple sd = write_binary sd ''arrays/simple.bin'' [1, 2, 3, 4, 10, 0, 20, 0, 30, 0, 100, 0, 0, 0, 200, 0, 0, 0,
          255, 255, 255, 255, 0, 0, 0, 0, 1, 0, 0, 0, 156, 255, 255, 255, 100, 0, 0, 0]"
  by (simp add: generate_arrays_simple_def generate_arrays_simple_bytes with_data_Inr)

lemma generate_arrays_simple_stores:
  "generate_arrays_simple sd fs = (None, fs') \<Longrightarrow>
   read_file fs' (join (BINARY_DIR sd) ''arrays/simple.bin'') = Some [1, 2, 3, 4, 10, 0, 20, 0, 30, 0, 100, 0, 0, 0, 200, 0, 0, 0,
          255, 255, 255, 255, 0, 0, 0, 0, 1, 0, 0, 0, 156, 255, 255, 255, 100, 0, 0, 0]"
  by (simp add: generate_arrays_simple_writes write_binary_stores)

lemma main_stores_arrays_simple:
  "main_generate_test_data sd fs = (None, fs') \<Longrightarrow>
   read_file fs' (join (BINARY_DIR sd) ''arrays/simple.bin'') = Some [1, 2, 3, 4, 10, 0, 20, 0, 30, 0, 100, 0, 0, 0, 200, 0, 0, 0,
          255, 255, 255, 255, 0, 0, 0, 0, 1, 0, 0, 0, 156, 255, 255, 255, 100, 0, 0, 0]"
  using main_test_data_stores [of sd fs fs' "(''arrays/simple.bin'', [1, 2, 3, 4, 10, 0, 20, 0, 30, 0, 100, 0, 0, 0, 200, 0, 0, 0,
          255, 255, 255, 255, 0, 0, 0, 0, 1, 0, 0, 0, 156, 255, 255, 255, 100, 0, 0, 0])"]
  by (simp add: test_data_fixtures_def)

lemma generate_arrays_simple_completes:
  "fst (generate_arrays_simple [''s''] Map.empty) = None"
  by (simp add: generate_arrays_simple_def generate_arrays_simple_bytes with_data_Inr fs_eval)

lemma generate_arrays_zeros_writes:
  "generate_arrays_zeros sd = write_binary sd ''arrays/all_zeros.bin'' (replicate 38 0)"
  by (simp add: generate_arrays_zeros_def generate_arrays_zeros_bytes with_data_Inr)

lemma generate_arrays_zeros_stores:
  "generate_arrays_zeros sd fs = (None, fs') \<Longrightarrow>
   read_file fs' (join (BINARY_DIR sd) ''arrays/all_zeros.bin'') = Some (replicate 38 0)"
  by (simp add: generate_arrays_zeros_writes write_binary_stores)

lemma main_stores_arrays_zeros:
  "main_generate_test_data sd fs = (None, fs') \<Longrightarrow>
   read_file fs' (join (BINARY_DIR sd) ''arrays/all_zeros.bin'') = Some (replicate 38 0)"
  using main_test_data_stores [of sd fs fs' "(''arrays/all_zeros.bin'', (replicate 38 0))"]
  by (simp add: test_data_fixtures_def)

lemma generate_arrays_zeros_completes:
  "fst (generate_arrays_zeros [''s''] Map.empty) = None"
  by (simp add: generate_arrays_zeros_def generate_arrays_zeros_bytes with_data_Inr fs_eval)

lemma generate_structs_simple_writes:
  "generate_structs_simple sd = write_binary sd ''structs/simple.bin'' [0x39, 0x30, 0, 0, 0, 0, 0, 0, 0x42, 0x0F, 0x27]"
  by (simp add: generate_structs_simple_def generate_structs_simple_bytes with_data_Inr)

lemma generate_structs_simple_stores:
  "generate_structs_simple sd fs = (None, fs') \<Longrightarrow>
   read_file fs' (join (BINARY_DIR sd) ''structs/simple.bin'') = Some [0x39, 0x30, 0, 0, 0, 0, 0, 0, 0x42, 0x0F, 0x27]"
  by (simp add: generate_structs_simple_writes write_binary_stores)

lemma main_stores_structs_simple:
  "main_generate_test_data sd fs = (None, fs') \<Longrightarrow>
   read_file fs' (join (BINARY_DIR sd) ''structs/simple.bin'') = Some [0x39, 0x30, 0, 0, 0, 0, 0, 0, 0x42, 0x0F, 0x27]"
  using main_test_data_stores [of sd fs fs' "(''structs/simple.bin'', [0x39, 0x30, 0, 0, 0, 0, 0, 0, 0x42, 0x0F, 0x27])"]
  by (simp add: test_data_fixtures_def)

lemma generate_structs_simple_completes:
  "fst (generate_structs_simple [''s''] Map.empty) = None"
  by (simp add: generate_structs_simple_def generate_structs_simple_bytes with_data_Inr fs_eval)

lemma generate_structs_rectangle_writes:
  "generate_structs_rectangle sd = write_binary sd ''structs/rectangle.bin'' [10, 0, 0, 0, 20, 0, 0, 0, 100, 0, 0, 0, 80, 0, 0, 0, 0, 0, 0xFF, 0]"
  by (simp add: generate_structs_rectangle_def generate_structs_rectangle_bytes with_data_Inr)

lemma generate_structs_rectangle_stores:
  "generate_structs_rectangle sd fs = (None, fs') \<Longrightarrow>
   read_file fs' (join (BINARY_DIR sd) ''structs/rectangle.bin'') = Some [10, 0, 0, 0, 20, 0, 0, 0, 100, 0, 0, 0, 80, 0, 0, 0, 0, 0, 0xFF, 0]"
  by (simp add: generate_structs_rectangle_writes write_binary_stores)

lemma main_stores_structs_rectangle:
  "main_generate_test_data sd fs = (None, fs') \<Longrightarrow>
   read_file fs' (join (BINARY_DIR sd) ''structs/rectangle.bin'') = Some [10, 0, 0, 0, 20, 0, 0, 0, 100, 0, 0, 0, 80, 0, 0, 0, 0, 0, 0xFF, 0]"
  using main_test_data_stores [of sd fs fs' "(''structs/rectangle.bin'', [10, 0, 0, 0, 20, 0, 0, 0, 100, 0, 0, 0, 80, 0, 0, 0, 0, 0, 0xFF, 0])"]
  by (simp add: test_data_fixtures_def)

lemma generate_structs_rectangle_completes:
  "fst (generate_structs_rectangle [''s''] Map.empty) = None"
  by (simp add: generate_structs_rectangle_def generate_structs_rectangle_bytes with_data_Inr fs_eval)

lemma generate_enums_none_writes:
  "generate_enums_none sd = write_binary sd ''enums/none.bin'' [0x00]"
  by (simp add: generate_enums_none_def generate_enums_none_bytes with_data_Inr)

lemma generate_enums_none_stores:
  "generate_enums_none sd fs = (None, fs') \<Longrightarrow>
   read_file fs' (join (BINARY_DIR sd) ''enums/none.bin'') = Some [0x00]"
  by (simp add: generate_enums_none_writes write_binary_stores)

lemma main_stores_enums_none:
  "main_generate_test_data sd fs = (None, fs') \<Longrightarrow>
   read_file fs' (join (BINARY_DIR sd) ''enums/none.bin'') = Some [0x00]"
  using main_test_data_stores [of sd fs fs' "(''enums/none.bin'', [0x00])"]
  by (simp add: test_data_fixtures_def)

lemma generate_enums_none_completes:
  "fst (generate_enums_none [''s''] Map.empty) = None"
  by (simp add: generate_enums_none_def generate_enums_none_bytes with_data_Inr fs_eval)

lemma generate_enums_value_writes:
  "generate_enums_value sd = write_binary sd ''enums/value.bin'' [0x01, 0x2A, 0x00, 0x00, 0x00]"
  by (simp add: generate_enums_value_def generate_enums_value_bytes with_data_Inr)

lemma generate_enums_value_stores:
  "generate_enums_value sd fs = (None, fs') \<Longrightarrow>
   read_file fs' (join (BINARY_DIR sd) ''enums/value.bin'') = Some [0x01, 0x2A, 0x00, 0x00, 0x00]"
  by (simp add: generate_enums_value_writes write_binary_stores)

lemma main_stores_enums_value:
  "main_generate_test_data sd fs = (None, fs') \<Longrightarrow>
   read_file fs' (join (BINARY_DIR sd) ''enums/value.bin'') = Some [0x01, 0x2A, 0x00, 0x00, 0x00]"
  using main_test_data_stores [of sd fs fs' "(''enums/value.bin'', [0x01, 0x2A, 0x00, 0x00, 0x00])"]
  by (simp add: test_data_fixtures_def)

lemma generate_enums_value_completes:
  "fst (generate_enums_value [''s''] Map.empty) = None"
  by (simp add: generate_enums_value_def generate_enums_value_bytes with_data_Inr fs_eval)

lemma generate_enums_pair_writes:
  "generate_enums_pair sd = write_binary sd ''enums/pair.bin'' [0x02, 0x64, 0x00, 0xC8, 0x00]"
  by (simp add: generate_enums_pair_def generate_enums_pair_bytes with_data_Inr)

lemma generate_enums_pair_stores:
  "generate_enums_pair sd fs = (None, fs') \<Longrightarrow>
   read_file fs' (join (BINARY_DIR sd) ''enums/pair.bin'') = Some [0x02, 0x64, 0x00, 0xC8, 0x00]"
  by (simp add: generate_enums_pair_writes write_binary_stores)

lemma main_stores_enums_pair:
  "main_generate_test_data sd fs = (None, fs') \<Longrightarrow>
   read_file fs' (join (BINARY_DIR sd) ''enums/pair.bin'') = Some [0x02, 0x64, 0x00, 0xC8, 0x00]"
  using main_test_data_stores [of sd fs fs' "(''enums/pair.bin'', [0x02, 0x64, 0x00, 0xC8, 0x00])"]
  by (simp add: test_data_fixtures_def)

lemma generate_enums_pair_completes:
  "fst (generate_enums_pair [''s''] Map.empty) = None"
  by (simp add: generate_enums_pair_def generate_enums_pair_bytes with_data_Inr fs_eval)

lemma generate_unions_int_writes:
  "generate_unions_int sd = write_binary sd ''unions/int_value.bin'' [0xD6, 0xFF, 0xFF, 0xFF]"
  by (simp add: generate_unions_int_def generate_unions_int_bytes with_data_Inr)

lemma generate_unions_int_stores:
  "generate_unions_int sd fs = (None, fs') \<Longrightarrow>
   read_file fs' (join (BINARY_DIR sd) ''unions/int_value.bin'') = Some [0xD6, 0xFF, 0xFF, 0xFF]"
  by (simp add: generate_unions_int_writes write_binary_stores)

lemma main_stores_unions_int:
  "main_generate_test_data sd fs = (None, fs') \<Longrightarrow>
   read_file fs' (join (BINARY_DIR sd) ''unions/int_value.bin'') = Some [0xD6, 0xFF, 0xFF, 0xFF]"
  using main_test_data_stores [of sd fs fs' "(''unions/int_value.bin'', [0xD6, 0xFF, 0xFF, 0xFF])"]
  by (simp add: test_data_fixtures_def)

lemma generate_unions_int_completes:
  "fst (generate_unions_int [''s''] Map.empty) = None"
  by (simp add: generate_unions_int_def generate_unions_int_bytes with_data_Inr fs_eval)

lemma generate_unions_float_writes:
  "generate_unions_float sd = write_binary sd ''unions/float_value.bin'' [0xD0, 0x0F, 0x49, 0x40]"
  by (simp add: generate_unions_float_def generate_unions_float_bytes with_data_Inr)

lemma generate_unions_float_stores:
  "generate_unions_float sd fs = (None, fs') \<Longrightarrow>
   read_file fs' (join (BINARY_DIR sd) ''unions/float_value.bin'') = Some [0xD0, 0x0F, 0x49, 0x40]"
  by (simp add: generate_unions_float_writes write_binary_stores)

lemma main_stores_unions_float:
  "main_generate_test_data sd fs = (None, fs') \<Longrightarrow>
   read_file fs' (join (BINARY_DIR sd) ''unions/float_value.bin'') = Some [0xD0, 0x0F, 0x49, 0x40]"
  using main_test_data_stores [of sd fs fs' "(''unions/float_value.bin'', [0xD0, 0x0F, 0x49, 0x40])"]
  by (simp add: test_data_fixtures_def)

lemma generate_unions_float_completes:
  "fst (generate_unions_float [''s''] Map.empty) = None"
  by (simp add: generate_unions_float_def generate_unions_float_bytes with_data_Inr fs_eval)

lemma generate_unions_bytes_writes:
  "generate_unions_bytes sd = write_binary sd ''unions/bytes.bin'' [0xDE, 0xAD, 0xBE, 0xEF]"
  by (simp add: generate_unions_bytes_def generate_unions_bytes_bytes with_data_Inr)

lemma generate_unions_bytes_stores:
  "generate_unions_bytes sd fs = (None, fs') \<Longrightarrow>
   read_file fs' (join (BINARY_DIR sd) ''unions/bytes.bin'') = Some [0xDE, 0xAD, 0xBE, 0xEF]"
  by (simp add: generate_unions_bytes_writes write_binary_stores)

lemma main_stores_unions_bytes:
  "main_generate_test_data sd fs = (None, fs') \<Longrightarrow>
   read_file fs' (join (BINARY_DIR sd) ''unions/bytes.bin'') = Some [0xDE, 0xAD, 0xBE, 0xEF]"
  using main_test_data_stores [of sd fs fs' "(''unions/bytes.bin'', [0xDE, 0xAD, 0xBE, 0xEF])"]
  by (simp add: test_data_fixtures_def)

lemma generate_unions_bytes_completes:
  "fst (generate_unions_bytes [''s''] Map.empty) = None"
  by (simp add: generate_unions_bytes_def generate_unions_bytes_bytes with_data_Inr fs_eval)

lemma main_test_data_completes:
  "main_generate_test_data [''s''] Map.empty =
     (None, snd (main_generate_test_data [''s''] Map.empty))"
  using test_data_run_completes by (simp add: prod_eq_iff)

lemma main_primitive_completes:
  "main_generate_primitive_test_binaries [''w''] Map.empty =
     (None, snd (main_generate_primitive_test_binaries [''w''] Map.empty))"
  using primitive_run_completes by (simp add: prod_eq_iff)

section \<open>The fixtures: enums, unions, byte order, structs and arrays\<close>

text \<open>
  The statements of this section are about the files: \<open>fs'\<close> is the file system a
  generator leaves when it has run from \<open>fs\<close> without an error, and \<open>read_file fs'\<close> at the
  path of a fixture is what the file holds then. Each is instantiated below at a run from
  the empty file system, which completes.
\<close>

lemma struct_simple_slices:
  "(\<lambda>d. (length d, slice 0 8 d, slice 8 1 d, slice 9 2 d))
      [0x39, 0x30, 0, 0, 0, 0, 0, 0, 0x42, 0x0F, 0x27 :: byte]
   = (11, le_bytes 8 12345, le_bytes 1 0x42, le_bytes 2 9999)"
proof -
  have f0: "le_bytes 8 12345 = [0x39, 0x30, 0, 0, 0, 0, 0, 0]" by code_simp
  have f1: "le_bytes 1 0x42 = [0x42]" by code_simp
  have f2: "le_bytes 2 9999 = [0x0F, 0x27]" by code_simp
  show ?thesis unfolding f0 f1 f2 by (simp add: slice_def)
qed

lemma struct_rectangle_slices:
  "(\<lambda>d. (length d, slice 0 4 d, slice 4 4 d, slice 8 4 d, slice 12 4 d, slice 16 4 d))
      [10, 0, 0, 0, 20, 0, 0, 0, 100, 0, 0, 0, 80, 0, 0, 0, 0, 0, 0xFF, 0 :: byte]
   = (20, le_bytes 4 10, le_bytes 4 20, le_bytes 4 100, le_bytes 4 80, le_bytes 4 0xFF0000)"
proof -
  have k0: "le_bytes 4 10 = [10, 0, 0, 0]" by code_simp
  have k1: "le_bytes 4 20 = [20, 0, 0, 0]" by code_simp
  have k2: "le_bytes 4 100 = [100, 0, 0, 0]" by code_simp
  have k3: "le_bytes 4 80 = [80, 0, 0, 0]" by code_simp
  have k4: "le_bytes 4 0xFF0000 = [0, 0, 0xFF, 0]" by code_simp
  show ?thesis unfolding k0 k1 k2 k3 k4 by (simp add: slice_def)
qed

lemma write_common_values_completes:
  "fst (write_binary_primitives [''w''] ''common_values.bin'' common_values Map.empty) = None"
  by (simp add: write_binary_primitives_def common_values_bytes with_data_Inr fs_eval)

lemma write_u32_completes:
  "fst (write_binary_primitives [''w''] ''u32_0x12345678.bin'' u32_0x12345678_values Map.empty)
     = None"
  by (simp add: write_binary_primitives_def u32_0x12345678_bytes with_data_Inr fs_eval)

text \<open>
  Claim C1: the three enum fixtures are a one-byte tag followed by the little-endian
  payload of the variant: \<^verbatim>\<open>enums/none.bin\<close> is \<open>[0x00]\<close>, \<^verbatim>\<open>enums/value.bin\<close> is the tag 1
  and the u32 42, \<^verbatim>\<open>enums/pair.bin\<close> is the tag 2 and the u16s 100 and 200. These byte
  strings are what the generators hand to \<^verbatim>\<open>write_binary\<close>, and what the three files
  hold after a generator, or \<^verbatim>\<open>main\<close>, has run without an error.
\<close>

theorem enum_fixtures:
  "generate_enums_none_data = Inr [0x00]
   \<and> generate_enums_value_data = Inr [0x01, 0x2A, 0x00, 0x00, 0x00]
   \<and> generate_enums_pair_data = Inr [0x02, 0x64, 0x00, 0xC8, 0x00]
   \<and> generate_enums_value_data = Inr (1 # le_bytes 4 42)
   \<and> generate_enums_pair_data = Inr (2 # le_bytes 2 100 @ le_bytes 2 200)
   \<and> generate_enums_none sd = write_binary sd ''enums/none.bin'' [0x00]
   \<and> generate_enums_value sd = write_binary sd ''enums/value.bin'' [0x01, 0x2A, 0x00, 0x00, 0x00]
   \<and> generate_enums_pair sd = write_binary sd ''enums/pair.bin'' [0x02, 0x64, 0x00, 0xC8, 0x00]
   \<and> (generate_enums_none sd fs = (None, fs') \<longrightarrow>
        read_file fs' (join (BINARY_DIR sd) ''enums/none.bin'') = Some [0x00])
   \<and> (generate_enums_value sd fs = (None, fs') \<longrightarrow>
        read_file fs' (join (BINARY_DIR sd) ''enums/value.bin'') = Some [0x01, 0x2A, 0x00, 0x00, 0x00])
   \<and> (generate_enums_pair sd fs = (None, fs') \<longrightarrow>
        read_file fs' (join (BINARY_DIR sd) ''enums/pair.bin'') = Some [0x02, 0x64, 0x00, 0xC8, 0x00])
   \<and> (main_generate_test_data sd fs = (None, fs') \<longrightarrow>
        read_file fs' (join (BINARY_DIR sd) ''enums/none.bin'') = Some [0x00]
        \<and> read_file fs' (join (BINARY_DIR sd) ''enums/value.bin'') = Some [0x01, 0x2A, 0x00, 0x00, 0x00]
        \<and> read_file fs' (join (BINARY_DIR sd) ''enums/pair.bin'') = Some [0x02, 0x64, 0x00, 0xC8, 0x00])"
proof -
  have a: "le_bytes 4 42 = [0x2A, 0, 0, 0]" by code_simp
  have b: "le_bytes 2 100 @ le_bytes 2 200 = [0x64, 0x00, 0xC8, 0x00]" by code_simp
  have old: "generate_enums_none_data = Inr [0x00]
   \<and> generate_enums_value_data = Inr [0x01, 0x2A, 0x00, 0x00, 0x00]
   \<and> generate_enums_pair_data = Inr [0x02, 0x64, 0x00, 0xC8, 0x00]
   \<and> generate_enums_value_data = Inr (1 # le_bytes 4 42)
   \<and> generate_enums_pair_data = Inr (2 # le_bytes 2 100 @ le_bytes 2 200)
   \<and> generate_enums_none sd = write_binary sd ''enums/none.bin'' [0x00]
   \<and> generate_enums_value sd = write_binary sd ''enums/value.bin'' [0x01, 0x2A, 0x00, 0x00, 0x00]
   \<and> generate_enums_pair sd = write_binary sd ''enums/pair.bin'' [0x02, 0x64, 0x00, 0xC8, 0x00]"
    using a b
    by (simp add: generate_enums_none_bytes generate_enums_value_bytes generate_enums_pair_bytes
          generate_enums_none_writes generate_enums_value_writes generate_enums_pair_writes)
  have s0: "(generate_enums_none sd fs = (None, fs') \<longrightarrow>
        read_file fs' (join (BINARY_DIR sd) ''enums/none.bin'') = Some [0x00])"
    using generate_enums_none_stores by blast
  have s1: "(generate_enums_value sd fs = (None, fs') \<longrightarrow>
        read_file fs' (join (BINARY_DIR sd) ''enums/value.bin'') = Some [0x01, 0x2A, 0x00, 0x00, 0x00])"
    using generate_enums_value_stores by blast
  have s2: "(generate_enums_pair sd fs = (None, fs') \<longrightarrow>
        read_file fs' (join (BINARY_DIR sd) ''enums/pair.bin'') = Some [0x02, 0x64, 0x00, 0xC8, 0x00])"
    using generate_enums_pair_stores by blast
  have sm: "(main_generate_test_data sd fs = (None, fs') \<longrightarrow>
        read_file fs' (join (BINARY_DIR sd) ''enums/none.bin'') = Some [0x00]
        \<and> read_file fs' (join (BINARY_DIR sd) ''enums/value.bin'') = Some [0x01, 0x2A, 0x00, 0x00, 0x00]
        \<and> read_file fs' (join (BINARY_DIR sd) ''enums/pair.bin'') = Some [0x02, 0x64, 0x00, 0xC8, 0x00])"
    using main_stores_enums_none main_stores_enums_value main_stores_enums_pair by blast
  from old s0 s1 s2 sm show ?thesis by (simp only: simp_thms)
qed

theorem enum_fixtures_witness:
  "generate_enums_none [''s''] Map.empty = (None, snd (generate_enums_none [''s''] Map.empty))
   \<and> read_file (snd (generate_enums_none [''s''] Map.empty)) (join (BINARY_DIR [''s'']) ''enums/none.bin'')
       = Some [0x00]
   \<and> generate_enums_value [''s''] Map.empty = (None, snd (generate_enums_value [''s''] Map.empty))
   \<and> read_file (snd (generate_enums_value [''s''] Map.empty)) (join (BINARY_DIR [''s'']) ''enums/value.bin'')
       = Some [0x01, 0x2A, 0x00, 0x00, 0x00]
   \<and> generate_enums_pair [''s''] Map.empty = (None, snd (generate_enums_pair [''s''] Map.empty))
   \<and> read_file (snd (generate_enums_pair [''s''] Map.empty)) (join (BINARY_DIR [''s'']) ''enums/pair.bin'')
       = Some [0x02, 0x64, 0x00, 0xC8, 0x00]
   \<and> main_generate_test_data [''s''] Map.empty = (None, snd (main_generate_test_data [''s''] Map.empty))
   \<and> read_file (snd (main_generate_test_data [''s''] Map.empty)) (join (BINARY_DIR [''s'']) ''enums/none.bin'')
       = Some [0x00]
   \<and> read_file (snd (main_generate_test_data [''s''] Map.empty)) (join (BINARY_DIR [''s'']) ''enums/value.bin'')
       = Some [0x01, 0x2A, 0x00, 0x00, 0x00]
   \<and> read_file (snd (main_generate_test_data [''s''] Map.empty)) (join (BINARY_DIR [''s'']) ''enums/pair.bin'')
       = Some [0x02, 0x64, 0x00, 0xC8, 0x00]"
proof -
  have c0: "generate_enums_none [''s''] Map.empty = (None, snd (generate_enums_none [''s''] Map.empty))"
    using generate_enums_none_completes by (simp add: prod_eq_iff)
  from enum_fixtures [where sd = "[''s'']" and fs = Map.empty and fs' = "snd (generate_enums_none [''s''] Map.empty)"] c0
  have r0: "read_file (snd (generate_enums_none [''s''] Map.empty)) (join (BINARY_DIR [''s'']) ''enums/none.bin'')
       = Some [0x00]"
    by blast
  have c1: "generate_enums_value [''s''] Map.empty = (None, snd (generate_enums_value [''s''] Map.empty))"
    using generate_enums_value_completes by (simp add: prod_eq_iff)
  from enum_fixtures [where sd = "[''s'']" and fs = Map.empty and fs' = "snd (generate_enums_value [''s''] Map.empty)"] c1
  have r1: "read_file (snd (generate_enums_value [''s''] Map.empty)) (join (BINARY_DIR [''s'']) ''enums/value.bin'')
       = Some [0x01, 0x2A, 0x00, 0x00, 0x00]"
    by blast
  have c2: "generate_enums_pair [''s''] Map.empty = (None, snd (generate_enums_pair [''s''] Map.empty))"
    using generate_enums_pair_completes by (simp add: prod_eq_iff)
  from enum_fixtures [where sd = "[''s'']" and fs = Map.empty and fs' = "snd (generate_enums_pair [''s''] Map.empty)"] c2
  have r2: "read_file (snd (generate_enums_pair [''s''] Map.empty)) (join (BINARY_DIR [''s'']) ''enums/pair.bin'')
       = Some [0x02, 0x64, 0x00, 0xC8, 0x00]"
    by blast
  note cm = main_test_data_completes
  from enum_fixtures [where sd = "[''s'']" and fs = Map.empty and fs' = "snd (main_generate_test_data [''s''] Map.empty)"] cm
  have rm: "read_file (snd (main_generate_test_data [''s''] Map.empty)) (join (BINARY_DIR [''s'']) ''enums/none.bin'')
       = Some [0x00]
       \<and> read_file (snd (main_generate_test_data [''s''] Map.empty)) (join (BINARY_DIR [''s'']) ''enums/value.bin'')
       = Some [0x01, 0x2A, 0x00, 0x00, 0x00]
       \<and> read_file (snd (main_generate_test_data [''s''] Map.empty)) (join (BINARY_DIR [''s'']) ''enums/pair.bin'')
       = Some [0x02, 0x64, 0x00, 0xC8, 0x00]"
    by blast
  from c0 r0 c1 r1 c2 r2 cm rm show ?thesis
    by blast
qed

text \<open>
  Claim C2: each union fixture is exactly the encoding of its active variant, with no
  byte before it: \<^verbatim>\<open>unions/int_value.bin\<close> is the four bytes of -42 in two's complement,
  least significant first; \<^verbatim>\<open>unions/float_value.bin\<close> is the binary32 encoding of
  3.14159; \<^verbatim>\<open>unions/bytes.bin\<close> is the four bytes given. The files hold these bytes after
  a generator, or \<^verbatim>\<open>main\<close>, has run without an error.
\<close>

theorem union_fixtures:
  "generate_unions_int_data = Inr [0xD6, 0xFF, 0xFF, 0xFF]
   \<and> generate_unions_int_data = Inr (le_bytes 4 ((- 42) mod 2 ^ 32))
   \<and> generate_unions_int_data = pack1 Fmt_i (PInt (- 42))
   \<and> generate_unions_float_data = Inr [0xD0, 0x0F, 0x49, 0x40]
   \<and> generate_unions_float_data = pack1 Fmt_f (PFloat (float_lit 314159 (- 5)))
   \<and> generate_unions_bytes_data = Inr [0xDE, 0xAD, 0xBE, 0xEF]
   \<and> generate_unions_int sd = write_binary sd ''unions/int_value.bin'' [0xD6, 0xFF, 0xFF, 0xFF]
   \<and> generate_unions_float sd = write_binary sd ''unions/float_value.bin'' [0xD0, 0x0F, 0x49, 0x40]
   \<and> generate_unions_bytes sd = write_binary sd ''unions/bytes.bin'' [0xDE, 0xAD, 0xBE, 0xEF]
   \<and> (generate_unions_int sd fs = (None, fs') \<longrightarrow>
        read_file fs' (join (BINARY_DIR sd) ''unions/int_value.bin'') = Some [0xD6, 0xFF, 0xFF, 0xFF])
   \<and> (generate_unions_float sd fs = (None, fs') \<longrightarrow>
        read_file fs' (join (BINARY_DIR sd) ''unions/float_value.bin'') = Some [0xD0, 0x0F, 0x49, 0x40])
   \<and> (generate_unions_bytes sd fs = (None, fs') \<longrightarrow>
        read_file fs' (join (BINARY_DIR sd) ''unions/bytes.bin'') = Some [0xDE, 0xAD, 0xBE, 0xEF])
   \<and> (main_generate_test_data sd fs = (None, fs') \<longrightarrow>
        read_file fs' (join (BINARY_DIR sd) ''unions/int_value.bin'') = Some [0xD6, 0xFF, 0xFF, 0xFF]
        \<and> read_file fs' (join (BINARY_DIR sd) ''unions/float_value.bin'') = Some [0xD0, 0x0F, 0x49, 0x40]
        \<and> read_file fs' (join (BINARY_DIR sd) ''unions/bytes.bin'') = Some [0xDE, 0xAD, 0xBE, 0xEF])"
proof -
  have a: "le_bytes 4 ((- 42) mod 2 ^ 32) = [0xD6, 0xFF, 0xFF, 0xFF]" by code_simp
  have b: "pack1 Fmt_i (PInt (- 42)) = Inr [0xD6, 0xFF, 0xFF, 0xFF]" by code_simp
  have c: "pack1 Fmt_f (PFloat (float_lit 314159 (- 5))) = Inr [0xD0, 0x0F, 0x49, 0x40]"
    by code_simp
  have old: "generate_unions_int_data = Inr [0xD6, 0xFF, 0xFF, 0xFF]
   \<and> generate_unions_int_data = Inr (le_bytes 4 ((- 42) mod 2 ^ 32))
   \<and> generate_unions_int_data = pack1 Fmt_i (PInt (- 42))
   \<and> generate_unions_float_data = Inr [0xD0, 0x0F, 0x49, 0x40]
   \<and> generate_unions_float_data = pack1 Fmt_f (PFloat (float_lit 314159 (- 5)))
   \<and> generate_unions_bytes_data = Inr [0xDE, 0xAD, 0xBE, 0xEF]
   \<and> generate_unions_int sd = write_binary sd ''unions/int_value.bin'' [0xD6, 0xFF, 0xFF, 0xFF]
   \<and> generate_unions_float sd = write_binary sd ''unions/float_value.bin'' [0xD0, 0x0F, 0x49, 0x40]
   \<and> generate_unions_bytes sd = write_binary sd ''unions/bytes.bin'' [0xDE, 0xAD, 0xBE, 0xEF]"
    unfolding a b c
    by (simp add: generate_unions_int_bytes generate_unions_float_bytes
          generate_unions_bytes_bytes generate_unions_int_writes generate_unions_float_writes
          generate_unions_bytes_writes)
  have s0: "(generate_unions_int sd fs = (None, fs') \<longrightarrow>
        read_file fs' (join (BINARY_DIR sd) ''unions/int_value.bin'') = Some [0xD6, 0xFF, 0xFF, 0xFF])"
    using generate_unions_int_stores by blast
  have s1: "(generate_unions_float sd fs = (None, fs') \<longrightarrow>
        read_file fs' (join (BINARY_DIR sd) ''unions/float_value.bin'') = Some [0xD0, 0x0F, 0x49, 0x40])"
    using generate_unions_float_stores by blast
  have s2: "(generate_unions_bytes sd fs = (None, fs') \<longrightarrow>
        read_file fs' (join (BINARY_DIR sd) ''unions/bytes.bin'') = Some [0xDE, 0xAD, 0xBE, 0xEF])"
    using generate_unions_bytes_stores by blast
  have sm: "(main_generate_test_data sd fs = (None, fs') \<longrightarrow>
        read_file fs' (join (BINARY_DIR sd) ''unions/int_value.bin'') = Some [0xD6, 0xFF, 0xFF, 0xFF]
        \<and> read_file fs' (join (BINARY_DIR sd) ''unions/float_value.bin'') = Some [0xD0, 0x0F, 0x49, 0x40]
        \<and> read_file fs' (join (BINARY_DIR sd) ''unions/bytes.bin'') = Some [0xDE, 0xAD, 0xBE, 0xEF])"
    using main_stores_unions_int main_stores_unions_float main_stores_unions_bytes by blast
  from old s0 s1 s2 sm show ?thesis by (simp only: simp_thms)
qed

theorem union_fixtures_witness:
  "generate_unions_int [''s''] Map.empty = (None, snd (generate_unions_int [''s''] Map.empty))
   \<and> read_file (snd (generate_unions_int [''s''] Map.empty)) (join (BINARY_DIR [''s'']) ''unions/int_value.bin'')
       = Some [0xD6, 0xFF, 0xFF, 0xFF]
   \<and> generate_unions_float [''s''] Map.empty = (None, snd (generate_unions_float [''s''] Map.empty))
   \<and> read_file (snd (generate_unions_float [''s''] Map.empty)) (join (BINARY_DIR [''s'']) ''unions/float_value.bin'')
       = Some [0xD0, 0x0F, 0x49, 0x40]
   \<and> generate_unions_bytes [''s''] Map.empty = (None, snd (generate_unions_bytes [''s''] Map.empty))
   \<and> read_file (snd (generate_unions_bytes [''s''] Map.empty)) (join (BINARY_DIR [''s'']) ''unions/bytes.bin'')
       = Some [0xDE, 0xAD, 0xBE, 0xEF]
   \<and> main_generate_test_data [''s''] Map.empty = (None, snd (main_generate_test_data [''s''] Map.empty))
   \<and> read_file (snd (main_generate_test_data [''s''] Map.empty)) (join (BINARY_DIR [''s'']) ''unions/int_value.bin'')
       = Some [0xD6, 0xFF, 0xFF, 0xFF]
   \<and> read_file (snd (main_generate_test_data [''s''] Map.empty)) (join (BINARY_DIR [''s'']) ''unions/float_value.bin'')
       = Some [0xD0, 0x0F, 0x49, 0x40]
   \<and> read_file (snd (main_generate_test_data [''s''] Map.empty)) (join (BINARY_DIR [''s'']) ''unions/bytes.bin'')
       = Some [0xDE, 0xAD, 0xBE, 0xEF]"
proof -
  have c0: "generate_unions_int [''s''] Map.empty = (None, snd (generate_unions_int [''s''] Map.empty))"
    using generate_unions_int_completes by (simp add: prod_eq_iff)
  from union_fixtures [where sd = "[''s'']" and fs = Map.empty and fs' = "snd (generate_unions_int [''s''] Map.empty)"] c0
  have r0: "read_file (snd (generate_unions_int [''s''] Map.empty)) (join (BINARY_DIR [''s'']) ''unions/int_value.bin'')
       = Some [0xD6, 0xFF, 0xFF, 0xFF]"
    by blast
  have c1: "generate_unions_float [''s''] Map.empty = (None, snd (generate_unions_float [''s''] Map.empty))"
    using generate_unions_float_completes by (simp add: prod_eq_iff)
  from union_fixtures [where sd = "[''s'']" and fs = Map.empty and fs' = "snd (generate_unions_float [''s''] Map.empty)"] c1
  have r1: "read_file (snd (generate_unions_float [''s''] Map.empty)) (join (BINARY_DIR [''s'']) ''unions/float_value.bin'')
       = Some [0xD0, 0x0F, 0x49, 0x40]"
    by blast
  have c2: "generate_unions_bytes [''s''] Map.empty = (None, snd (generate_unions_bytes [''s''] Map.empty))"
    using generate_unions_bytes_completes by (simp add: prod_eq_iff)
  from union_fixtures [where sd = "[''s'']" and fs = Map.empty and fs' = "snd (generate_unions_bytes [''s''] Map.empty)"] c2
  have r2: "read_file (snd (generate_unions_bytes [''s''] Map.empty)) (join (BINARY_DIR [''s'']) ''unions/bytes.bin'')
       = Some [0xDE, 0xAD, 0xBE, 0xEF]"
    by blast
  note cm = main_test_data_completes
  from union_fixtures [where sd = "[''s'']" and fs = Map.empty and fs' = "snd (main_generate_test_data [''s''] Map.empty)"] cm
  have rm: "read_file (snd (main_generate_test_data [''s''] Map.empty)) (join (BINARY_DIR [''s'']) ''unions/int_value.bin'')
       = Some [0xD6, 0xFF, 0xFF, 0xFF]
       \<and> read_file (snd (main_generate_test_data [''s''] Map.empty)) (join (BINARY_DIR [''s'']) ''unions/float_value.bin'')
       = Some [0xD0, 0x0F, 0x49, 0x40]
       \<and> read_file (snd (main_generate_test_data [''s''] Map.empty)) (join (BINARY_DIR [''s'']) ''unions/bytes.bin'')
       = Some [0xDE, 0xAD, 0xBE, 0xEF]"
    by blast
  from c0 r0 c1 r1 c2 r2 cm rm show ?thesis
    by blast
qed

text \<open>
  Claim C3: the u32 0x12345678 is packed as \<open>[0x78, 0x56, 0x34, 0x12]\<close>, and these bytes
  sit at offset 3 of the fixture \<^verbatim>\<open>u32_0x12345678.bin\<close>. Every integer packed with a
  \<^verbatim>\<open><\<close> format is little-endian: read back least significant byte first from its
  offset, it is the value packed (modulo 2 to the width, which is two's complement for
  a negative value). Every multi-byte integer of the fixtures of
  \<^verbatim>\<open>generate_test_data.py\<close>, read back this way, is the value the script wrote.

  The same holds of the files. After \<^verbatim>\<open>write_binary\<close> of the primitives script has
  run without an error, and after \<^verbatim>\<open>main\<close> has for each of its seven calls, each of the
  eight integer fields of the file written, read back least significant byte first from
  its offset, is the value passed. After \<^verbatim>\<open>main\<close> of the primitives script, or the call
  of \<^verbatim>\<open>write_binary\<close> it makes for it, the file \<^verbatim>\<open>u32_0x12345678.bin\<close> of the output
  directory holds \<open>[0x78, 0x56, 0x34, 0x12]\<close> at offset 3. After \<^verbatim>\<open>main\<close> of
  \<^verbatim>\<open>generate_test_data.py\<close>, every multi-byte integer of the files under
  \<^verbatim>\<open>test_cases/binary\<close>, read back this way, is the value the script wrote.
\<close>

theorem little_endian_integers:
  "pack ''<I'' [PInt 0x12345678] = Inr [0x78, 0x56, 0x34, 0x12]
   \<and> map_sum id (slice 3 4) (pack_all_primitives u32_0x12345678_values)
       = Inr [0x78, 0x56, 0x34, 0x12]
   \<and> (pack (CHR ''<'' # fmt) vs = Inr d \<and> parse_codes fmt = Inr cs \<and> i < length cs
        \<and> vs ! i = PInt v \<and> cs ! i \<noteq> Fmt_f \<and> cs ! i \<noteq> Fmt_d
      \<longrightarrow> le_value (slice (sum_list (map code_size (take i cs))) (code_size (cs ! i)) d)
          = v mod 2 ^ (8 * code_size (cs ! i)))
   \<and> map_sum id (\<lambda>d. map le_value [slice 4 2 d, slice 6 2 d, slice 8 2 d, slice 10 4 d,
          slice 14 4 d, slice 18 4 d, slice 22 4 d, slice 26 4 d, slice 30 4 d, slice 34 4 d])
        generate_arrays_simple_data
       = Inr [10, 20, 30, 100, 200, (- 1) mod 2 ^ 32, 0, 1, (- 100) mod 2 ^ 32, 100]
   \<and> map_sum id (\<lambda>d. map le_value [slice 0 8 d, slice 9 2 d]) generate_structs_simple_data
       = Inr [12345, 9999]
   \<and> map_sum id (\<lambda>d. map le_value [slice 0 4 d, slice 4 4 d, slice 8 4 d, slice 12 4 d,
          slice 16 4 d]) generate_structs_rectangle_data
       = Inr [10, 20, 100, 80, 0xFF0000]
   \<and> map_sum id (\<lambda>d. le_value (slice 1 4 d)) generate_enums_value_data = Inr 42
   \<and> map_sum id (\<lambda>d. map le_value [slice 1 2 d, slice 3 2 d]) generate_enums_pair_data
       = Inr [100, 200]
   \<and> map_sum id le_value generate_unions_int_data = Inr ((- 42) mod 2 ^ 32)
   \<and> (write_binary_primitives cwd n ws fs = (None, fs') \<and> j < 8 \<and> ws ! j = PInt w \<longrightarrow>
        map_option
          (\<lambda>d. le_value (slice
             (sum_list (map code_size (take j
                [Fmt_B, Fmt_H, Fmt_I, Fmt_Q, Fmt_b, Fmt_h, Fmt_i, Fmt_q, Fmt_f, Fmt_d])))
             (code_size ([Fmt_B, Fmt_H, Fmt_I, Fmt_Q, Fmt_b, Fmt_h, Fmt_i, Fmt_q, Fmt_f, Fmt_d] ! j))
             d))
          (read_file fs' (join (output_dir cwd) n))
        = Some (w mod 2 ^ (8 * code_size
             ([Fmt_B, Fmt_H, Fmt_I, Fmt_Q, Fmt_b, Fmt_h, Fmt_i, Fmt_q, Fmt_f, Fmt_d] ! j))))
   \<and> (main_generate_primitive_test_binaries cwd fs = (None, fs')
        \<and> (n, ws) \<in> set primitive_calls \<and> j < 8 \<and> ws ! j = PInt w \<longrightarrow>
        map_option
          (\<lambda>d. le_value (slice
             (sum_list (map code_size (take j
                [Fmt_B, Fmt_H, Fmt_I, Fmt_Q, Fmt_b, Fmt_h, Fmt_i, Fmt_q, Fmt_f, Fmt_d])))
             (code_size ([Fmt_B, Fmt_H, Fmt_I, Fmt_Q, Fmt_b, Fmt_h, Fmt_i, Fmt_q, Fmt_f, Fmt_d] ! j))
             d))
          (read_file fs' (join (output_dir cwd) n))
        = Some (w mod 2 ^ (8 * code_size
             ([Fmt_B, Fmt_H, Fmt_I, Fmt_Q, Fmt_b, Fmt_h, Fmt_i, Fmt_q, Fmt_f, Fmt_d] ! j))))
   \<and> (main_generate_primitive_test_binaries cwd fs = (None, fs') \<longrightarrow>
        map_option (slice 3 4) (read_file fs' (join (output_dir cwd) ''u32_0x12345678.bin''))
        = Some [0x78, 0x56, 0x34, 0x12])
   \<and> (write_binary_primitives cwd ''u32_0x12345678.bin'' u32_0x12345678_values fs = (None, fs')
      \<longrightarrow>
        map_option (slice 3 4) (read_file fs' (join (output_dir cwd) ''u32_0x12345678.bin''))
        = Some [0x78, 0x56, 0x34, 0x12])
   \<and> (main_generate_test_data sd fs = (None, fs') \<longrightarrow>
        map_option (\<lambda>d. map le_value [slice 4 2 d, slice 6 2 d, slice 8 2 d, slice 10 4 d,
            slice 14 4 d, slice 18 4 d, slice 22 4 d, slice 26 4 d, slice 30 4 d, slice 34 4 d])
          (read_file fs' (join (BINARY_DIR sd) ''arrays/simple.bin''))
        = Some [10, 20, 30, 100, 200, (- 1) mod 2 ^ 32, 0, 1, (- 100) mod 2 ^ 32, 100]
        \<and> map_option (\<lambda>d. map le_value [slice 0 8 d, slice 9 2 d])
          (read_file fs' (join (BINARY_DIR sd) ''structs/simple.bin''))
        = Some [12345, 9999]
        \<and> map_option (\<lambda>d. map le_value [slice 0 4 d, slice 4 4 d, slice 8 4 d, slice 12 4 d,
            slice 16 4 d])
          (read_file fs' (join (BINARY_DIR sd) ''structs/rectangle.bin''))
        = Some [10, 20, 100, 80, 0xFF0000]
        \<and> map_option (\<lambda>d. le_value (slice 1 4 d))
          (read_file fs' (join (BINARY_DIR sd) ''enums/value.bin''))
        = Some 42
        \<and> map_option (\<lambda>d. map le_value [slice 1 2 d, slice 3 2 d])
          (read_file fs' (join (BINARY_DIR sd) ''enums/pair.bin''))
        = Some [100, 200]
        \<and> map_option le_value
          (read_file fs' (join (BINARY_DIR sd) ''unions/int_value.bin''))
        = Some ((- 42) mod 2 ^ 32))"
proof -
  have a: "pack ''<I'' [PInt 0x12345678] = Inr [0x78, 0x56, 0x34, 0x12]"
    by code_simp
  have b: "map_sum id (slice 3 4) (pack_all_primitives u32_0x12345678_values)
       = Inr [0x78, 0x56, 0x34, 0x12]"
    by (simp add: u32_0x12345678_bytes slice_def)
  have c: "pack (CHR ''<'' # fmt) vs = Inr d \<and> parse_codes fmt = Inr cs \<and> i < length cs
        \<and> vs ! i = PInt v \<and> cs ! i \<noteq> Fmt_f \<and> cs ! i \<noteq> Fmt_d
      \<longrightarrow> le_value (slice (sum_list (map code_size (take i cs))) (code_size (cs ! i)) d)
          = v mod 2 ^ (8 * code_size (cs ! i))"
  proof (intro impI, elim conjE)
    assume p: "pack (CHR ''<'' # fmt) vs = Inr d" and q: "parse_codes fmt = Inr cs"
      and i: "i < length cs" and v: "vs ! i = PInt v"
      and nf: "cs ! i \<noteq> Fmt_f" and nd: "cs ! i \<noteq> Fmt_d"
    from pack_little [OF p q] i
    have "pack1 (cs ! i) (vs ! i) =
        Inr (slice (sum_list (map code_size (take i cs))) (code_size (cs ! i)) d)"
      by blast
    then have "pack1 (cs ! i) (PInt v) =
        Inr (slice (sum_list (map code_size (take i cs))) (code_size (cs ! i)) d)"
      by (simp only: v)
    from pack1_int_le_value [OF this nf nd] show
      "le_value (slice (sum_list (map code_size (take i cs))) (code_size (cs ! i)) d)
          = v mod 2 ^ (8 * code_size (cs ! i))" .
  qed
  have d1: "map_sum id (\<lambda>d. map le_value [slice 4 2 d, slice 6 2 d, slice 8 2 d, slice 10 4 d,
          slice 14 4 d, slice 18 4 d, slice 22 4 d, slice 26 4 d, slice 30 4 d, slice 34 4 d])
        generate_arrays_simple_data
       = Inr [10, 20, 30, 100, 200, (- 1) mod 2 ^ 32, 0, 1, (- 100) mod 2 ^ 32, 100]"
    by (simp add: generate_arrays_simple_bytes slice_def)
  have d2: "map_sum id (\<lambda>d. map le_value [slice 0 8 d, slice 9 2 d]) generate_structs_simple_data
       = Inr [12345, 9999]"
    by (simp add: generate_structs_simple_bytes slice_def)
  have d3: "map_sum id (\<lambda>d. map le_value [slice 0 4 d, slice 4 4 d, slice 8 4 d, slice 12 4 d,
          slice 16 4 d]) generate_structs_rectangle_data
       = Inr [10, 20, 100, 80, 0xFF0000]"
    by (simp add: generate_structs_rectangle_bytes slice_def)
  have d4: "map_sum id (\<lambda>d. le_value (slice 1 4 d)) generate_enums_value_data = Inr 42"
    by (simp add: generate_enums_value_bytes slice_def)
  have d5: "map_sum id (\<lambda>d. map le_value [slice 1 2 d, slice 3 2 d]) generate_enums_pair_data
       = Inr [100, 200]"
    by (simp add: generate_enums_pair_bytes slice_def)
  have d6: "map_sum id le_value generate_unions_int_data = Inr ((- 42) mod 2 ^ 32)"
    by (simp add: generate_unions_int_bytes)
  have fld: "\<And>d. pack_all_primitives ws = Inr d \<Longrightarrow> j < 8 \<Longrightarrow> ws ! j = PInt w \<Longrightarrow>
      read_file fs' (join (output_dir cwd) n) = Some d \<Longrightarrow>
      map_option
          (\<lambda>d. le_value (slice
             (sum_list (map code_size (take j
                [Fmt_B, Fmt_H, Fmt_I, Fmt_Q, Fmt_b, Fmt_h, Fmt_i, Fmt_q, Fmt_f, Fmt_d])))
             (code_size ([Fmt_B, Fmt_H, Fmt_I, Fmt_Q, Fmt_b, Fmt_h, Fmt_i, Fmt_q, Fmt_f, Fmt_d] ! j))
             d))
          (read_file fs' (join (output_dir cwd) n))
        = Some (w mod 2 ^ (8 * code_size
             ([Fmt_B, Fmt_H, Fmt_I, Fmt_Q, Fmt_b, Fmt_h, Fmt_i, Fmt_q, Fmt_f, Fmt_d] ! j)))"
    using all_primitives_int_field [of ws _ j w] by simp
  have na: "write_binary_primitives cwd n ws fs = (None, fs') \<and> j < 8 \<and> ws ! j = PInt w \<longrightarrow>
        map_option
          (\<lambda>d. le_value (slice
             (sum_list (map code_size (take j
                [Fmt_B, Fmt_H, Fmt_I, Fmt_Q, Fmt_b, Fmt_h, Fmt_i, Fmt_q, Fmt_f, Fmt_d])))
             (code_size ([Fmt_B, Fmt_H, Fmt_I, Fmt_Q, Fmt_b, Fmt_h, Fmt_i, Fmt_q, Fmt_f, Fmt_d] ! j))
             d))
          (read_file fs' (join (output_dir cwd) n))
        = Some (w mod 2 ^ (8 * code_size
             ([Fmt_B, Fmt_H, Fmt_I, Fmt_Q, Fmt_b, Fmt_h, Fmt_i, Fmt_q, Fmt_f, Fmt_d] ! j)))"
  proof (intro impI, elim conjE)
    assume m: "write_binary_primitives cwd n ws fs = (None, fs')"
      and j: "j < 8" and w: "ws ! j = PInt w"
    from write_binary_primitives_stores [OF m] obtain d where
      p: "pack_all_primitives ws = Inr d"
      and r: "read_file fs' (join (output_dir cwd) n) = Some d" by blast
    from fld [OF p j w r] show
      "map_option
          (\<lambda>d. le_value (slice
             (sum_list (map code_size (take j
                [Fmt_B, Fmt_H, Fmt_I, Fmt_Q, Fmt_b, Fmt_h, Fmt_i, Fmt_q, Fmt_f, Fmt_d])))
             (code_size ([Fmt_B, Fmt_H, Fmt_I, Fmt_Q, Fmt_b, Fmt_h, Fmt_i, Fmt_q, Fmt_f, Fmt_d] ! j))
             d))
          (read_file fs' (join (output_dir cwd) n))
        = Some (w mod 2 ^ (8 * code_size
             ([Fmt_B, Fmt_H, Fmt_I, Fmt_Q, Fmt_b, Fmt_h, Fmt_i, Fmt_q, Fmt_f, Fmt_d] ! j)))" .
  qed
  have nb: "main_generate_primitive_test_binaries cwd fs = (None, fs')
        \<and> (n, ws) \<in> set primitive_calls \<and> j < 8 \<and> ws ! j = PInt w \<longrightarrow>
        map_option
          (\<lambda>d. le_value (slice
             (sum_list (map code_size (take j
                [Fmt_B, Fmt_H, Fmt_I, Fmt_Q, Fmt_b, Fmt_h, Fmt_i, Fmt_q, Fmt_f, Fmt_d])))
             (code_size ([Fmt_B, Fmt_H, Fmt_I, Fmt_Q, Fmt_b, Fmt_h, Fmt_i, Fmt_q, Fmt_f, Fmt_d] ! j))
             d))
          (read_file fs' (join (output_dir cwd) n))
        = Some (w mod 2 ^ (8 * code_size
             ([Fmt_B, Fmt_H, Fmt_I, Fmt_Q, Fmt_b, Fmt_h, Fmt_i, Fmt_q, Fmt_f, Fmt_d] ! j)))"
  proof (intro impI, elim conjE)
    assume m: "main_generate_primitive_test_binaries cwd fs = (None, fs')"
      and c: "(n, ws) \<in> set primitive_calls"
      and j: "j < 8" and w: "ws ! j = PInt w"
    from main_primitive_call_stores [OF m c] obtain d where
      p: "pack_all_primitives ws = Inr d"
      and r: "read_file fs' (join (output_dir cwd) n) = Some d" by blast
    from fld [OF p j w r] show
      "map_option
          (\<lambda>d. le_value (slice
             (sum_list (map code_size (take j
                [Fmt_B, Fmt_H, Fmt_I, Fmt_Q, Fmt_b, Fmt_h, Fmt_i, Fmt_q, Fmt_f, Fmt_d])))
             (code_size ([Fmt_B, Fmt_H, Fmt_I, Fmt_Q, Fmt_b, Fmt_h, Fmt_i, Fmt_q, Fmt_f, Fmt_d] ! j))
             d))
          (read_file fs' (join (output_dir cwd) n))
        = Some (w mod 2 ^ (8 * code_size
             ([Fmt_B, Fmt_H, Fmt_I, Fmt_Q, Fmt_b, Fmt_h, Fmt_i, Fmt_q, Fmt_f, Fmt_d] ! j)))" .
  qed
  have k: "(''u32_0x12345678.bin'', [0, 0, 0, 0x78, 0x56, 0x34, 0x12] @ replicate 35 0)
             \<in> set primitive_fixtures"
    by (simp add: primitive_fixtures_def)
  have sl: "slice 3 4 ([0, 0, 0, 0x78, 0x56, 0x34, 0x12] @ replicate 35 (0 :: byte))
              = [0x78, 0x56, 0x34, 0x12]"
    by (simp add: slice_def)
  have nc: "main_generate_primitive_test_binaries cwd fs = (None, fs') \<longrightarrow>
        map_option (slice 3 4) (read_file fs' (join (output_dir cwd) ''u32_0x12345678.bin''))
        = Some [0x78, 0x56, 0x34, 0x12]"
  proof
    assume m: "main_generate_primitive_test_binaries cwd fs = (None, fs')"
    from main_primitive_stores [OF m k] sl show
      "map_option (slice 3 4) (read_file fs' (join (output_dir cwd) ''u32_0x12345678.bin''))
        = Some [0x78, 0x56, 0x34, 0x12]" by simp
  qed
  have nd: "write_binary_primitives cwd ''u32_0x12345678.bin'' u32_0x12345678_values fs = (None, fs')
      \<longrightarrow>
        map_option (slice 3 4) (read_file fs' (join (output_dir cwd) ''u32_0x12345678.bin''))
        = Some [0x78, 0x56, 0x34, 0x12]"
  proof
    assume m: "write_binary_primitives cwd ''u32_0x12345678.bin'' u32_0x12345678_values fs
                 = (None, fs')"
    from write_binary_primitives_stores [OF m] u32_0x12345678_bytes sl show
      "map_option (slice 3 4) (read_file fs' (join (output_dir cwd) ''u32_0x12345678.bin''))
        = Some [0x78, 0x56, 0x34, 0x12]" by auto
  qed
  have ne: "main_generate_test_data sd fs = (None, fs') \<longrightarrow>
        map_option (\<lambda>d. map le_value [slice 4 2 d, slice 6 2 d, slice 8 2 d, slice 10 4 d,
            slice 14 4 d, slice 18 4 d, slice 22 4 d, slice 26 4 d, slice 30 4 d, slice 34 4 d])
          (read_file fs' (join (BINARY_DIR sd) ''arrays/simple.bin''))
        = Some [10, 20, 30, 100, 200, (- 1) mod 2 ^ 32, 0, 1, (- 100) mod 2 ^ 32, 100]
        \<and> map_option (\<lambda>d. map le_value [slice 0 8 d, slice 9 2 d])
          (read_file fs' (join (BINARY_DIR sd) ''structs/simple.bin''))
        = Some [12345, 9999]
        \<and> map_option (\<lambda>d. map le_value [slice 0 4 d, slice 4 4 d, slice 8 4 d, slice 12 4 d,
            slice 16 4 d])
          (read_file fs' (join (BINARY_DIR sd) ''structs/rectangle.bin''))
        = Some [10, 20, 100, 80, 0xFF0000]
        \<and> map_option (\<lambda>d. le_value (slice 1 4 d))
          (read_file fs' (join (BINARY_DIR sd) ''enums/value.bin''))
        = Some 42
        \<and> map_option (\<lambda>d. map le_value [slice 1 2 d, slice 3 2 d])
          (read_file fs' (join (BINARY_DIR sd) ''enums/pair.bin''))
        = Some [100, 200]
        \<and> map_option le_value
          (read_file fs' (join (BINARY_DIR sd) ''unions/int_value.bin''))
        = Some ((- 42) mod 2 ^ 32)"
  proof
    assume m: "main_generate_test_data sd fs = (None, fs')"
    have e0: "map_option (\<lambda>d. map le_value [slice 4 2 d, slice 6 2 d, slice 8 2 d, slice 10 4 d,
            slice 14 4 d, slice 18 4 d, slice 22 4 d, slice 26 4 d, slice 30 4 d, slice 34 4 d])
          (read_file fs' (join (BINARY_DIR sd) ''arrays/simple.bin''))
        = Some [10, 20, 30, 100, 200, (- 1) mod 2 ^ 32, 0, 1, (- 100) mod 2 ^ 32, 100]"
      using main_stores_arrays_simple [OF m] by (simp add: slice_def)
    have e1: "map_option (\<lambda>d. map le_value [slice 0 8 d, slice 9 2 d])
          (read_file fs' (join (BINARY_DIR sd) ''structs/simple.bin''))
        = Some [12345, 9999]"
      using main_stores_structs_simple [OF m] by (simp add: slice_def)
    have e2: "map_option (\<lambda>d. map le_value [slice 0 4 d, slice 4 4 d, slice 8 4 d, slice 12 4 d,
            slice 16 4 d])
          (read_file fs' (join (BINARY_DIR sd) ''structs/rectangle.bin''))
        = Some [10, 20, 100, 80, 0xFF0000]"
      using main_stores_structs_rectangle [OF m] by (simp add: slice_def)
    have e3: "map_option (\<lambda>d. le_value (slice 1 4 d))
          (read_file fs' (join (BINARY_DIR sd) ''enums/value.bin''))
        = Some 42"
      using main_stores_enums_value [OF m] by (simp add: slice_def)
    have e4: "map_option (\<lambda>d. map le_value [slice 1 2 d, slice 3 2 d])
          (read_file fs' (join (BINARY_DIR sd) ''enums/pair.bin''))
        = Some [100, 200]"
      using main_stores_enums_pair [OF m] by (simp add: slice_def)
    have e5: "map_option le_value
          (read_file fs' (join (BINARY_DIR sd) ''unions/int_value.bin''))
        = Some ((- 42) mod 2 ^ 32)"
      using main_stores_unions_int [OF m] by (simp add: slice_def)
    from e0 e1 e2 e3 e4 e5 show
      "map_option (\<lambda>d. map le_value [slice 4 2 d, slice 6 2 d, slice 8 2 d, slice 10 4 d,
            slice 14 4 d, slice 18 4 d, slice 22 4 d, slice 26 4 d, slice 30 4 d, slice 34 4 d])
          (read_file fs' (join (BINARY_DIR sd) ''arrays/simple.bin''))
        = Some [10, 20, 30, 100, 200, (- 1) mod 2 ^ 32, 0, 1, (- 100) mod 2 ^ 32, 100]
        \<and> map_option (\<lambda>d. map le_value [slice 0 8 d, slice 9 2 d])
          (read_file fs' (join (BINARY_DIR sd) ''structs/simple.bin''))
        = Some [12345, 9999]
        \<and> map_option (\<lambda>d. map le_value [slice 0 4 d, slice 4 4 d, slice 8 4 d, slice 12 4 d,
            slice 16 4 d])
          (read_file fs' (join (BINARY_DIR sd) ''structs/rectangle.bin''))
        = Some [10, 20, 100, 80, 0xFF0000]
        \<and> map_option (\<lambda>d. le_value (slice 1 4 d))
          (read_file fs' (join (BINARY_DIR sd) ''enums/value.bin''))
        = Some 42
        \<and> map_option (\<lambda>d. map le_value [slice 1 2 d, slice 3 2 d])
          (read_file fs' (join (BINARY_DIR sd) ''enums/pair.bin''))
        = Some [100, 200]
        \<and> map_option le_value
          (read_file fs' (join (BINARY_DIR sd) ''unions/int_value.bin''))
        = Some ((- 42) mod 2 ^ 32)"
      by (intro conjI)
  qed
  from a b c d1 d2 d3 d4 d5 d6 na nb nc nd ne show ?thesis by (intro conjI)
qed

theorem little_endian_integers_witness:
  "pack (CHR ''<'' # ''HI'') [PInt 1000, PInt 0x12345678] = Inr [0xE8, 0x03, 0x78, 0x56, 0x34, 0x12]
   \<and> parse_codes ''HI'' = Inr [Fmt_H, Fmt_I] \<and> (1::nat) < length [Fmt_H, Fmt_I]
   \<and> [PInt 1000, PInt 0x12345678] ! 1 = PInt 0x12345678
   \<and> [Fmt_H, Fmt_I] ! 1 \<noteq> Fmt_f \<and> [Fmt_H, Fmt_I] ! 1 \<noteq> Fmt_d
   \<and> le_value (slice 2 4 [0xE8, 0x03, 0x78, 0x56, 0x34, 0x12]) = 0x12345678
   \<and> write_binary_primitives [''w''] ''u32_0x12345678.bin'' u32_0x12345678_values Map.empty
       = (None, snd (write_binary_primitives [''w''] ''u32_0x12345678.bin'' u32_0x12345678_values Map.empty))
   \<and> (2 :: nat) < 8
   \<and> u32_0x12345678_values ! 2 = PInt 0x12345678
   \<and> map_option (\<lambda>d. le_value (slice 3 4 d)) (read_file (snd (write_binary_primitives [''w''] ''u32_0x12345678.bin'' u32_0x12345678_values Map.empty)) (join (output_dir [''w'']) ''u32_0x12345678.bin'')) = Some 0x12345678
   \<and> main_generate_primitive_test_binaries [''w''] Map.empty
       = (None, snd (main_generate_primitive_test_binaries [''w''] Map.empty))
   \<and> (''u32_0x12345678.bin'', u32_0x12345678_values) \<in> set primitive_calls
   \<and> map_option (\<lambda>d. le_value (slice 3 4 d)) (read_file (snd (main_generate_primitive_test_binaries [''w''] Map.empty)) (join (output_dir [''w'']) ''u32_0x12345678.bin'')) = Some 0x12345678
   \<and> map_option (slice 3 4) (read_file (snd (main_generate_primitive_test_binaries [''w''] Map.empty)) (join (output_dir [''w'']) ''u32_0x12345678.bin'')) = Some [0x78, 0x56, 0x34, 0x12]
   \<and> map_option (slice 3 4) (read_file (snd (write_binary_primitives [''w''] ''u32_0x12345678.bin'' u32_0x12345678_values Map.empty)) (join (output_dir [''w'']) ''u32_0x12345678.bin'')) = Some [0x78, 0x56, 0x34, 0x12]
   \<and> main_generate_test_data [''s''] Map.empty = (None, snd (main_generate_test_data [''s''] Map.empty))
   \<and> map_option (\<lambda>d. map le_value [slice 4 2 d, slice 6 2 d, slice 8 2 d, slice 10 4 d,
            slice 14 4 d, slice 18 4 d, slice 22 4 d, slice 26 4 d, slice 30 4 d, slice 34 4 d])
          (read_file (snd (main_generate_test_data [''s''] Map.empty)) (join (BINARY_DIR [''s'']) ''arrays/simple.bin''))
        = Some [10, 20, 30, 100, 200, (- 1) mod 2 ^ 32, 0, 1, (- 100) mod 2 ^ 32, 100]
   \<and> map_option (\<lambda>d. map le_value [slice 0 8 d, slice 9 2 d])
          (read_file (snd (main_generate_test_data [''s''] Map.empty)) (join (BINARY_DIR [''s'']) ''structs/simple.bin''))
        = Some [12345, 9999]
   \<and> map_option (\<lambda>d. map le_value [slice 0 4 d, slice 4 4 d, slice 8 4 d, slice 12 4 d,
            slice 16 4 d])
          (read_file (snd (main_generate_test_data [''s''] Map.empty)) (join (BINARY_DIR [''s'']) ''structs/rectangle.bin''))
        = Some [10, 20, 100, 80, 0xFF0000]
   \<and> map_option (\<lambda>d. le_value (slice 1 4 d))
          (read_file (snd (main_generate_test_data [''s''] Map.empty)) (join (BINARY_DIR [''s'']) ''enums/value.bin''))
        = Some 42
   \<and> map_option (\<lambda>d. map le_value [slice 1 2 d, slice 3 2 d])
          (read_file (snd (main_generate_test_data [''s''] Map.empty)) (join (BINARY_DIR [''s'']) ''enums/pair.bin''))
        = Some [100, 200]
   \<and> map_option le_value
          (read_file (snd (main_generate_test_data [''s''] Map.empty)) (join (BINARY_DIR [''s'']) ''unions/int_value.bin''))
        = Some ((- 42) mod 2 ^ 32)"
proof -
  have p: "pack (CHR ''<'' # ''HI'') [PInt 1000, PInt 0x12345678]
             = Inr [0xE8, 0x03, 0x78, 0x56, 0x34, 0x12]"
    by code_simp
  have q: "parse_codes ''HI'' = Inr [Fmt_H, Fmt_I]"
    by simp
  note t0 = little_endian_integers [where fmt = "''HI''" and vs = "[PInt 1000, PInt 0x12345678]"
      and d = "[0xE8, 0x03, 0x78, 0x56, 0x34, 0x12]" and cs = "[Fmt_H, Fmt_I]" and i = 1
      and v = "0x12345678", THEN conjunct2, THEN conjunct2, THEN conjunct1]
  have w0: "pack (CHR ''<'' # ''HI'') [PInt 1000, PInt 0x12345678] = Inr [0xE8, 0x03, 0x78, 0x56, 0x34, 0x12]
   \<and> parse_codes ''HI'' = Inr [Fmt_H, Fmt_I] \<and> (1::nat) < length [Fmt_H, Fmt_I]
   \<and> [PInt 1000, PInt 0x12345678] ! 1 = PInt 0x12345678
   \<and> [Fmt_H, Fmt_I] ! 1 \<noteq> Fmt_f \<and> [Fmt_H, Fmt_I] ! 1 \<noteq> Fmt_d
   \<and> le_value (slice 2 4 [0xE8, 0x03, 0x78, 0x56, 0x34, 0x12]) = 0x12345678"
    using t0 p q by simp
  have c1: "write_binary_primitives [''w''] ''u32_0x12345678.bin'' u32_0x12345678_values Map.empty
       = (None, snd (write_binary_primitives [''w''] ''u32_0x12345678.bin'' u32_0x12345678_values Map.empty))"
    using write_u32_completes by (simp add: prod_eq_iff)
  note c2 = main_primitive_completes
  have c3: "(''u32_0x12345678.bin'', u32_0x12345678_values) \<in> set primitive_calls"
    by (simp add: primitive_calls_def)
  have c4: "(2 :: nat) < 8" by simp
  have c5: "u32_0x12345678_values ! 2 = PInt 0x12345678"
    by (simp add: u32_0x12345678_values_def)
  note c6 = main_test_data_completes
  note t1 = little_endian_integers [where cwd = "[''w'']" and n = "''u32_0x12345678.bin''"
      and ws = u32_0x12345678_values and j = 2 and w = "0x12345678" and fs = Map.empty
      and fs' = "snd (write_binary_primitives [''w''] ''u32_0x12345678.bin'' u32_0x12345678_values Map.empty)",
      THEN conjunct2, THEN conjunct2, THEN conjunct2, THEN conjunct2, THEN conjunct2, THEN conjunct2, THEN conjunct2, THEN conjunct2, THEN conjunct2, THEN conjunct1, THEN mp, OF conjI [OF c1 conjI [OF c4 c5]]]
  have r1: "map_option (\<lambda>d. le_value (slice 3 4 d)) (read_file (snd (write_binary_primitives [''w''] ''u32_0x12345678.bin'' u32_0x12345678_values Map.empty)) (join (output_dir [''w'']) ''u32_0x12345678.bin'')) = Some 0x12345678"
    using t1 by (simp add: numeral_3_eq_3)
  note t2 = little_endian_integers [where cwd = "[''w'']" and n = "''u32_0x12345678.bin''"
      and ws = u32_0x12345678_values and j = 2 and w = "0x12345678" and fs = Map.empty
      and fs' = "snd (main_generate_primitive_test_binaries [''w''] Map.empty)",
      THEN conjunct2, THEN conjunct2, THEN conjunct2, THEN conjunct2, THEN conjunct2, THEN conjunct2, THEN conjunct2, THEN conjunct2, THEN conjunct2, THEN conjunct2, THEN conjunct1, THEN mp,
      OF conjI [OF c2 conjI [OF c3 conjI [OF c4 c5]]]]
  have r2: "map_option (\<lambda>d. le_value (slice 3 4 d)) (read_file (snd (main_generate_primitive_test_binaries [''w''] Map.empty)) (join (output_dir [''w'']) ''u32_0x12345678.bin'')) = Some 0x12345678"
    using t2 by (simp add: numeral_3_eq_3)
  note t3 = little_endian_integers [where cwd = "[''w'']" and fs = Map.empty
      and fs' = "snd (main_generate_primitive_test_binaries [''w''] Map.empty)",
      THEN conjunct2, THEN conjunct2, THEN conjunct2, THEN conjunct2, THEN conjunct2, THEN conjunct2, THEN conjunct2, THEN conjunct2, THEN conjunct2, THEN conjunct2, THEN conjunct2, THEN conjunct1, THEN mp, OF c2]
  note t4 = little_endian_integers [where cwd = "[''w'']" and fs = Map.empty
      and fs' = "snd (write_binary_primitives [''w''] ''u32_0x12345678.bin'' u32_0x12345678_values Map.empty)",
      THEN conjunct2, THEN conjunct2, THEN conjunct2, THEN conjunct2, THEN conjunct2, THEN conjunct2, THEN conjunct2, THEN conjunct2, THEN conjunct2, THEN conjunct2, THEN conjunct2, THEN conjunct2, THEN conjunct1, THEN mp, OF c1]
  note t5 = little_endian_integers [where sd = "[''s'']" and fs = Map.empty
      and fs' = "snd (main_generate_test_data [''s''] Map.empty)",
      THEN conjunct2, THEN conjunct2, THEN conjunct2, THEN conjunct2, THEN conjunct2, THEN conjunct2, THEN conjunct2, THEN conjunct2, THEN conjunct2, THEN conjunct2, THEN conjunct2, THEN conjunct2, THEN conjunct2, THEN mp, OF c6]
  note s1 = t5 [THEN conjunct1]
  note s2 = t5 [THEN conjunct2, THEN conjunct1]
  note s3 = t5 [THEN conjunct2, THEN conjunct2, THEN conjunct1]
  note s4 = t5 [THEN conjunct2, THEN conjunct2, THEN conjunct2, THEN conjunct1]
  note s5 = t5 [THEN conjunct2, THEN conjunct2, THEN conjunct2, THEN conjunct2, THEN conjunct1]
  note s6 = t5 [THEN conjunct2, THEN conjunct2, THEN conjunct2, THEN conjunct2, THEN conjunct2]
  note u1 = w0 [THEN conjunct1]
  note u2 = w0 [THEN conjunct2, THEN conjunct1]
  note u3 = w0 [THEN conjunct2, THEN conjunct2, THEN conjunct1]
  note u4 = w0 [THEN conjunct2, THEN conjunct2, THEN conjunct2, THEN conjunct1]
  note u5 = w0 [THEN conjunct2, THEN conjunct2, THEN conjunct2, THEN conjunct2, THEN conjunct1]
  note u6 = w0 [THEN conjunct2, THEN conjunct2, THEN conjunct2, THEN conjunct2, THEN conjunct2,
      THEN conjunct1]
  note u7 = w0 [THEN conjunct2, THEN conjunct2, THEN conjunct2, THEN conjunct2, THEN conjunct2,
      THEN conjunct2]
  from u1 u2 u3 u4 u5 u6 u7 c1 c4 c5 r1 c2 c3 r2 t3 t4 c6 s1 s2 s3 s4 s5 s6
  show ?thesis by (intro conjI)
qed

text \<open>
  Claim C4: struct fixtures are packed with no padding. Whatever values
  \<^verbatim>\<open>write_binary\<close> of the primitives script is given, the AllPrimitives bytes, if
  packing succeeds, are 42 bytes and each field's encoding sits at offsets
  0, 1, 3, 7, 15, 16, 18, 22, 30, 34, each the sum of the sizes of the fields before it;
  the seven fixtures of the script all are 42 bytes. The SimpleStruct fixture is 11 bytes
  with its fields at offsets 0, 8, 9, and the Rectangle fixture is 20 bytes with its
  fields at offsets 0, 4, 8, 12, 16.

  The same holds of the files. The file \<^verbatim>\<open>write_binary\<close> of the primitives script has
  written, and each of the seven files \<^verbatim>\<open>main\<close> has, is 42 bytes with the encoding of
  each field at these offsets; the file \<^verbatim>\<open>structs/simple.bin\<close> that
  \<^verbatim>\<open>generate_structs_simple\<close> or \<^verbatim>\<open>main\<close> has written is 11 bytes, the file
  \<^verbatim>\<open>structs/rectangle.bin\<close> is 20 bytes, each with the encodings of its fields one
  after the other.
\<close>

theorem dense_struct_layout:
  "(pack_all_primitives vs = Inr d \<longrightarrow>
      length d = 42 \<and> length vs = 10 \<and>
      map2 pack1 [Fmt_B, Fmt_H, Fmt_I, Fmt_Q, Fmt_b, Fmt_h, Fmt_i, Fmt_q, Fmt_f, Fmt_d] vs =
      map Inr [slice 0 1 d, slice 1 2 d, slice 3 4 d, slice 7 8 d, slice 15 1 d,
               slice 16 2 d, slice 18 4 d, slice 22 8 d, slice 30 4 d, slice 34 8 d])
   \<and> map code_size [Fmt_B, Fmt_H, Fmt_I, Fmt_Q, Fmt_b, Fmt_h, Fmt_i, Fmt_q, Fmt_f, Fmt_d]
       = [1, 2, 4, 8, 1, 2, 4, 8, 4, 8]
   \<and> map (\<lambda>i. sum_list (take i [1, 2, 4, 8, 1, 2, 4, 8, 4, 8])) [0 ..< 10]
       = [0, 1, 3, 7, 15, 16, 18, 22, 30, 34 :: nat]
   \<and> sum_list [1, 2, 4, 8, 1, 2, 4, 8, 4, 8] = (42 :: nat)
   \<and> map (map_sum id length \<circ> pack_all_primitives)
        [all_zeros_values, all_max_values, all_min_signed_values, common_values,
         u32_0x12345678_values, u64_bigint_values, float_values_values]
       = replicate 7 (Inr 42)
   \<and> map_sum id (\<lambda>d. (length d, slice 0 8 d, slice 8 1 d, slice 9 2 d))
        generate_structs_simple_data
       = Inr (11, le_bytes 8 12345, le_bytes 1 0x42, le_bytes 2 9999)
   \<and> map (\<lambda>i. sum_list (take i [8, 1, 2])) [0 ..< 3] = [0, 8, 9 :: nat]
   \<and> sum_list [8, 1, 2] = (11 :: nat)
   \<and> map_sum id (\<lambda>d. (length d, slice 0 4 d, slice 4 4 d, slice 8 4 d, slice 12 4 d,
                          slice 16 4 d))
        generate_structs_rectangle_data
       = Inr (20, le_bytes 4 10, le_bytes 4 20, le_bytes 4 100, le_bytes 4 80,
              le_bytes 4 0xFF0000)
   \<and> (write_binary_primitives cwd n vs fs = (None, fs') \<longrightarrow>
        (\<exists>d. read_file fs' (join (output_dir cwd) n) = Some d \<and> length d = 42 \<and>
           map2 pack1 [Fmt_B, Fmt_H, Fmt_I, Fmt_Q, Fmt_b, Fmt_h, Fmt_i, Fmt_q, Fmt_f, Fmt_d] vs =
           map Inr [slice 0 1 d, slice 1 2 d, slice 3 4 d, slice 7 8 d, slice 15 1 d,
               slice 16 2 d, slice 18 4 d, slice 22 8 d, slice 30 4 d, slice 34 8 d]))
   \<and> (main_generate_primitive_test_binaries cwd fs = (None, fs') \<and> (n, vs) \<in> set primitive_calls
      \<longrightarrow> (\<exists>d. read_file fs' (join (output_dir cwd) n) = Some d \<and> length d = 42 \<and>
           map2 pack1 [Fmt_B, Fmt_H, Fmt_I, Fmt_Q, Fmt_b, Fmt_h, Fmt_i, Fmt_q, Fmt_f, Fmt_d] vs =
           map Inr [slice 0 1 d, slice 1 2 d, slice 3 4 d, slice 7 8 d, slice 15 1 d,
               slice 16 2 d, slice 18 4 d, slice 22 8 d, slice 30 4 d, slice 34 8 d]))
   \<and> (generate_structs_simple sd fs = (None, fs') \<longrightarrow>
        map_option (\<lambda>d. (length d, slice 0 8 d, slice 8 1 d, slice 9 2 d))
          (read_file fs' (join (BINARY_DIR sd) ''structs/simple.bin''))
        = Some (11, le_bytes 8 12345, le_bytes 1 0x42, le_bytes 2 9999))
   \<and> (generate_structs_rectangle sd fs = (None, fs') \<longrightarrow>
        map_option (\<lambda>d. (length d, slice 0 4 d, slice 4 4 d, slice 8 4 d, slice 12 4 d,
                              slice 16 4 d))
          (read_file fs' (join (BINARY_DIR sd) ''structs/rectangle.bin''))
        = Some (20, le_bytes 4 10, le_bytes 4 20, le_bytes 4 100, le_bytes 4 80,
                le_bytes 4 0xFF0000))
   \<and> (main_generate_test_data sd fs = (None, fs') \<longrightarrow>
        map_option (\<lambda>d. (length d, slice 0 8 d, slice 8 1 d, slice 9 2 d))
          (read_file fs' (join (BINARY_DIR sd) ''structs/simple.bin''))
        = Some (11, le_bytes 8 12345, le_bytes 1 0x42, le_bytes 2 9999)
        \<and> map_option (\<lambda>d. (length d, slice 0 4 d, slice 4 4 d, slice 8 4 d, slice 12 4 d,
                              slice 16 4 d))
          (read_file fs' (join (BINARY_DIR sd) ''structs/rectangle.bin''))
        = Some (20, le_bytes 4 10, le_bytes 4 20, le_bytes 4 100, le_bytes 4 80,
                le_bytes 4 0xFF0000))"
proof -
  have a: "pack_all_primitives vs = Inr d \<longrightarrow>
      length d = 42 \<and> length vs = 10 \<and>
      map2 pack1 [Fmt_B, Fmt_H, Fmt_I, Fmt_Q, Fmt_b, Fmt_h, Fmt_i, Fmt_q, Fmt_f, Fmt_d] vs =
      map Inr [slice 0 1 d, slice 1 2 d, slice 3 4 d, slice 7 8 d, slice 15 1 d,
               slice 16 2 d, slice 18 4 d, slice 22 8 d, slice 30 4 d, slice 34 8 d]"
    using all_primitives_layout by blast
  have b: "map code_size [Fmt_B, Fmt_H, Fmt_I, Fmt_Q, Fmt_b, Fmt_h, Fmt_i, Fmt_q, Fmt_f, Fmt_d]
       = [1, 2, 4, 8, 1, 2, 4, 8, 4, 8]"
    by simp
  have c: "map (\<lambda>i. sum_list (take i [1, 2, 4, 8, 1, 2, 4, 8, 4, 8])) [0 ..< 10]
       = [0, 1, 3, 7, 15, 16, 18, 22, 30, 34 :: nat]"
    by code_simp
  have d: "sum_list [1, 2, 4, 8, 1, 2, 4, 8, 4, 8] = (42 :: nat)"
    by simp
  have e: "map (map_sum id length \<circ> pack_all_primitives)
        [all_zeros_values, all_max_values, all_min_signed_values, common_values,
         u32_0x12345678_values, u64_bigint_values, float_values_values]
       = replicate 7 (Inr 42)"
    by (simp add: all_zeros_bytes all_max_bytes all_min_signed_bytes common_values_bytes
          u32_0x12345678_bytes u64_bigint_bytes float_values_bytes numeral_eq_Suc)
  have f0: "le_bytes 8 12345 = [0x39, 0x30, 0, 0, 0, 0, 0, 0]" by code_simp
  have f1: "le_bytes 1 0x42 = [0x42]" by code_simp
  have f2: "le_bytes 2 9999 = [0x0F, 0x27]" by code_simp
  have f: "map_sum id (\<lambda>d. (length d, slice 0 8 d, slice 8 1 d, slice 9 2 d))
        generate_structs_simple_data
       = Inr (11, le_bytes 8 12345, le_bytes 1 0x42, le_bytes 2 9999)"
    unfolding f0 f1 f2 by (simp add: generate_structs_simple_bytes slice_def)
  have g: "map (\<lambda>i. sum_list (take i [8, 1, 2])) [0 ..< 3] = [0, 8, 9 :: nat]"
    by code_simp
  have h: "sum_list [8, 1, 2] = (11 :: nat)"
    by simp
  have k0: "le_bytes 4 10 = [10, 0, 0, 0]" by code_simp
  have k1: "le_bytes 4 20 = [20, 0, 0, 0]" by code_simp
  have k2: "le_bytes 4 100 = [100, 0, 0, 0]" by code_simp
  have k3: "le_bytes 4 80 = [80, 0, 0, 0]" by code_simp
  have k4: "le_bytes 4 0xFF0000 = [0, 0, 0xFF, 0]" by code_simp
  have k: "map_sum id (\<lambda>d. (length d, slice 0 4 d, slice 4 4 d, slice 8 4 d, slice 12 4 d,
                          slice 16 4 d))
        generate_structs_rectangle_data
       = Inr (20, le_bytes 4 10, le_bytes 4 20, le_bytes 4 100, le_bytes 4 80,
              le_bytes 4 0xFF0000)"
    unfolding k0 k1 k2 k3 k4 by (simp add: generate_structs_rectangle_bytes slice_def)
  have na: "(write_binary_primitives cwd n vs fs = (None, fs') \<longrightarrow>
        (\<exists>d. read_file fs' (join (output_dir cwd) n) = Some d \<and> length d = 42 \<and>
           map2 pack1 [Fmt_B, Fmt_H, Fmt_I, Fmt_Q, Fmt_b, Fmt_h, Fmt_i, Fmt_q, Fmt_f, Fmt_d] vs =
           map Inr [slice 0 1 d, slice 1 2 d, slice 3 4 d, slice 7 8 d, slice 15 1 d,
               slice 16 2 d, slice 18 4 d, slice 22 8 d, slice 30 4 d, slice 34 8 d]))"
  proof
    assume "write_binary_primitives cwd n vs fs = (None, fs')"
    from write_binary_primitives_stores [OF this] obtain d0 where
      p: "pack_all_primitives vs = Inr d0"
      and r: "read_file fs' (join (output_dir cwd) n) = Some d0" by blast
    from all_primitives_layout [OF p] r
    show "(\<exists>d. read_file fs' (join (output_dir cwd) n) = Some d \<and> length d = 42 \<and>
           map2 pack1 [Fmt_B, Fmt_H, Fmt_I, Fmt_Q, Fmt_b, Fmt_h, Fmt_i, Fmt_q, Fmt_f, Fmt_d] vs =
           map Inr [slice 0 1 d, slice 1 2 d, slice 3 4 d, slice 7 8 d, slice 15 1 d,
               slice 16 2 d, slice 18 4 d, slice 22 8 d, slice 30 4 d, slice 34 8 d])" by blast
  qed
  have nb: "(main_generate_primitive_test_binaries cwd fs = (None, fs') \<and> (n, vs) \<in> set primitive_calls
      \<longrightarrow> (\<exists>d. read_file fs' (join (output_dir cwd) n) = Some d \<and> length d = 42 \<and>
           map2 pack1 [Fmt_B, Fmt_H, Fmt_I, Fmt_Q, Fmt_b, Fmt_h, Fmt_i, Fmt_q, Fmt_f, Fmt_d] vs =
           map Inr [slice 0 1 d, slice 1 2 d, slice 3 4 d, slice 7 8 d, slice 15 1 d,
               slice 16 2 d, slice 18 4 d, slice 22 8 d, slice 30 4 d, slice 34 8 d]))"
  proof
    assume "main_generate_primitive_test_binaries cwd fs = (None, fs') \<and> (n, vs) \<in> set primitive_calls"
    then have m: "main_generate_primitive_test_binaries cwd fs = (None, fs')"
      and c: "(n, vs) \<in> set primitive_calls" by simp_all
    from main_primitive_call_stores [OF m c] obtain d0 where
      p: "pack_all_primitives vs = Inr d0"
      and r: "read_file fs' (join (output_dir cwd) n) = Some d0" by blast
    from all_primitives_layout [OF p] r
    show "(\<exists>d. read_file fs' (join (output_dir cwd) n) = Some d \<and> length d = 42 \<and>
           map2 pack1 [Fmt_B, Fmt_H, Fmt_I, Fmt_Q, Fmt_b, Fmt_h, Fmt_i, Fmt_q, Fmt_f, Fmt_d] vs =
           map Inr [slice 0 1 d, slice 1 2 d, slice 3 4 d, slice 7 8 d, slice 15 1 d,
               slice 16 2 d, slice 18 4 d, slice 22 8 d, slice 30 4 d, slice 34 8 d])" by blast
  qed
  have nc: "(generate_structs_simple sd fs = (None, fs') \<longrightarrow>
        map_option (\<lambda>d. (length d, slice 0 8 d, slice 8 1 d, slice 9 2 d))
          (read_file fs' (join (BINARY_DIR sd) ''structs/simple.bin''))
        = Some (11, le_bytes 8 12345, le_bytes 1 0x42, le_bytes 2 9999))"
    using generate_structs_simple_stores [of sd fs fs'] struct_simple_slices by simp
  have nd: "(generate_structs_rectangle sd fs = (None, fs') \<longrightarrow>
        map_option (\<lambda>d. (length d, slice 0 4 d, slice 4 4 d, slice 8 4 d, slice 12 4 d,
                              slice 16 4 d))
          (read_file fs' (join (BINARY_DIR sd) ''structs/rectangle.bin''))
        = Some (20, le_bytes 4 10, le_bytes 4 20, le_bytes 4 100, le_bytes 4 80,
                le_bytes 4 0xFF0000))"
    using generate_structs_rectangle_stores [of sd fs fs'] struct_rectangle_slices by simp
  have ne: "(main_generate_test_data sd fs = (None, fs') \<longrightarrow>
        map_option (\<lambda>d. (length d, slice 0 8 d, slice 8 1 d, slice 9 2 d))
          (read_file fs' (join (BINARY_DIR sd) ''structs/simple.bin''))
        = Some (11, le_bytes 8 12345, le_bytes 1 0x42, le_bytes 2 9999)
        \<and> map_option (\<lambda>d. (length d, slice 0 4 d, slice 4 4 d, slice 8 4 d, slice 12 4 d,
                              slice 16 4 d))
          (read_file fs' (join (BINARY_DIR sd) ''structs/rectangle.bin''))
        = Some (20, le_bytes 4 10, le_bytes 4 20, le_bytes 4 100, le_bytes 4 80,
                le_bytes 4 0xFF0000))"
    using main_stores_structs_simple [of sd fs fs'] main_stores_structs_rectangle [of sd fs fs']
      struct_simple_slices struct_rectangle_slices by simp
  from a b c d e f g h k na nb nc nd ne show ?thesis by (intro conjI)
qed

theorem dense_struct_layout_witness:
  "pack_all_primitives common_values =
     Inr [42, 232, 3, 120, 86, 52, 18, 240, 222, 188, 154, 120, 86, 52, 18, 214,
      46, 251, 192, 29, 254, 255, 235, 50, 164, 248, 255, 255, 255, 255,
      208, 15, 73, 64, 105, 87, 20, 139, 10, 191, 5, 64]
   \<and> length common_values = 10
   \<and> map2 pack1 [Fmt_B, Fmt_H, Fmt_I, Fmt_Q, Fmt_b, Fmt_h, Fmt_i, Fmt_q, Fmt_f, Fmt_d]
        common_values
      = map Inr [[42], [232, 3], [120, 86, 52, 18], [240, 222, 188, 154, 120, 86, 52, 18],
                 [214], [46, 251], [192, 29, 254, 255], [235, 50, 164, 248, 255, 255, 255, 255],
                 [208, 15, 73, 64], [105, 87, 20, 139, 10, 191, 5, 64]]
   \<and> write_binary_primitives [''w''] ''common_values.bin'' common_values Map.empty = (None, snd (write_binary_primitives [''w''] ''common_values.bin'' common_values Map.empty))
   \<and> (\<exists>d. read_file (snd (write_binary_primitives [''w''] ''common_values.bin'' common_values Map.empty)) (join (output_dir [''w'']) ''common_values.bin'') = Some d \<and> length d = 42 \<and>
           map2 pack1 [Fmt_B, Fmt_H, Fmt_I, Fmt_Q, Fmt_b, Fmt_h, Fmt_i, Fmt_q, Fmt_f, Fmt_d] common_values =
           map Inr [slice 0 1 d, slice 1 2 d, slice 3 4 d, slice 7 8 d, slice 15 1 d,
               slice 16 2 d, slice 18 4 d, slice 22 8 d, slice 30 4 d, slice 34 8 d])
   \<and> main_generate_primitive_test_binaries [''w''] Map.empty = (None, snd (main_generate_primitive_test_binaries [''w''] Map.empty))
   \<and> (''common_values.bin'', common_values) \<in> set primitive_calls
   \<and> (\<exists>d. read_file (snd (main_generate_primitive_test_binaries [''w''] Map.empty)) (join (output_dir [''w'']) ''common_values.bin'') = Some d \<and> length d = 42 \<and>
           map2 pack1 [Fmt_B, Fmt_H, Fmt_I, Fmt_Q, Fmt_b, Fmt_h, Fmt_i, Fmt_q, Fmt_f, Fmt_d] common_values =
           map Inr [slice 0 1 d, slice 1 2 d, slice 3 4 d, slice 7 8 d, slice 15 1 d,
               slice 16 2 d, slice 18 4 d, slice 22 8 d, slice 30 4 d, slice 34 8 d])
   \<and> generate_structs_simple [''s''] Map.empty = (None, snd (generate_structs_simple [''s''] Map.empty))
   \<and> map_option (\<lambda>d. (length d, slice 0 8 d, slice 8 1 d, slice 9 2 d))
          (read_file (snd (generate_structs_simple [''s''] Map.empty)) (join (BINARY_DIR [''s'']) ''structs/simple.bin''))
        = Some (11, le_bytes 8 12345, le_bytes 1 0x42, le_bytes 2 9999)
   \<and> generate_structs_rectangle [''s''] Map.empty = (None, snd (generate_structs_rectangle [''s''] Map.empty))
   \<and> map_option (\<lambda>d. (length d, slice 0 4 d, slice 4 4 d, slice 8 4 d, slice 12 4 d,
                              slice 16 4 d))
          (read_file (snd (generate_structs_rectangle [''s''] Map.empty)) (join (BINARY_DIR [''s'']) ''structs/rectangle.bin''))
        = Some (20, le_bytes 4 10, le_bytes 4 20, le_bytes 4 100, le_bytes 4 80,
                le_bytes 4 0xFF0000)
   \<and> main_generate_test_data [''s''] Map.empty = (None, snd (main_generate_test_data [''s''] Map.empty))
   \<and> map_option (\<lambda>d. (length d, slice 0 8 d, slice 8 1 d, slice 9 2 d))
          (read_file (snd (main_generate_test_data [''s''] Map.empty)) (join (BINARY_DIR [''s'']) ''structs/simple.bin''))
        = Some (11, le_bytes 8 12345, le_bytes 1 0x42, le_bytes 2 9999)
   \<and> map_option (\<lambda>d. (length d, slice 0 4 d, slice 4 4 d, slice 8 4 d, slice 12 4 d,
                              slice 16 4 d))
          (read_file (snd (main_generate_test_data [''s''] Map.empty)) (join (BINARY_DIR [''s'']) ''structs/rectangle.bin''))
        = Some (20, le_bytes 4 10, le_bytes 4 20, le_bytes 4 100, le_bytes 4 80,
                le_bytes 4 0xFF0000)"
proof -
  note t0 = dense_struct_layout [where vs = common_values and d = "[42, 232, 3, 120, 86, 52, 18, 240, 222, 188, 154, 120, 86, 52, 18, 214,
      46, 251, 192, 29, 254, 255, 235, 50, 164, 248, 255, 255, 255, 255,
      208, 15, 73, 64, 105, 87, 20, 139, 10, 191, 5, 64]",
      THEN conjunct1, THEN mp, OF common_values_bytes]
  have w0: "pack_all_primitives common_values =
     Inr [42, 232, 3, 120, 86, 52, 18, 240, 222, 188, 154, 120, 86, 52, 18, 214,
      46, 251, 192, 29, 254, 255, 235, 50, 164, 248, 255, 255, 255, 255,
      208, 15, 73, 64, 105, 87, 20, 139, 10, 191, 5, 64]
   \<and> length common_values = 10
   \<and> map2 pack1 [Fmt_B, Fmt_H, Fmt_I, Fmt_Q, Fmt_b, Fmt_h, Fmt_i, Fmt_q, Fmt_f, Fmt_d]
        common_values
      = map Inr [[42], [232, 3], [120, 86, 52, 18], [240, 222, 188, 154, 120, 86, 52, 18],
                 [214], [46, 251], [192, 29, 254, 255], [235, 50, 164, 248, 255, 255, 255, 255],
                 [208, 15, 73, 64], [105, 87, 20, 139, 10, 191, 5, 64]]"
    using t0 common_values_bytes by (simp add: slice_def)
  have c1: "write_binary_primitives [''w''] ''common_values.bin'' common_values Map.empty = (None, snd (write_binary_primitives [''w''] ''common_values.bin'' common_values Map.empty))"
    using write_common_values_completes by (simp add: prod_eq_iff)
  note c2 = main_primitive_completes
  have c3: "(''common_values.bin'', common_values) \<in> set primitive_calls"
    by (simp add: primitive_calls_def)
  have c4: "generate_structs_simple [''s''] Map.empty = (None, snd (generate_structs_simple [''s''] Map.empty))"
    using generate_structs_simple_completes by (simp add: prod_eq_iff)
  have c5: "generate_structs_rectangle [''s''] Map.empty = (None, snd (generate_structs_rectangle [''s''] Map.empty))"
    using generate_structs_rectangle_completes by (simp add: prod_eq_iff)
  note c6 = main_test_data_completes
  note t1 = dense_struct_layout [where cwd = "[''w'']" and n = "''common_values.bin''"
      and vs = common_values and fs = Map.empty and fs' = "snd (write_binary_primitives [''w''] ''common_values.bin'' common_values Map.empty)",
      THEN conjunct2, THEN conjunct2, THEN conjunct2, THEN conjunct2, THEN conjunct2, THEN conjunct2, THEN conjunct2, THEN conjunct2, THEN conjunct2, THEN conjunct1, THEN mp, OF c1]
  note t2 = dense_struct_layout [where cwd = "[''w'']" and n = "''common_values.bin''"
      and vs = common_values and fs = Map.empty and fs' = "snd (main_generate_primitive_test_binaries [''w''] Map.empty)",
      THEN conjunct2, THEN conjunct2, THEN conjunct2, THEN conjunct2, THEN conjunct2, THEN conjunct2, THEN conjunct2, THEN conjunct2, THEN conjunct2, THEN conjunct2, THEN conjunct1, THEN mp, OF conjI [OF c2 c3]]
  note t4 = dense_struct_layout [where sd = "[''s'']" and fs = Map.empty
      and fs' = "snd (generate_structs_simple [''s''] Map.empty)",
      THEN conjunct2, THEN conjunct2, THEN conjunct2, THEN conjunct2, THEN conjunct2, THEN conjunct2, THEN conjunct2, THEN conjunct2, THEN conjunct2, THEN conjunct2, THEN conjunct2, THEN conjunct1, THEN mp, OF c4]
  note t5 = dense_struct_layout [where sd = "[''s'']" and fs = Map.empty
      and fs' = "snd (generate_structs_rectangle [''s''] Map.empty)",
      THEN conjunct2, THEN conjunct2, THEN conjunct2, THEN conjunct2, THEN conjunct2, THEN conjunct2, THEN conjunct2, THEN conjunct2, THEN conjunct2, THEN conjunct2, THEN conjunct2, THEN conjunct2, THEN conjunct1, THEN mp,
      OF c5]
  note t6 = dense_struct_layout [where sd = "[''s'']" and fs = Map.empty
      and fs' = "snd (main_generate_test_data [''s''] Map.empty)",
      THEN conjunct2, THEN conjunct2, THEN conjunct2, THEN conjunct2, THEN conjunct2, THEN conjunct2, THEN conjunct2, THEN conjunct2, THEN conjunct2, THEN conjunct2, THEN conjunct2, THEN conjunct2, THEN conjunct2, THEN mp,
      OF c6]
  from w0 [THEN conjunct1] w0 [THEN conjunct2, THEN conjunct1]
    w0 [THEN conjunct2, THEN conjunct2]
    c1 t1 c2 c3 t2 c4 t4 c5 t5 c6 t6 [THEN conjunct1] t6 [THEN conjunct2]
  show ?thesis by (intro conjI)
qed

text \<open>
  Claim C5: the array fixtures are the concatenation of the little-endian encodings of
  their elements and nothing else: \<^verbatim>\<open>arrays/simple.bin\<close> is 4 + 6 + 8 + 20 = 38 bytes,
  and so is \<^verbatim>\<open>arrays/all_zeros.bin\<close>. These are the bytes, and the length, of the two
  files after a generator, or \<^verbatim>\<open>main\<close>, has run without an error.
\<close>

theorem array_fixtures:
  "generate_arrays_simple_data =
     Inr (map of_int [1, 2, 3, 4]
          @ concat (map (le_bytes 2) [10, 20, 30])
          @ concat (map (le_bytes 4) [100, 200])
          @ concat (map (\<lambda>v. le_bytes 4 (v mod 2 ^ 32)) [- 1, 0, 1, - 100, 100]))
   \<and> generate_arrays_simple_data =
     Inr [1, 2, 3, 4, 10, 0, 20, 0, 30, 0, 100, 0, 0, 0, 200, 0, 0, 0,
          255, 255, 255, 255, 0, 0, 0, 0, 1, 0, 0, 0, 156, 255, 255, 255, 100, 0, 0, 0]
   \<and> map_sum id length generate_arrays_simple_data = Inr (4 + 6 + 8 + 20)
   \<and> map_sum id length generate_arrays_simple_data = Inr 38
   \<and> generate_arrays_zeros_data =
     Inr (map of_int [0, 0, 0, 0]
          @ concat (map (le_bytes 2) [0, 0, 0])
          @ concat (map (le_bytes 4) [0, 0])
          @ concat (map (\<lambda>v. le_bytes 4 (v mod 2 ^ 32)) [0, 0, 0, 0, 0]))
   \<and> map_sum id length generate_arrays_zeros_data = Inr 38
   \<and> generate_arrays_simple sd =
       write_binary sd ''arrays/simple.bin''
         [1, 2, 3, 4, 10, 0, 20, 0, 30, 0, 100, 0, 0, 0, 200, 0, 0, 0,
          255, 255, 255, 255, 0, 0, 0, 0, 1, 0, 0, 0, 156, 255, 255, 255, 100, 0, 0, 0]
   \<and> generate_arrays_zeros sd = write_binary sd ''arrays/all_zeros.bin'' (replicate 38 0)
   \<and> (generate_arrays_simple sd fs = (None, fs') \<longrightarrow>
        read_file fs' (join (BINARY_DIR sd) ''arrays/simple.bin'') = Some [1, 2, 3, 4, 10, 0, 20, 0, 30, 0, 100, 0, 0, 0, 200, 0, 0, 0,
          255, 255, 255, 255, 0, 0, 0, 0, 1, 0, 0, 0, 156, 255, 255, 255, 100, 0, 0, 0]
        \<and> map_option length (read_file fs' (join (BINARY_DIR sd) ''arrays/simple.bin'')) = Some 38)
   \<and> (generate_arrays_zeros sd fs = (None, fs') \<longrightarrow>
        read_file fs' (join (BINARY_DIR sd) ''arrays/all_zeros.bin'') = Some (replicate 38 0)
        \<and> map_option length (read_file fs' (join (BINARY_DIR sd) ''arrays/all_zeros.bin'')) = Some 38)
   \<and> (main_generate_test_data sd fs = (None, fs') \<longrightarrow>
        read_file fs' (join (BINARY_DIR sd) ''arrays/simple.bin'') = Some [1, 2, 3, 4, 10, 0, 20, 0, 30, 0, 100, 0, 0, 0, 200, 0, 0, 0,
          255, 255, 255, 255, 0, 0, 0, 0, 1, 0, 0, 0, 156, 255, 255, 255, 100, 0, 0, 0]
        \<and> map_option length (read_file fs' (join (BINARY_DIR sd) ''arrays/simple.bin'')) = Some 38
        \<and> read_file fs' (join (BINARY_DIR sd) ''arrays/all_zeros.bin'') = Some (replicate 38 0)
        \<and> map_option length (read_file fs' (join (BINARY_DIR sd) ''arrays/all_zeros.bin'')) = Some 38)"
proof -
  have a: "map of_int [1, 2, 3, 4]
          @ concat (map (le_bytes 2) [10, 20, 30])
          @ concat (map (le_bytes 4) [100, 200])
          @ concat (map (\<lambda>v. le_bytes 4 (v mod 2 ^ 32)) [- 1, 0, 1, - 100, 100])
     = ([1, 2, 3, 4, 10, 0, 20, 0, 30, 0, 100, 0, 0, 0, 200, 0, 0, 0,
          255, 255, 255, 255, 0, 0, 0, 0, 1, 0, 0, 0, 156, 255, 255, 255, 100, 0, 0, 0] :: byte list)"
    by code_simp
  have b: "map of_int [0, 0, 0, 0]
          @ concat (map (le_bytes 2) [0, 0, 0])
          @ concat (map (le_bytes 4) [0, 0])
          @ concat (map (\<lambda>v. le_bytes 4 (v mod 2 ^ 32)) [0, 0, 0, 0, 0])
     = (replicate 38 0 :: byte list)"
    by code_simp
  have old: "generate_arrays_simple_data =
     Inr (map of_int [1, 2, 3, 4]
          @ concat (map (le_bytes 2) [10, 20, 30])
          @ concat (map (le_bytes 4) [100, 200])
          @ concat (map (\<lambda>v. le_bytes 4 (v mod 2 ^ 32)) [- 1, 0, 1, - 100, 100]))
   \<and> generate_arrays_simple_data =
     Inr [1, 2, 3, 4, 10, 0, 20, 0, 30, 0, 100, 0, 0, 0, 200, 0, 0, 0,
          255, 255, 255, 255, 0, 0, 0, 0, 1, 0, 0, 0, 156, 255, 255, 255, 100, 0, 0, 0]
   \<and> map_sum id length generate_arrays_simple_data = Inr (4 + 6 + 8 + 20)
   \<and> map_sum id length generate_arrays_simple_data = Inr 38
   \<and> generate_arrays_zeros_data =
     Inr (map of_int [0, 0, 0, 0]
          @ concat (map (le_bytes 2) [0, 0, 0])
          @ concat (map (le_bytes 4) [0, 0])
          @ concat (map (\<lambda>v. le_bytes 4 (v mod 2 ^ 32)) [0, 0, 0, 0, 0]))
   \<and> map_sum id length generate_arrays_zeros_data = Inr 38
   \<and> generate_arrays_simple sd =
       write_binary sd ''arrays/simple.bin''
         [1, 2, 3, 4, 10, 0, 20, 0, 30, 0, 100, 0, 0, 0, 200, 0, 0, 0,
          255, 255, 255, 255, 0, 0, 0, 0, 1, 0, 0, 0, 156, 255, 255, 255, 100, 0, 0, 0]
   \<and> generate_arrays_zeros sd = write_binary sd ''arrays/all_zeros.bin'' (replicate 38 0)"
    unfolding a b
    by (simp add: generate_arrays_simple_bytes generate_arrays_zeros_bytes
          generate_arrays_simple_writes generate_arrays_zeros_writes)
  have s1: "(generate_arrays_simple sd fs = (None, fs') \<longrightarrow>
        read_file fs' (join (BINARY_DIR sd) ''arrays/simple.bin'') = Some [1, 2, 3, 4, 10, 0, 20, 0, 30, 0, 100, 0, 0, 0, 200, 0, 0, 0,
          255, 255, 255, 255, 0, 0, 0, 0, 1, 0, 0, 0, 156, 255, 255, 255, 100, 0, 0, 0]
        \<and> map_option length (read_file fs' (join (BINARY_DIR sd) ''arrays/simple.bin'')) = Some 38)"
    using generate_arrays_simple_stores [of sd fs fs'] by simp
  have s2: "(generate_arrays_zeros sd fs = (None, fs') \<longrightarrow>
        read_file fs' (join (BINARY_DIR sd) ''arrays/all_zeros.bin'') = Some (replicate 38 0)
        \<and> map_option length (read_file fs' (join (BINARY_DIR sd) ''arrays/all_zeros.bin'')) = Some 38)"
    using generate_arrays_zeros_stores [of sd fs fs'] by simp
  have s3: "(main_generate_test_data sd fs = (None, fs') \<longrightarrow>
        read_file fs' (join (BINARY_DIR sd) ''arrays/simple.bin'') = Some [1, 2, 3, 4, 10, 0, 20, 0, 30, 0, 100, 0, 0, 0, 200, 0, 0, 0,
          255, 255, 255, 255, 0, 0, 0, 0, 1, 0, 0, 0, 156, 255, 255, 255, 100, 0, 0, 0]
        \<and> map_option length (read_file fs' (join (BINARY_DIR sd) ''arrays/simple.bin'')) = Some 38
        \<and> read_file fs' (join (BINARY_DIR sd) ''arrays/all_zeros.bin'') = Some (replicate 38 0)
        \<and> map_option length (read_file fs' (join (BINARY_DIR sd) ''arrays/all_zeros.bin'')) = Some 38)"
    using main_stores_arrays_simple [of sd fs fs'] main_stores_arrays_zeros [of sd fs fs']
    by simp
  from old s1 s2 s3 show ?thesis by blast
qed

theorem array_fixtures_witness:
  "generate_arrays_simple [''s''] Map.empty = (None, snd (generate_arrays_simple [''s''] Map.empty))
   \<and> read_file (snd (generate_arrays_simple [''s''] Map.empty)) (join (BINARY_DIR [''s'']) ''arrays/simple.bin'') = Some [1, 2, 3, 4, 10, 0, 20, 0, 30, 0, 100, 0, 0, 0, 200, 0, 0, 0,
          255, 255, 255, 255, 0, 0, 0, 0, 1, 0, 0, 0, 156, 255, 255, 255, 100, 0, 0, 0]
        \<and> map_option length (read_file (snd (generate_arrays_simple [''s''] Map.empty)) (join (BINARY_DIR [''s'']) ''arrays/simple.bin'')) = Some 38
   \<and> generate_arrays_zeros [''s''] Map.empty = (None, snd (generate_arrays_zeros [''s''] Map.empty))
   \<and> read_file (snd (generate_arrays_zeros [''s''] Map.empty)) (join (BINARY_DIR [''s'']) ''arrays/all_zeros.bin'') = Some (replicate 38 0)
        \<and> map_option length (read_file (snd (generate_arrays_zeros [''s''] Map.empty)) (join (BINARY_DIR [''s'']) ''arrays/all_zeros.bin'')) = Some 38
   \<and> main_generate_test_data [''s''] Map.empty = (None, snd (main_generate_test_data [''s''] Map.empty))
   \<and> read_file (snd (main_generate_test_data [''s''] Map.empty)) (join (BINARY_DIR [''s'']) ''arrays/simple.bin'') = Some [1, 2, 3, 4, 10, 0, 20, 0, 30, 0, 100, 0, 0, 0, 200, 0, 0, 0,
          255, 255, 255, 255, 0, 0, 0, 0, 1, 0, 0, 0, 156, 255, 255, 255, 100, 0, 0, 0]
        \<and> map_option length (read_file (snd (main_generate_test_data [''s''] Map.empty)) (join (BINARY_DIR [''s'']) ''arrays/simple.bin'')) = Some 38
   \<and> read_file (snd (main_generate_test_data [''s''] Map.empty)) (join (BINARY_DIR [''s'']) ''arrays/all_zeros.bin'') = Some (replicate 38 0)
        \<and> map_option length (read_file (snd (main_generate_test_data [''s''] Map.empty)) (join (BINARY_DIR [''s'']) ''arrays/all_zeros.bin'')) = Some 38"
proof -
  have c1: "generate_arrays_simple [''s''] Map.empty = (None, snd (generate_arrays_simple [''s''] Map.empty))"
    using generate_arrays_simple_completes by (simp add: prod_eq_iff)
  have c2: "generate_arrays_zeros [''s''] Map.empty = (None, snd (generate_arrays_zeros [''s''] Map.empty))"
    using generate_arrays_zeros_completes by (simp add: prod_eq_iff)
  note c3 = main_test_data_completes
  from array_fixtures [where sd = "[''s'']" and fs = Map.empty and fs' = "snd (generate_arrays_simple [''s''] Map.empty)"] c1
  have r1: "read_file (snd (generate_arrays_simple [''s''] Map.empty)) (join (BINARY_DIR [''s'']) ''arrays/simple.bin'') = Some [1, 2, 3, 4, 10, 0, 20, 0, 30, 0, 100, 0, 0, 0, 200, 0, 0, 0,
          255, 255, 255, 255, 0, 0, 0, 0, 1, 0, 0, 0, 156, 255, 255, 255, 100, 0, 0, 0]
        \<and> map_option length (read_file (snd (generate_arrays_simple [''s''] Map.empty)) (join (BINARY_DIR [''s'']) ''arrays/simple.bin'')) = Some 38"
    by blast
  from array_fixtures [where sd = "[''s'']" and fs = Map.empty and fs' = "snd (generate_arrays_zeros [''s''] Map.empty)"] c2
  have r2: "read_file (snd (generate_arrays_zeros [''s''] Map.empty)) (join (BINARY_DIR [''s'']) ''arrays/all_zeros.bin'') = Some (replicate 38 0)
        \<and> map_option length (read_file (snd (generate_arrays_zeros [''s''] Map.empty)) (join (BINARY_DIR [''s'']) ''arrays/all_zeros.bin'')) = Some 38"
    by blast
  from array_fixtures [where sd = "[''s'']" and fs = Map.empty and fs' = "snd (main_generate_test_data [''s''] Map.empty)"] c3
  have r3: "read_file (snd (main_generate_test_data [''s''] Map.empty)) (join (BINARY_DIR [''s'']) ''arrays/simple.bin'') = Some [1, 2, 3, 4, 10, 0, 20, 0, 30, 0, 100, 0, 0, 0, 200, 0, 0, 0,
          255, 255, 255, 255, 0, 0, 0, 0, 1, 0, 0, 0, 156, 255, 255, 255, 100, 0, 0, 0]
        \<and> map_option length (read_file (snd (main_generate_test_data [''s''] Map.empty)) (join (BINARY_DIR [''s'']) ''arrays/simple.bin'')) = Some 38
        \<and> read_file (snd (main_generate_test_data [''s''] Map.empty)) (join (BINARY_DIR [''s'']) ''arrays/all_zeros.bin'') = Some (replicate 38 0)
        \<and> map_option length (read_file (snd (main_generate_test_data [''s''] Map.empty)) (join (BINARY_DIR [''s'']) ''arrays/all_zeros.bin'')) = Some 38"
    by blast
  from c1 c2 c3 r1 r2 r3 show ?thesis by blast
qed

section \<open>Determinism of fixture generation\<close>

text \<open>
  Claim C9: the content of every file the two generators produce is a constant, the
  same in every environment and in every run. For any directory of the script (or working
  directory) and any file system the run starts from, whether the run completes or an
  exception ends it: every path whose content the run changed is either a directory it
  created or a fixture file, holding the bytes the fixture table gives for its name; a
  run that completes leaves every fixture of the table in place with those bytes; so any
  two completed runs, from whatever directories and file systems, leave identical bytes
  under every fixture name. Running a generator again after a completed run completes
  too and changes nothing.
\<close>

theorem fixture_generation_deterministic:
  "(main_generate_test_data sd fs = (r, fs') \<longrightarrow>
      (\<forall>p. fs' p = fs p \<or> (fs p = None \<and> fs' p = Some Dir)
           \<or> (\<exists>k \<in> set test_data_fixtures.
                 p = join (BINARY_DIR sd) (fst k) \<and> fs' p = Some (File (snd k))))
      \<and> (r = None \<longrightarrow> (\<forall>k \<in> set test_data_fixtures.
             fs' (join (BINARY_DIR sd) (fst k)) = Some (File (snd k)))))
   \<and> (main_generate_primitive_test_binaries cwd fs = (r, fs') \<longrightarrow>
      (\<forall>p. fs' p = fs p \<or> (fs p = None \<and> fs' p = Some Dir)
           \<or> (\<exists>k \<in> set primitive_fixtures.
                 p = join (output_dir cwd) (fst k) \<and> fs' p = Some (File (snd k))))
      \<and> (r = None \<longrightarrow> (\<forall>k \<in> set primitive_fixtures.
             fs' (join (output_dir cwd) (fst k)) = Some (File (snd k)))))
   \<and> (main_generate_test_data sd fs = (None, fs')
        \<and> main_generate_test_data sd2 fs2 = (None, fs2') \<and> k \<in> set test_data_fixtures
      \<longrightarrow> fs' (join (BINARY_DIR sd) (fst k)) = fs2' (join (BINARY_DIR sd2) (fst k)))
   \<and> (main_generate_primitive_test_binaries cwd fs = (None, fs')
        \<and> main_generate_primitive_test_binaries cwd2 fs2 = (None, fs2')
        \<and> k \<in> set primitive_fixtures
      \<longrightarrow> fs' (join (output_dir cwd) (fst k)) = fs2' (join (output_dir cwd2) (fst k)))
   \<and> (main_generate_test_data sd fs = (None, fs')
      \<longrightarrow> main_generate_test_data sd fs' = (None, fs'))
   \<and> (main_generate_primitive_test_binaries cwd fs = (None, fs')
      \<longrightarrow> main_generate_primitive_test_binaries cwd fs' = (None, fs'))"
proof (intro conjI impI)
  assume m: "main_generate_test_data sd fs = (r, fs')"
  from test_data_table_run [OF m [unfolded main_generate_test_data_table]]
  show "\<forall>p. fs' p = fs p \<or> (fs p = None \<and> fs' p = Some Dir)
           \<or> (\<exists>k \<in> set test_data_fixtures.
                 p = join (BINARY_DIR sd) (fst k) \<and> fs' p = Some (File (snd k)))"
    and "r = None \<Longrightarrow> \<forall>k \<in> set test_data_fixtures.
             fs' (join (BINARY_DIR sd) (fst k)) = Some (File (snd k))"
    by blast+
next
  assume m: "main_generate_primitive_test_binaries cwd fs = (r, fs')"
  from primitive_table_run [OF m [unfolded main_generate_primitive_test_binaries_table]]
  show "\<forall>p. fs' p = fs p \<or> (fs p = None \<and> fs' p = Some Dir)
           \<or> (\<exists>k \<in> set primitive_fixtures.
                 p = join (output_dir cwd) (fst k) \<and> fs' p = Some (File (snd k)))"
    and "r = None \<Longrightarrow> \<forall>k \<in> set primitive_fixtures.
             fs' (join (output_dir cwd) (fst k)) = Some (File (snd k))"
    by blast+
next
  assume a: "main_generate_test_data sd fs = (None, fs')
        \<and> main_generate_test_data sd2 fs2 = (None, fs2') \<and> k \<in> set test_data_fixtures"
  then have m1: "main_generate_test_data sd fs = (None, fs')"
    and m2: "main_generate_test_data sd2 fs2 = (None, fs2')"
    and k: "k \<in> set test_data_fixtures" by simp_all
  from test_data_table_run [OF m1 [unfolded main_generate_test_data_table]] k
  have "fs' (join (BINARY_DIR sd) (fst k)) = Some (File (snd k))" by blast
  moreover from test_data_table_run [OF m2 [unfolded main_generate_test_data_table]] k
  have "fs2' (join (BINARY_DIR sd2) (fst k)) = Some (File (snd k))" by blast
  ultimately show "fs' (join (BINARY_DIR sd) (fst k)) = fs2' (join (BINARY_DIR sd2) (fst k))"
    by simp
next
  assume a: "main_generate_primitive_test_binaries cwd fs = (None, fs')
        \<and> main_generate_primitive_test_binaries cwd2 fs2 = (None, fs2')
        \<and> k \<in> set primitive_fixtures"
  then have m1: "main_generate_primitive_test_binaries cwd fs = (None, fs')"
    and m2: "main_generate_primitive_test_binaries cwd2 fs2 = (None, fs2')"
    and k: "k \<in> set primitive_fixtures" by simp_all
  from primitive_table_run [OF m1 [unfolded main_generate_primitive_test_binaries_table]] k
  have "fs' (join (output_dir cwd) (fst k)) = Some (File (snd k))" by blast
  moreover from primitive_table_run [OF m2 [unfolded main_generate_primitive_test_binaries_table]] k
  have "fs2' (join (output_dir cwd2) (fst k)) = Some (File (snd k))" by blast
  ultimately show "fs' (join (output_dir cwd) (fst k)) = fs2' (join (output_dir cwd2) (fst k))"
    by simp
next
  assume "main_generate_test_data sd fs = (None, fs')"
  then show "main_generate_test_data sd fs' = (None, fs')"
    by (rule test_data_rerun)
next
  assume "main_generate_primitive_test_binaries cwd fs = (None, fs')"
  then show "main_generate_primitive_test_binaries cwd fs' = (None, fs')"
    by (rule primitive_rerun)
qed

theorem fixture_generation_deterministic_witness:
  "fst (main_generate_test_data [''s''] Map.empty) = None
   \<and> map (\<lambda>k. snd (main_generate_test_data [''s''] Map.empty)
                  (join (BINARY_DIR [''s'']) (fst k))) test_data_fixtures
       = map (\<lambda>k. Some (File (snd k))) test_data_fixtures
   \<and> fst (main_generate_primitive_test_binaries [''w''] Map.empty) = None
   \<and> map (\<lambda>k. snd (main_generate_primitive_test_binaries [''w''] Map.empty)
                  (join (output_dir [''w'']) (fst k))) primitive_fixtures
       = map (\<lambda>k. Some (File (snd k))) primitive_fixtures
   \<and> main_generate_test_data [''s''] (snd (main_generate_test_data [''s''] Map.empty))
       = (None, snd (main_generate_test_data [''s''] Map.empty))
   \<and> main_generate_primitive_test_binaries [''w'']
         (snd (main_generate_primitive_test_binaries [''w''] Map.empty))
       = (None, snd (main_generate_primitive_test_binaries [''w''] Map.empty))"
proof -
  have a: "main_generate_test_data [''s''] Map.empty =
             (None, snd (main_generate_test_data [''s''] Map.empty))"
    using test_data_run_completes by (simp add: prod_eq_iff)
  have b: "main_generate_primitive_test_binaries [''w''] Map.empty =
             (None, snd (main_generate_primitive_test_binaries [''w''] Map.empty))"
    using primitive_run_completes by (simp add: prod_eq_iff)
  from fixture_generation_deterministic
         [of "[''s'']" Map.empty None "snd (main_generate_test_data [''s''] Map.empty)"] a
  have c: "\<forall>k \<in> set test_data_fixtures.
         snd (main_generate_test_data [''s''] Map.empty) (join (BINARY_DIR [''s'']) (fst k))
           = Some (File (snd k))"
    by blast
  from fixture_generation_deterministic
         [of _ _ None "snd (main_generate_primitive_test_binaries [''w''] Map.empty)"
             "[''w'']"] b
  have d: "\<forall>k \<in> set primitive_fixtures.
         snd (main_generate_primitive_test_binaries [''w''] Map.empty)
             (join (output_dir [''w'']) (fst k))
           = Some (File (snd k))"
    by blast
  from fixture_generation_deterministic
         [of "[''s'']" Map.empty None "snd (main_generate_test_data [''s''] Map.empty)"] a
  have e: "main_generate_test_data [''s''] (snd (main_generate_test_data [''s''] Map.empty))
       = (None, snd (main_generate_test_data [''s''] Map.empty))"
    by blast
  from fixture_generation_deterministic
         [of _ _ None "snd (main_generate_primitive_test_binaries [''w''] Map.empty)"
             "[''w'']"] b
  have f: "main_generate_primitive_test_binaries [''w'']
         (snd (main_generate_primitive_test_binaries [''w''] Map.empty))
       = (None, snd (main_generate_primitive_test_binaries [''w''] Map.empty))"
    by blast
  from c d e f test_data_run_completes primitive_run_completes show ?thesis
    by (simp only: map_eq_conv simp_thms)
qed

end
